theory Spec2Isabelle
  imports Main "HOL-Library.Word" "HOL-Library.Monad_Syntax"
begin

unbundle bit_operations_syntax

section \<open>Machine integers, address ranges and byte patches\<close>

type_synonym u8 = "8 word"
type_synonym u32 = "32 word"
type_synonym u64 = "64 word"

text \<open>
  \<^verbatim>\<open>DebugAddressRange\<close>: a pair of 64-bit addresses. Its default constructor gives the
  zero range. Byte offsets into a section are natural numbers; the values written into a
  section are words of the width the patch has.
\<close>

record DebugAddressRange =
  LowPC :: u64
  HighPC :: u64

definition DebugAddressRange_default :: DebugAddressRange where
  "DebugAddressRange_default = \<lparr>LowPC = 0, HighPC = 0\<rparr>"

text \<open>
  The three kinds of patch that the rewriter hands to a \<^verbatim>\<open>SimpleBinaryPatcher\<close>:
  \<^verbatim>\<open>addLE32Patch(Offset, Value)\<close>, \<^verbatim>\<open>addLE64Patch(Offset, Value)\<close> and
  \<^verbatim>\<open>addUDataPatch(Offset, Value, Size)\<close>.
\<close>

datatype Patch =
  LE32Patch nat u32
| LE64Patch nat u64
| UDataPatch nat u64 nat

section \<open>Location lists: \<^verbatim>\<open>makeFinalLocListsSection\<close>\<close>

text \<open>
  A location-list writer owned by one unit. \<^verbatim>\<open>IsLoclistWriter\<close> is
  \<^verbatim>\<open>llvm::isa<DebugLoclistWriter>\<close> (the split-unit variant); \<^verbatim>\<open>finalize\<close> is the
  buffer that the writer's \<^verbatim>\<open>finalize()\<close> hands back.
\<close>

record DebugLocWriter =
  IsLoclistWriter :: bool
  finalize :: "u8 list"

record LocListDebugInfoPatchType =
  DebugInfoOffset :: nat
  CUIndex :: nat
  CUWriterOffset :: nat

text \<open>
  The first loop of \<^verbatim>\<open>makeFinalLocListsSection\<close>, over \<^verbatim>\<open>LocListWritersByCU\<close> in its
  iteration order. The accumulator is \<^verbatim>\<open>(SectionOffset, SectionOffsetByCU, LocBuffer)\<close>.
\<close>

fun finalizeLocWriters ::
  "(nat \<times> DebugLocWriter) list \<Rightarrow> nat \<times> (nat \<rightharpoonup> nat) \<times> u8 list
     \<Rightarrow> nat \<times> (nat \<rightharpoonup> nat) \<times> u8 list" where
  "finalizeLocWriters [] acc = acc"
| "finalizeLocWriters ((cu, LocWriter) # rest) (SectionOffset, SectionOffsetByCU, LocBuffer) =
     (if IsLoclistWriter LocWriter
      then finalizeLocWriters rest (SectionOffset, SectionOffsetByCU, LocBuffer)
      else finalizeLocWriters rest
             (SectionOffset + length (finalize LocWriter),
              SectionOffsetByCU(cu \<mapsto> SectionOffset),
              LocBuffer @ finalize LocWriter))"

text \<open>\<^verbatim>\<open>SectionOffsetByCU[k]\<close>: \<^verbatim>\<open>operator[]\<close> of an unordered map gives 0 for an absent key.\<close>

definition SectionOffsetByCU_at :: "(nat \<rightharpoonup> nat) \<Rightarrow> nat \<Rightarrow> nat" where
  "SectionOffsetByCU_at m k = (case m k of None \<Rightarrow> 0 | Some v \<Rightarrow> v)"

text \<open>
  One resolved patch: \<^verbatim>\<open>addLE32Patch(Patch.DebugInfoOffset,
  SectionOffsetByCU[Patch.CUIndex] + Patch.CUWriterOffset)\<close>. The 64-bit sum is cut to 32
  bits by the patch.
\<close>

definition resolveLocListPatch :: "(nat \<rightharpoonup> nat) \<Rightarrow> LocListDebugInfoPatchType \<Rightarrow> Patch" where
  "resolveLocListPatch byCU p =
     LE32Patch (DebugInfoOffset p)
       (of_nat (SectionOffsetByCU_at byCU (CUIndex p) + CUWriterOffset p))"

text \<open>
  \<^verbatim>\<open>makeFinalLocListsSection\<close>. Arguments: the writers, the deferred patches of the split
  units (by DWO id), the deferred patches of the main binary. Result: the section bytes,
  the new patches for each split unit's debug-info patcher, the new patches for the main
  debug-info patcher. The section starts with an empty list of 16 zero bytes.
\<close>

definition makeFinalLocListsSection ::
  "(nat \<times> DebugLocWriter) list \<Rightarrow> (nat \<times> LocListDebugInfoPatchType list) list
     \<Rightarrow> LocListDebugInfoPatchType list
     \<Rightarrow> u8 list \<times> (nat \<times> Patch list) list \<times> Patch list" where
  "makeFinalLocListsSection LocListWritersByCU DwoLocListDebugInfoPatches LocListDebugInfoPatches =
     (case finalizeLocWriters LocListWritersByCU (2 * 8, Map.empty, replicate 16 0) of
        (SectionOffset, SectionOffsetByCU, LocBuffer) \<Rightarrow>
          (LocBuffer,
           map (\<lambda>(DWOId, ps). (DWOId, map (resolveLocListPatch SectionOffsetByCU) ps))
             DwoLocListDebugInfoPatches,
           map (resolveLocListPatch SectionOffsetByCU) LocListDebugInfoPatches))"

text \<open>
  The resolution as the specification words it: the base of the unit at position \<open>i\<close> is
  the sum of the buffer sizes of the units before it, and the resolved offset is that base
  plus the local offset.
\<close>

definition spec_unit_base :: "(nat \<times> DebugLocWriter) list \<Rightarrow> nat \<Rightarrow> nat" where
  "spec_unit_base ws i = sum_list (map (\<lambda>(cu, w). length (finalize w)) (take i ws))"

definition spec_resolved_offset :: "(nat \<times> DebugLocWriter) list \<Rightarrow> nat \<Rightarrow> nat \<Rightarrow> nat" where
  "spec_resolved_offset ws i local = spec_unit_base ws i + local"

text \<open>
  What the code computes: the 16 bytes of the leading empty list, plus the buffer sizes
  of the preceding writers that are not split-unit writers.
\<close>

definition code_unit_base :: "(nat \<times> DebugLocWriter) list \<Rightarrow> nat \<Rightarrow> nat" where
  "code_unit_base ws i =
     16 + sum_list (map (\<lambda>(cu, w). length (finalize w))
                      (filter (\<lambda>(cu, w). \<not> IsLoclistWriter w) (take i ws)))"

section \<open>Little-endian reads and writes\<close>

text \<open>
  \<^verbatim>\<open>read32le\<close>, \<^verbatim>\<open>read64le\<close>, \<^verbatim>\<open>write32le\<close> and \<^verbatim>\<open>write64le\<close> of
  \<^verbatim>\<open>llvm/Support/Endian.h\<close>: the least significant byte comes first. A read takes the
  buffer and the offset of the first byte.
\<close>

definition le_bytes :: "nat \<Rightarrow> 'a::len word \<Rightarrow> u8 list" where
  "le_bytes n w = map (\<lambda>i. ucast (drop_bit (8 * i) w)) [0..<n]"

definition le_word :: "u8 list \<Rightarrow> 'a::len word" where
  "le_word bs = foldr (\<lambda>b acc. ucast b OR push_bit 8 acc) bs 0"

definition write32le :: "u32 \<Rightarrow> u8 list" where
  "write32le w = le_bytes 4 w"

definition write64le :: "u64 \<Rightarrow> u8 list" where
  "write64le w = le_bytes 8 w"

definition read32le :: "u8 list \<Rightarrow> nat \<Rightarrow> u32" where
  "read32le Data off = le_word (take 4 (drop off Data))"

definition read64le :: "u8 list \<Rightarrow> nat \<Rightarrow> u64" where
  "read64le Data off = le_word (take 8 (drop off Data))"

section \<open>\<^verbatim>\<open>.gdb_index\<close>: \<^verbatim>\<open>updateGdbIndexSection\<close>\<close>

text \<open>
  The ways \<^verbatim>\<open>updateGdbIndexSection\<close> can fail to return: \<^verbatim>\<open>exit(1)\<close> after one of its
  three diagnostics, a read past the end of the section contents, and the assertion
  \<^verbatim>\<open>"size calculation error"\<close>.
\<close>

datatype GdbIndexError =
  ExitVersion
| ExitCUCountMismatch
| ExitCUOffsetMismatch
| ReadOutOfBounds
| SizeCalculationError

text \<open>
  The loop that checks the CU list against the units of the context and fills
  \<^verbatim>\<open>OffsetToIndexMap\<close>, a \<^verbatim>\<open>std::map<uint32_t, uint32_t>\<close>. \<open>Data\<close> is the offset of the
  read pointer in the section contents.
\<close>

fun verifyCUList ::
  "u8 list \<Rightarrow> nat \<Rightarrow> u64 list \<Rightarrow> nat \<Rightarrow> (u32 \<rightharpoonup> u32) \<Rightarrow> GdbIndexError + (u32 \<rightharpoonup> u32)" where
  "verifyCUList GdbIndexContents Data [] Index OffsetToIndexMap = Inr OffsetToIndexMap"
| "verifyCUList GdbIndexContents Data (CUOffset # rest) Index OffsetToIndexMap =
     (if length GdbIndexContents < Data + 8 then Inl ReadOutOfBounds
      else let Offset = read64le GdbIndexContents Data in
        if CUOffset \<noteq> Offset then Inl ExitCUOffsetMismatch
        else verifyCUList GdbIndexContents (Data + 16) rest (Index + 1)
               (OffsetToIndexMap(ucast Offset \<mapsto> of_nat Index)))"

text \<open>\<^verbatim>\<open>OffsetToIndexMap[k]\<close>: 0 for an absent key.\<close>

definition OffsetToIndexMap_at :: "(u32 \<rightharpoonup> u32) \<Rightarrow> u64 \<Rightarrow> u32" where
  "OffsetToIndexMap_at m k = (case m (ucast k) of None \<Rightarrow> 0 | Some v \<Rightarrow> v)"

text \<open>
  The size loop: \<^verbatim>\<open>NewAddressTableSize += Ranges.size() * 20\<close> in a \<^verbatim>\<open>uint32_t\<close>.
\<close>

definition NumRanges :: "(u64 \<times> DebugAddressRange list) list \<Rightarrow> nat" where
  "NumRanges CUAddressRanges = sum_list (map (\<lambda>(cu, Ranges). length Ranges) CUAddressRanges)"

definition NewAddressTableSize :: "(u64 \<times> DebugAddressRange list) list \<Rightarrow> u32" where
  "NewAddressTableSize CUAddressRanges =
     foldl (\<lambda>acc (cu, Ranges). acc + of_nat (length Ranges * 20)) 0 CUAddressRanges"

text \<open>The generated address table: 20 bytes for each range of each unit.\<close>

definition AddressTableEntry :: "u32 \<Rightarrow> DebugAddressRange \<Rightarrow> u8 list" where
  "AddressTableEntry CUIdx R =
     write64le (LowPC R) @ write64le (HighPC R) @ write32le CUIdx"

definition NewAddressTable :: "(u32 \<rightharpoonup> u32) \<Rightarrow> (u64 \<times> DebugAddressRange list) list \<Rightarrow> u8 list" where
  "NewAddressTable OffsetToIndexMap CUAddressRanges =
     concat (map (\<lambda>(cu, Ranges).
               concat (map (AddressTableEntry (OffsetToIndexMap_at OffsetToIndexMap cu)) Ranges))
             CUAddressRanges)"

text \<open>
  \<^verbatim>\<open>updateGdbIndexSection\<close> for a binary that has a \<^verbatim>\<open>.gdb_index\<close> section. Arguments:
  the section contents, the offsets of the compile units in the order of the context, and
  \<^verbatim>\<open>ARangesSectionWriter->getCUAddressRanges()\<close> in its iteration order. The header fields
  are 32-bit and their differences wrap; \<^verbatim>\<open>Delta\<close> is an \<^verbatim>\<open>int32_t\<close>, added sign-extended
  to the 64-bit size.
\<close>

definition updateGdbIndexSection ::
  "u8 list \<Rightarrow> u64 list \<Rightarrow> (u64 \<times> DebugAddressRange list) list \<Rightarrow> GdbIndexError + u8 list" where
  "updateGdbIndexSection GdbIndexContents CUOffsets CUAddressRanges =
     (if length GdbIndexContents < 24 then Inl ReadOutOfBounds
      else
        let Version = read32le GdbIndexContents 0 in
        if Version \<noteq> 7 \<and> Version \<noteq> 8 then Inl ExitVersion
        else
          let CUListOffset = read32le GdbIndexContents 4;
              CUTypesOffset = read32le GdbIndexContents 8;
              AddressTableOffset = read32le GdbIndexContents 12;
              SymbolTableOffset = read32le GdbIndexContents 16;
              ConstantPoolOffset = read32le GdbIndexContents 20;
              CUListSize = CUTypesOffset - CUListOffset;
              NumCUs = length CUOffsets
          in
          if CUListSize \<noteq> of_nat (NumCUs * 16) then Inl ExitCUCountMismatch
          else
            case verifyCUList GdbIndexContents 24 CUOffsets 0 Map.empty of
              Inl e \<Rightarrow> Inl e
            | Inr OffsetToIndexMap \<Rightarrow>
                let OldAddressTableSize = SymbolTableOffset - AddressTableOffset;
                    Data = 24 + 16 * NumCUs + unat (SymbolTableOffset - CUTypesOffset);
                    Delta = NewAddressTableSize CUAddressRanges - OldAddressTableSize;
                    NewGdbIndexSize =
                      nat ((int (length GdbIndexContents) + sint Delta) mod 2 ^ 64);
                    CopySize = unat (AddressTableOffset - CUListOffset);
                    Table = NewAddressTable OffsetToIndexMap CUAddressRanges
                in
                if length GdbIndexContents < 24 + CopySize \<or> length GdbIndexContents < Data
                then Inl ReadOutOfBounds
                else
                  let TrailingSize = length GdbIndexContents - Data in
                  if 24 + CopySize + length Table + TrailingSize \<noteq> NewGdbIndexSize
                  then Inl SizeCalculationError
                  else Inr
                    (write32le Version @ write32le CUListOffset @ write32le CUTypesOffset
                     @ write32le AddressTableOffset
                     @ write32le (SymbolTableOffset + Delta)
                     @ write32le (ConstantPoolOffset + Delta)
                     @ take CopySize (drop 24 GdbIndexContents)
                     @ Table
                     @ drop Data GdbIndexContents))"

text \<open>
  The retained output ranges in the order the address table lists them: for each unit of
  \<^verbatim>\<open>getCUAddressRanges()\<close> in turn, each of its ranges, with the offset of the unit.
\<close>

definition RetainedRanges :: "(u64 \<times> DebugAddressRange list) list \<Rightarrow> (u64 \<times> DebugAddressRange) list" where
  "RetainedRanges CUAddressRanges =
     concat (map (\<lambda>(cu, Ranges). map (Pair cu) Ranges) CUAddressRanges)"

text \<open>
  A small index for the examples: version 7, two compile units at offsets 0 and 100, an old
  address table of one entry (20 bytes), five more bytes after it; and three retained
  ranges, one for the first unit and two for the second.
\<close>

definition gdb1 :: "u8 list" where
  "gdb1 = [7,0,0,0, 24,0,0,0, 56,0,0,0, 56,0,0,0, 76,0,0,0, 80,0,0,0,
           0,0,0,0,0,0,0,0, 100,0,0,0,0,0,0,0,
           100,0,0,0,0,0,0,0, 50,0,0,0,0,0,0,0,
           1,1,1,1,1,1,1,1,1,1,1,1,1,1,1,1,1,1,1,1,
           2,3,4,5,6]"

definition ars1 :: "(u64 \<times> DebugAddressRange list) list" where
  "ars1 = [(0, [\<lparr>LowPC = 1, HighPC = 2\<rparr>]),
           (100, [\<lparr>LowPC = 3, HighPC = 4\<rparr>, \<lparr>LowPC = 5, HighPC = 6\<rparr>])]"

section \<open>DWARF entries as the parsing library exposes them\<close>

text \<open>
  The rewriter consumes LLVM's view of the input: for each entry its tag, its abbreviation
  declaration, and for each attribute a decoded form value and the byte offset of the
  attribute in the section. Only the tags, attributes and forms that the rewriter
  distinguishes are named; every other one is \<open>other\<close>. All units have 8-byte addresses,
  as \<^verbatim>\<open>convertToRanges\<close> asserts.
\<close>

datatype Tag =
  DW_TAG_null
| DW_TAG_compile_unit
| DW_TAG_subprogram
| DW_TAG_lexical_block
| DW_TAG_inlined_subroutine
| DW_TAG_try_block
| DW_TAG_catch_block
| DW_TAG_other

datatype Attribute =
  DW_AT_low_pc
| DW_AT_high_pc
| DW_AT_ranges
| DW_AT_GNU_ranges_base
| DW_AT_GNU_addr_base
| DW_AT_GNU_dwo_name
| DW_AT_comp_dir
| DW_AT_location
| DW_AT_other

datatype Form =
  DW_FORM_addr
| DW_FORM_data4
| DW_FORM_data8
| DW_FORM_udata
| DW_FORM_sec_offset
| DW_FORM_indirect
| DW_FORM_exprloc
| DW_FORM_block
| DW_FORM_GNU_addr_index
| DW_FORM_other

text \<open>The DWARF codes of the two forms whose code the rewriter writes into a section.\<close>

definition FormCode :: "Form \<Rightarrow> u64" where
  "FormCode f = (case f of DW_FORM_addr \<Rightarrow> 0x01 | DW_FORM_udata \<Rightarrow> 0x0f | _ \<Rightarrow> 0)"

definition isHighPcFormEightBytes :: "Form \<Rightarrow> bool" where
  "isHighPcFormEightBytes DwarfForm \<longleftrightarrow> DwarfForm = DW_FORM_addr \<or> DwarfForm = DW_FORM_data8"

text \<open>\<^verbatim>\<open>isFormClass(FC_Constant)\<close> and \<^verbatim>\<open>isFormClass(FC_SectionOffset)\<close> on the forms above.\<close>

definition isFormClassConstant :: "Form \<Rightarrow> bool" where
  "isFormClassConstant f \<longleftrightarrow> f = DW_FORM_data4 \<or> f = DW_FORM_data8 \<or> f = DW_FORM_udata"

definition isFormClassSectionOffset :: "Form \<Rightarrow> bool" where
  "isFormClassSectionOffset f \<longleftrightarrow> f = DW_FORM_sec_offset"

text \<open>
  A decoded attribute value: its form, its raw unsigned value, the address it denotes if
  it denotes one (for an indexed form, the entry of the unit's address table), and for a
  location expression the operands of its \<^verbatim>\<open>DW_OP_GNU_addr_index\<close> operations.
\<close>

record DWARFFormValue =
  getForm :: Form
  getRawUValue :: u64
  getAsAddress :: "u64 option"
  AddrIndexOperands :: "u64 list"

record AttrInfo =
  V :: DWARFFormValue
  Offset :: nat

text \<open>
  An abbreviation declaration is shared by the entries that use it; its identity is its
  address, here \<^verbatim>\<open>AbbrevId\<close>.
\<close>

record DWARFAbbreviationDeclaration =
  AbbrevId :: nat
  AbbrevTag :: Tag
  hasChildren :: bool
  AttributeSpecs :: "(Attribute \<times> Form) list"

text \<open>The entries of a location list, as \<^verbatim>\<open>visitLocationList\<close> hands them to its callback.\<close>

datatype DWARFLocationEntry =
  DW_LLE_end_of_list
| DW_LLE_base_address u64
| DW_LLE_offset_pair u64 u64 "u8 list"
| DW_LLE_startx_length u64 u64 "u8 list"
| DW_LLE_unsupported

record DebugLocationEntry =
  LocLowPC :: u64
  LocHighPC :: u64
  Expr :: "u8 list"

text \<open>
  One entry of a unit's stream. \<^verbatim>\<open>NextOffset\<close> is the read offset after
  \<^verbatim>\<open>extractFast\<close>; \<^verbatim>\<open>getAddressRanges\<close> is \<open>None\<close> when the library returns an error;
  \<^verbatim>\<open>LocationTable\<close> holds the entries that \<^verbatim>\<open>visitLocationList\<close> delivers at the
  entry's location attribute and whether the visit ends in an error. \<^verbatim>\<open>UnitDWOId\<close> and
  \<^verbatim>\<open>UnitIsDWO\<close> are \<^verbatim>\<open>getDwarfUnit()->getDWOId()\<close> and \<^verbatim>\<open>getDwarfUnit()->isDWOUnit()\<close>.
\<close>

record DWARFDie =
  getOffset :: nat
  NextOffset :: nat
  getAbbreviationDeclarationPtr :: "DWARFAbbreviationDeclaration option"
  AttrValues :: "(Attribute \<times> AttrInfo) list"
  getAddressRanges :: "DebugAddressRange list option"
  LocationTable :: "DWARFLocationEntry list \<times> bool"
  UnitDWOId :: "nat option"
  UnitIsDWO :: bool

definition getTag :: "DWARFDie \<Rightarrow> Tag" where
  "getTag DIE = (case getAbbreviationDeclarationPtr DIE of None \<Rightarrow> DW_TAG_null
                 | Some AbbrevDecl \<Rightarrow> AbbrevTag AbbrevDecl)"

definition findAttributeIndex :: "DWARFAbbreviationDeclaration \<Rightarrow> Attribute \<Rightarrow> bool" where
  "findAttributeIndex AbbrevDecl Attr \<longleftrightarrow> map_of (AttributeSpecs AbbrevDecl) Attr \<noteq> None"

text \<open>\<^verbatim>\<open>findAttributeInfo\<close> (lines 65 to 84).\<close>

definition findAttributeInfo :: "DWARFDie \<Rightarrow> Attribute \<Rightarrow> AttrInfo option" where
  "findAttributeInfo DIE Attr =
     (case getAbbreviationDeclarationPtr DIE of
        None \<Rightarrow> None
      | Some AbbrevDecl \<Rightarrow>
          if \<not> findAttributeIndex AbbrevDecl Attr then None
          else map_of (AttrValues DIE) Attr)"

text \<open>
  \<^verbatim>\<open>DWARFDie::getLowAndHighPC\<close>: it succeeds when the entry has a low-pc attribute that
  denotes an address and a high-pc attribute that is an address or a constant; the
  rewriter uses only the low address.
\<close>

definition getLowAndHighPC :: "DWARFDie \<Rightarrow> u64 option" where
  "getLowAndHighPC DIE =
     (case findAttributeInfo DIE DW_AT_low_pc of
        None \<Rightarrow> None
      | Some LowPcVal \<Rightarrow>
          (case getAsAddress (V LowPcVal) of
             None \<Rightarrow> None
           | Some Address \<Rightarrow>
               (case findAttributeInfo DIE DW_AT_high_pc of
                  None \<Rightarrow> None
                | Some HighPcVal \<Rightarrow>
                    if getAsAddress (V HighPcVal) \<noteq> None
                       \<or> isFormClassConstant (getForm (V HighPcVal))
                    then Some Address else None)))"

text \<open>
  A unit. \<^verbatim>\<open>Entries\<close> are the entries that \<^verbatim>\<open>extractFast\<close> yields one after the other from
  the end of the unit header; \<^verbatim>\<open>DWOName\<close> is the unit's \<^verbatim>\<open>DW_AT_dwo_name\<close> or
  \<^verbatim>\<open>DW_AT_GNU_dwo_name\<close>; \<^verbatim>\<open>FileSections\<close> are the sections, by name, of the object file
  that the unit's context was read from.
\<close>

datatype DWARFSectionKind =
  DW_SECT_INFO
| DW_SECT_EXT_TYPES
| DW_SECT_ABBREV
| DW_SECT_LINE
| DW_SECT_EXT_LOC
| DW_SECT_STR_OFFSETS
| DW_SECT_EXT_unknown

record DWARFUnit =
  getUnitOffset :: nat
  getHeaderSize :: nat
  getNextUnitOffset :: nat
  getDWOId :: "nat option"
  isDWOUnit :: bool
  getBaseAddress :: "u64 option"
  getAddrOffsetSectionItem :: "(u64 \<times> u64) list"
  Entries :: "DWARFDie list"
  getUnitDIE :: DWARFDie
  DWOName :: string
  getShortName :: "string option"
  getCompilationDir :: string
  getVersion :: nat
  FileSections :: "(string \<times> u8 list) list"

section \<open>The relocation collaborator and the options\<close>

record BinaryFunction =
  getOutputAddressRanges :: "DebugAddressRange list"
  translateInputToOutputRanges :: "DebugAddressRange list \<Rightarrow> DebugAddressRange list"
  translateInputToOutputLocationList :: "DebugLocationEntry list \<Rightarrow> DebugLocationEntry list"
  translateInputToOutputAddress :: "u64 \<Rightarrow> u64"

text \<open>
  The binary context. \<^verbatim>\<open>DWOCUIndexRows\<close> is the CU index of the DWO context, if there is
  such a context: for each signature the (offset, length) contribution to each section
  kind.
\<close>

record BinaryContext =
  getBinaryFunctionAtAddress :: "u64 \<Rightarrow> BinaryFunction option"
  getBinaryFunctionContainingAddress :: "u64 \<Rightarrow> BinaryFunction option"
  translateModuleAddressRanges :: "DebugAddressRange list \<Rightarrow> DebugAddressRange list"
  getDWOCU :: "nat \<Rightarrow> DWARFUnit option"
  compile_units :: "DWARFUnit list"
  DWOCUIndexRows :: "(nat \<times> (DWARFSectionKind \<times> nat \<times> nat) list) list option"
  getGdbIndexSection :: "u8 list option"

record Opts =
  Verbosity :: nat
  DwarfOutputPath :: string
  OutputFilename :: string
  WriteDWP :: bool

section \<open>Diagnostics\<close>

datatype Diag =
  WarnEmptyLocationList nat
| WarnUnexpectedFormValueForAttribute nat
| WarnCorruptDWARF nat
| WarnNoAbbreviation nat
| ErrSkeletonWithoutRangesBase nat
| ErrCannotUpdateRanges nat
| WarnUnexpectedFormValue nat
| WarnHighPcNotAfterLowPc nat
| WarnDwarfOutputPathInEffect
| WarnUnsupportedDebugSection string
| ErrDuplicateDWOId nat string string

section \<open>The writers of \<^verbatim>\<open>DebugData\<close>\<close>

text \<open>
  A unit's debug-info patcher and its abbreviation writer are reached either as the ones of
  the main binary or as the ones kept for a split unit, by its DWO id.
\<close>

datatype UnitRef = MainBinary | DWO nat

record SimpleBinaryPatcher =
  Patches :: "Patch list"
  RangeBase :: nat
  WasRangeBaseUsed :: bool

definition SimpleBinaryPatcher_new :: SimpleBinaryPatcher where
  "SimpleBinaryPatcher_new = \<lparr>Patches = [], RangeBase = 0, WasRangeBaseUsed = False\<rparr>"

text \<open>\<^verbatim>\<open>addAttributePatch(Unit, Abbrev, AttrTag, NewAttrTag, NewAttrForm)\<close>, as logged.\<close>

record AbbrevPatch =
  PatchAbbrev :: nat
  AttrTag :: Attribute
  NewAttrTag :: Attribute
  NewAttrForm :: Form

text \<open>
  Modelled from the spec: \<^verbatim>\<open>DebugRangesSectionWriter\<close> is declared outside this file. The
  specification gives it a reserved, shared offset that means "no ranges"
  (\<^verbatim>\<open>getEmptyRangesOffset\<close>), and an append that returns the offset of the new list; a list
  is laid out as its (low, high) pairs followed by a zero pair, 16 bytes each.
\<close>

record DebugRangesSectionWriter =
  EmptyRangesOffset :: nat
  SectionOffset :: nat
  RangeLists :: "DebugAddressRange list list"

definition getEmptyRangesOffset :: "DebugRangesSectionWriter \<Rightarrow> nat" where
  "getEmptyRangesOffset W = EmptyRangesOffset W"

text \<open>
  Modelled from the spec: \<^verbatim>\<open>addRanges(Ranges)\<close>. An empty list is written as the explicit
  empty-list marker, the reserved offset; any other list is appended at the current
  section offset.
\<close>

definition addRanges ::
  "DebugAddressRange list \<Rightarrow> DebugRangesSectionWriter \<Rightarrow> nat \<times> DebugRangesSectionWriter" where
  "addRanges Ranges W =
     (if Ranges = [] then (getEmptyRangesOffset W, W)
      else (SectionOffset W,
            W\<lparr>SectionOffset := SectionOffset W + 16 * (length Ranges + 1),
              RangeLists := RangeLists W @ [Ranges]\<rparr>))"

text \<open>
  Modelled from the spec: \<^verbatim>\<open>addRanges(Ranges, CachedRanges)\<close>. If an equal list was added
  within the current cache scope, the previous offset is returned; otherwise the list is
  appended and its offset remembered.
\<close>

definition addRangesCached ::
  "DebugAddressRange list \<Rightarrow> (DebugAddressRange list \<rightharpoonup> nat) \<Rightarrow> DebugRangesSectionWriter
     \<Rightarrow> nat \<times> (DebugAddressRange list \<rightharpoonup> nat) \<times> DebugRangesSectionWriter" where
  "addRangesCached Ranges CachedRanges W =
     (if Ranges = [] then (getEmptyRangesOffset W, CachedRanges, W)
      else case CachedRanges Ranges of
             Some EntryOffset \<Rightarrow> (EntryOffset, CachedRanges, W)
           | None \<Rightarrow>
               (case addRanges Ranges W of
                  (EntryOffset, W') \<Rightarrow> (EntryOffset, CachedRanges(Ranges \<mapsto> EntryOffset), W')))"

text \<open>
  Modelled from the spec: the address table writer, one index space for each split unit.
  \<^verbatim>\<open>addIndexAddress\<close> registers an address at an index, the newest write winning;
  \<^verbatim>\<open>getIndexFromAddress\<close> is the reverse lookup, \<open>None\<close> when the address was never
  registered.
\<close>

definition addIndexAddress ::
  "u64 \<Rightarrow> u32 \<Rightarrow> nat \<Rightarrow> (nat \<Rightarrow> (u32 \<times> u64) list) \<Rightarrow> (nat \<Rightarrow> (u32 \<times> u64) list)" where
  "addIndexAddress Address Index DWOId AddrWriter =
     AddrWriter(DWOId := (Index, Address) # filter (\<lambda>(i, a). i \<noteq> Index) (AddrWriter DWOId))"

definition getIndexFromAddress :: "u64 \<Rightarrow> nat \<Rightarrow> (nat \<Rightarrow> (u32 \<times> u64) list) \<Rightarrow> u32 option" where
  "getIndexFromAddress Address DWOId AddrWriter =
     map_option fst (find (\<lambda>(i, a). a = Address) (AddrWriter DWOId))"

text \<open>
  Modelled from the spec: the string pool, a deduplicating table from strings to byte
  offsets; a new string is appended after the bytes already there, with its terminator.
\<close>

record DebugStrWriter =
  StrSectionSize :: nat
  StrOffsets :: "(string \<times> nat) list"

definition addString :: "string \<Rightarrow> DebugStrWriter \<Rightarrow> nat \<times> DebugStrWriter" where
  "addString Str W =
     (case map_of (StrOffsets W) Str of
        Some Off \<Rightarrow> (Off, W)
      | None \<Rightarrow> (StrSectionSize W,
                 W\<lparr>StrSectionSize := StrSectionSize W + length Str + 1,
                   StrOffsets := StrOffsets W @ [(Str, StrSectionSize W)]\<rparr>))"

text \<open>
  Modelled from the spec: \<^verbatim>\<open>DebugLocWriter::addList\<close> is declared outside this file. It
  returns a reserved sentinel (\<open>None\<close> here) for an empty list; otherwise it appends the
  list and returns its offset in this writer's own buffer. The byte layout of a list is a
  parameter.
\<close>

definition addList ::
  "(DebugLocationEntry list \<Rightarrow> u8 list) \<Rightarrow> DebugLocationEntry list \<Rightarrow> DebugLocWriter
     \<Rightarrow> nat option \<times> DebugLocWriter" where
  "addList encode LocList W =
     (if LocList = [] then (None, W)
      else (Some (length (finalize W)), W\<lparr>finalize := finalize W @ encode LocList\<rparr>))"

text \<open>\<^verbatim>\<open>DebugLocWriter::EmptyListOffset\<close>: the empty list at the start of the section.\<close>

definition EmptyListOffset :: u32 where
  "EmptyListOffset = 0"

section \<open>The state of the rewriter\<close>

record DWARFRewriter =
  ConvertedRangesAbbrevs :: "nat set"
  PendingRanges :: "(nat \<times> (DWARFDie \<times> DebugAddressRange) list) list"
  DebugInfoPatchers :: "UnitRef \<Rightarrow> SimpleBinaryPatcher"
  AbbrevWriters :: "UnitRef \<Rightarrow> AbbrevPatch list"
  UnitAbbreviations :: "(UnitRef \<times> nat) list"
  RangesSectionWriter :: DebugRangesSectionWriter
  ARangesSectionWriter :: "(u64 \<times> DebugAddressRange list) list"
  AddrWriter :: "nat \<Rightarrow> (u32 \<times> u64) list"
  StrWriter :: DebugStrWriter
  LocListWritersByCU :: "(nat \<times> DebugLocWriter) list"
  LocListDebugInfoPatches :: "LocListDebugInfoPatchType list"
  DwoLocListDebugInfoPatches :: "(nat \<times> LocListDebugInfoPatchType list) list"
  NameToIndexMap :: "(string \<times> nat) list"
  DWOIdToName :: "(nat \<times> string) list"
  Diags :: "Diag list"

definition errs :: "Diag \<Rightarrow> DWARFRewriter \<Rightarrow> DWARFRewriter" where
  "errs d st = st\<lparr>Diags := Diags st @ [d]\<rparr>"

definition addPatch :: "UnitRef \<Rightarrow> Patch \<Rightarrow> DWARFRewriter \<Rightarrow> DWARFRewriter" where
  "addPatch P p st =
     st\<lparr>DebugInfoPatchers := (DebugInfoPatchers st)
          (P := (DebugInfoPatchers st P)\<lparr>Patches := Patches (DebugInfoPatchers st P) @ [p]\<rparr>)\<rparr>"

text \<open>\<^verbatim>\<open>getRangeBase\<close> hands out the base and records that it was asked for.\<close>

definition getRangeBase :: "UnitRef \<Rightarrow> DWARFRewriter \<Rightarrow> nat \<times> DWARFRewriter" where
  "getRangeBase P st =
     (RangeBase (DebugInfoPatchers st P),
      st\<lparr>DebugInfoPatchers := (DebugInfoPatchers st)
           (P := (DebugInfoPatchers st P)\<lparr>WasRangeBaseUsed := True\<rparr>)\<rparr>)"

definition addAttributePatch ::
  "UnitRef \<Rightarrow> nat \<Rightarrow> Attribute \<Rightarrow> Attribute \<Rightarrow> Form \<Rightarrow> DWARFRewriter \<Rightarrow> DWARFRewriter" where
  "addAttributePatch A Abbrev Old New NewForm st =
     st\<lparr>AbbrevWriters := (AbbrevWriters st)
          (A := AbbrevWriters st A
                @ [\<lparr>PatchAbbrev = Abbrev, AttrTag = Old, NewAttrTag = New, NewAttrForm = NewForm\<rparr>])\<rparr>"

text \<open>\<^verbatim>\<open>ARangesSectionWriter->addCURanges\<close>: the first ranges recorded for a unit stay.\<close>

definition addCURanges ::
  "u64 \<Rightarrow> DebugAddressRange list \<Rightarrow> (u64 \<times> DebugAddressRange list) list
     \<Rightarrow> (u64 \<times> DebugAddressRange list) list" where
  "addCURanges CUOffset Ranges CUAddressRanges =
     (if map_of CUAddressRanges CUOffset \<noteq> None then CUAddressRanges
      else CUAddressRanges @ [(CUOffset, Ranges)])"

section \<open>Patching a low-pc/high-pc pair and converting it to ranges\<close>

text \<open>
  The functions below return \<open>None\<close> where the program does not go on: a failed
  assertion, \<^verbatim>\<open>llvm_unreachable\<close>, the value of an empty \<^verbatim>\<open>Optional\<close>, or the front of an empty
  vector.
\<close>

text \<open>\<^verbatim>\<open>std::abs(int(HighPCOffset - LowPCOffset))\<close>.\<close>

definition absIntDiff :: "nat \<Rightarrow> nat \<Rightarrow> nat" where
  "absIntDiff HighPCOffset LowPCOffset =
     nat \<bar>sint (of_nat HighPCOffset - of_nat LowPCOffset :: u32)\<bar>"

text \<open>
  \<^verbatim>\<open>getRangeAttrData\<close> (lines 1427 to 1453): the offsets and forms of the two attributes.
  Its warnings do not stop the caller.
\<close>

definition getRangeAttrData ::
  "DWARFDie \<Rightarrow> DWARFRewriter \<Rightarrow> ((nat \<times> nat \<times> Form \<times> Form) \<times> DWARFRewriter) option" where
  "getRangeAttrData DIE st =
     (case findAttributeInfo DIE DW_AT_low_pc of
        None \<Rightarrow> None
      | Some LowPCVal \<Rightarrow>
          (case findAttributeInfo DIE DW_AT_high_pc of
             None \<Rightarrow> None
           | Some HighPCVal \<Rightarrow>
               let LowPCOffset = Offset LowPCVal;
                   HighPCOffset = Offset HighPCVal;
                   LowPCForm = getForm (V LowPCVal);
                   HighPCForm = getForm (V HighPCVal)
               in Some ((LowPCOffset, HighPCOffset, LowPCForm, HighPCForm),
                    if (LowPCForm \<noteq> DW_FORM_addr \<and> LowPCForm \<noteq> DW_FORM_GNU_addr_index)
                       \<or> (HighPCForm \<noteq> DW_FORM_addr \<and> HighPCForm \<noteq> DW_FORM_data8
                           \<and> HighPCForm \<noteq> DW_FORM_data4)
                    then errs (WarnUnexpectedFormValue (getOffset DIE)) st
                    else if (LowPCOffset = 4294967295 \<or> LowPCOffset + 8 \<noteq> HighPCOffset)
                            \<and> LowPCForm \<noteq> DW_FORM_GNU_addr_index
                    then errs (WarnHighPcNotAfterLowPc (getOffset DIE)) st
                    else st)))"

text \<open>\<^verbatim>\<open>patchLowHigh\<close> (lines 1457 to 1482).\<close>

definition HighPCPatch :: "Form \<Rightarrow> nat \<Rightarrow> DebugAddressRange \<Rightarrow> Patch" where
  "HighPCPatch HighPCForm HighPCOffset R =
     (if isHighPcFormEightBytes HighPCForm
      then LE64Patch HighPCOffset (HighPC R - LowPC R)
      else LE32Patch HighPCOffset (ucast (HighPC R - LowPC R)))"

definition patchLowHigh ::
  "DWARFDie \<Rightarrow> DebugAddressRange \<Rightarrow> UnitRef \<Rightarrow> DWARFRewriter \<Rightarrow> DWARFRewriter option" where
  "patchLowHigh DIE R P st =
     (case getRangeAttrData DIE st of
        None \<Rightarrow> None
      | Some ((LowPCOffset, HighPCOffset, LowPCForm, HighPCForm), st1) \<Rightarrow>
          if LowPCForm = DW_FORM_GNU_addr_index then
            (if \<not> UnitIsDWO DIE then None
             else case UnitDWOId DIE of
               None \<Rightarrow> None
             | Some DWOId \<Rightarrow>
                 (case getIndexFromAddress (LowPC R) DWOId (AddrWriter st1) of
                    None \<Rightarrow> None
                  | Some AddressIndex \<Rightarrow>
                      Some (addPatch (DWO DWOId) (HighPCPatch HighPCForm HighPCOffset R)
                             (addPatch (DWO DWOId)
                                (UDataPatch LowPCOffset (ucast AddressIndex)
                                   (absIntDiff HighPCOffset LowPCOffset)) st1))))
          else
            Some (addPatch P (HighPCPatch HighPCForm HighPCOffset R)
                   (addPatch P (LE64Patch LowPCOffset (LowPC R)) st1)))"

text \<open>\<^verbatim>\<open>flushPendingRanges\<close> (lines 1414 to 1423).\<close>

fun patchLowHighPairs ::
  "(DWARFDie \<times> DebugAddressRange) list \<Rightarrow> UnitRef \<Rightarrow> DWARFRewriter \<Rightarrow> DWARFRewriter option" where
  "patchLowHighPairs [] P st = Some st"
| "patchLowHighPairs ((DIE, R) # rest) P st =
     (case patchLowHigh DIE R P st of
        None \<Rightarrow> None
      | Some st' \<Rightarrow> patchLowHighPairs rest P st')"

fun flushPendingLoop ::
  "(nat \<times> (DWARFDie \<times> DebugAddressRange) list) list \<Rightarrow> UnitRef \<Rightarrow> DWARFRewriter
     \<Rightarrow> DWARFRewriter option" where
  "flushPendingLoop [] P st = Some st"
| "flushPendingLoop ((Abbrev, Pairs) # rest) P st =
     (case patchLowHighPairs Pairs P st of
        None \<Rightarrow> None
      | Some st' \<Rightarrow> flushPendingLoop rest P st')"

definition flushPendingRanges :: "UnitRef \<Rightarrow> DWARFRewriter \<Rightarrow> DWARFRewriter option" where
  "flushPendingRanges P st =
     map_option (\<lambda>st'. st'\<lparr>PendingRanges := []\<rparr>) (flushPendingLoop (PendingRanges st) P st)"

text \<open>
  \<^verbatim>\<open>convertToRanges(Unit, Abbrev, AbbrevWriter, RangesBase)\<close> (lines 1484 to 1511): the
  declaration's attribute pair is rewritten.
\<close>

definition convertToRangesAbbrev ::
  "UnitRef \<Rightarrow> DWARFAbbreviationDeclaration \<Rightarrow> nat option \<Rightarrow> DWARFRewriter
     \<Rightarrow> DWARFRewriter option" where
  "convertToRangesAbbrev A Abbrev RangesBase st =
     (case map_of (AttributeSpecs Abbrev) DW_AT_high_pc of
        None \<Rightarrow> None
      | Some HighPCForm \<Rightarrow>
          (case map_of (AttributeSpecs Abbrev) DW_AT_low_pc of
             None \<Rightarrow> None
           | Some LowPCForm \<Rightarrow>
               if RangesBase \<noteq> None then
                 (if LowPCForm = DW_FORM_GNU_addr_index then None
                  else Some (addAttributePatch A (AbbrevId Abbrev) DW_AT_high_pc DW_AT_ranges
                               DW_FORM_sec_offset
                              (addAttributePatch A (AbbrevId Abbrev) DW_AT_low_pc
                                 DW_AT_GNU_ranges_base DW_FORM_indirect st)))
               else if LowPCForm \<noteq> DW_FORM_GNU_addr_index \<and> isHighPcFormEightBytes HighPCForm
               then Some (addAttributePatch A (AbbrevId Abbrev) DW_AT_high_pc DW_AT_ranges
                            DW_FORM_sec_offset
                           (addAttributePatch A (AbbrevId Abbrev) DW_AT_low_pc DW_AT_low_pc
                              DW_FORM_indirect st))
               else Some (addAttributePatch A (AbbrevId Abbrev) DW_AT_high_pc DW_AT_ranges
                            DW_FORM_sec_offset st)))"

text \<open>
  \<^verbatim>\<open>convertToRanges(DIE, RangesSectionOffset, DebugInfoPatcher, RangesBase)\<close> (lines 1513
  to 1559): the bytes of the entry's two fields are patched.
\<close>

definition convertToRangesOffset ::
  "DWARFDie \<Rightarrow> nat \<Rightarrow> UnitRef \<Rightarrow> nat option \<Rightarrow> DWARFRewriter \<Rightarrow> DWARFRewriter option" where
  "convertToRangesOffset DIE RangesSectionOffset P RangesBase st =
     (case getRangeAttrData DIE st of
        None \<Rightarrow> None
      | Some ((LowPCOffset, HighPCOffset, LowPCForm, HighPCForm), st1) \<Rightarrow>
          if \<not> isHighPcFormEightBytes HighPCForm \<and> HighPCForm \<noteq> DW_FORM_data4 then None
          else
            let NumBytesToFill = (if isHighPcFormEightBytes HighPCForm then 12 else 8 :: nat) in
            case (if LowPCForm = DW_FORM_GNU_addr_index then
                    getRangeBase P
                      (addPatch P (UDataPatch LowPCOffset 0
                         (absIntDiff HighPCOffset LowPCOffset + NumBytesToFill - 8)) st1)
                  else
                    (0,
                     case RangesBase of
                       Some Base \<Rightarrow>
                         addPatch P (UDataPatch (LowPCOffset + 1) (of_nat Base) (NumBytesToFill - 1))
                           (addPatch P (UDataPatch LowPCOffset (FormCode DW_FORM_udata) 1) st1)
                     | None \<Rightarrow>
                         if NumBytesToFill = 12 then
                           addPatch P (LE64Patch (LowPCOffset + 4) 0)
                             (addPatch P (UDataPatch LowPCOffset (FormCode DW_FORM_addr) 4) st1)
                         else addPatch P (LE64Patch LowPCOffset 0) st1)) of
              (BaseOffset, st2) \<Rightarrow>
                Some (addPatch P
                        (LE32Patch (HighPCOffset + NumBytesToFill - 8)
                           (of_nat RangesSectionOffset - of_nat BaseOffset)) st2))"

text \<open>\<^verbatim>\<open>convertToRanges(DIE, Ranges, DebugInfoPatcher)\<close> (lines 1301 to 1312).\<close>

definition convertToRangesList ::
  "DWARFDie \<Rightarrow> DebugAddressRange list \<Rightarrow> UnitRef \<Rightarrow> DWARFRewriter \<Rightarrow> DWARFRewriter option" where
  "convertToRangesList DIE Ranges P st =
     (case (if Ranges = [] then (getEmptyRangesOffset (RangesSectionWriter st), RangesSectionWriter st)
            else addRanges Ranges (RangesSectionWriter st)) of
        (RangesSectionOffset, W) \<Rightarrow>
          convertToRangesOffset DIE RangesSectionOffset P None (st\<lparr>RangesSectionWriter := W\<rparr>))"

section \<open>The pending-ranges state machine\<close>

text \<open>\<^verbatim>\<open>PendingRanges[Abbrev].emplace_back(...)\<close> and \<^verbatim>\<open>PendingRanges.erase\<close>.\<close>

fun PendingRanges_emplace_back ::
  "nat \<Rightarrow> DWARFDie \<times> DebugAddressRange \<Rightarrow> (nat \<times> (DWARFDie \<times> DebugAddressRange) list) list
     \<Rightarrow> (nat \<times> (DWARFDie \<times> DebugAddressRange) list) list" where
  "PendingRanges_emplace_back Abbrev e [] = [(Abbrev, [e])]"
| "PendingRanges_emplace_back Abbrev e ((k, es) # rest) =
     (if k = Abbrev then (k, es @ [e]) # rest
      else (k, es) # PendingRanges_emplace_back Abbrev e rest)"

definition PendingRanges_erase ::
  "nat \<Rightarrow> (nat \<times> (DWARFDie \<times> DebugAddressRange) list) list
     \<Rightarrow> (nat \<times> (DWARFDie \<times> DebugAddressRange) list) list" where
  "PendingRanges_erase Abbrev pending = filter (\<lambda>(k, es). k \<noteq> Abbrev) pending"

text \<open>\<^verbatim>\<open>convertPending\<close> (lines 1314 to 1332).\<close>

fun convertPendingPairs ::
  "(DWARFDie \<times> DebugAddressRange) list \<Rightarrow> UnitRef \<Rightarrow> DWARFRewriter \<Rightarrow> DWARFRewriter option" where
  "convertPendingPairs [] P st = Some st"
| "convertPendingPairs ((DIE, R) # rest) P st =
     (case convertToRangesList DIE [R] P st of
        None \<Rightarrow> None
      | Some st' \<Rightarrow> convertPendingPairs rest P st')"

definition convertPending ::
  "UnitRef \<Rightarrow> DWARFAbbreviationDeclaration \<Rightarrow> UnitRef \<Rightarrow> DWARFRewriter \<Rightarrow> DWARFRewriter option" where
  "convertPending A Abbrev P st =
     (if AbbrevId Abbrev \<in> ConvertedRangesAbbrevs st then Some st
      else
        case convertToRangesAbbrev A Abbrev None st of
          None \<Rightarrow> None
        | Some st1 \<Rightarrow>
            (case (case map_of (PendingRanges st1) (AbbrevId Abbrev) of
                     None \<Rightarrow> Some st1
                   | Some Pairs \<Rightarrow>
                       map_option
                         (\<lambda>st'. st'\<lparr>PendingRanges :=
                                      PendingRanges_erase (AbbrevId Abbrev) (PendingRanges st')\<rparr>)
                         (convertPendingPairs Pairs P st1)) of
               None \<Rightarrow> None
             | Some st2 \<Rightarrow>
                 Some (st2\<lparr>ConvertedRangesAbbrevs :=
                             insert (AbbrevId Abbrev) (ConvertedRangesAbbrevs st2)\<rparr>)))"

text \<open>\<^verbatim>\<open>addToPendingRanges\<close> (lines 1334 to 1362).\<close>

definition addToPendingRanges ::
  "DWARFAbbreviationDeclaration \<Rightarrow> DWARFDie \<Rightarrow> DebugAddressRange list \<Rightarrow> nat option
     \<Rightarrow> DWARFRewriter \<Rightarrow> DWARFRewriter option" where
  "addToPendingRanges Abbrev DIE FunctionRanges DWOId st =
     (let LowPcValue = map_option V (findAttributeInfo DIE DW_AT_low_pc);
          HighPcValue = map_option V (findAttributeInfo DIE DW_AT_high_pc)
      in
      case (case LowPcValue of
              None \<Rightarrow> Some st
            | Some Low \<Rightarrow>
                if getForm Low \<noteq> DW_FORM_GNU_addr_index then Some st
                else
                  (case DWOId of
                     None \<Rightarrow> None
                   | Some DId \<Rightarrow>
                       (case HighPcValue of
                          None \<Rightarrow> None
                        | Some High \<Rightarrow>
                            Some (st\<lparr>AddrWriter :=
                              foldl (\<lambda>AW Address.
                                       let AW1 = addIndexAddress (LowPC Address)
                                                   (ucast (getRawUValue Low)) DId AW
                                       in if \<not> isFormClassConstant (getForm High)
                                          then addIndexAddress (HighPC Address)
                                                 (ucast (getRawUValue High)) DId AW1
                                          else AW1)
                                (AddrWriter st) FunctionRanges\<rparr>)))) of
        None \<Rightarrow> None
      | Some st1 \<Rightarrow>
          (case FunctionRanges of
             [] \<Rightarrow> None
           | front # rest \<Rightarrow>
               Some (st1\<lparr>PendingRanges :=
                           PendingRanges_emplace_back (AbbrevId Abbrev) (DIE, front)
                             (PendingRanges st1)\<rparr>)))"

section \<open>\<^verbatim>\<open>updateDWARFObjectAddressRanges\<close>\<close>

text \<open>
  \<^verbatim>\<open>updateDWARFObjectAddressRanges\<close> (lines 596 to 675). The entries of the model are
  always valid, so the first early return does not arise.
\<close>

definition updateDWARFObjectAddressRanges ::
  "Opts \<Rightarrow> DWARFDie \<Rightarrow> nat \<Rightarrow> UnitRef \<Rightarrow> UnitRef \<Rightarrow> nat option \<Rightarrow> DWARFRewriter
     \<Rightarrow> DWARFRewriter option" where
  "updateDWARFObjectAddressRanges opts DIE DebugRangesOffset P A RangesBase st =
     (case getAbbreviationDeclarationPtr DIE of
        None \<Rightarrow>
          Some (if Verbosity opts \<ge> 1 then errs (WarnNoAbbreviation (getOffset DIE)) st else st)
      | Some AbbreviationDecl \<Rightarrow>
          (case (case RangesBase of
                   None \<Rightarrow> (None, st)
                 | Some Base \<Rightarrow>
                     (case findAttributeInfo DIE DW_AT_GNU_ranges_base of
                        None \<Rightarrow> (Some Base, st)
                      | Some RangesBaseAttrInfo \<Rightarrow>
                          (None, addPatch P (LE32Patch (Offset RangesBaseAttrInfo) (of_nat Base)) st))) of
             (RangesBase1, st1) \<Rightarrow>
               if findAttributeIndex AbbreviationDecl DW_AT_ranges then
                 (case findAttributeInfo DIE DW_AT_ranges of
                    None \<Rightarrow> None
                  | Some AttrVal \<Rightarrow>
                      (case getRangeBase P st1 of
                         (Base, st2) \<Rightarrow>
                           let st3 = addPatch P
                                       (LE32Patch (Offset AttrVal)
                                          (of_nat DebugRangesOffset - of_nat Base)) st2
                           in case RangesBase1 of
                                None \<Rightarrow> Some st3
                              | Some RB \<Rightarrow>
                                  (case findAttributeInfo DIE DW_AT_low_pc of
                                     None \<Rightarrow>
                                       Some (errs (ErrSkeletonWithoutRangesBase (getOffset DIE)) st3)
                                   | Some LowPCAttrInfo \<Rightarrow>
                                       Some (addPatch P
                                               (UDataPatch (Offset LowPCAttrInfo + 1) (of_nat RB) 7)
                                              (addPatch P
                                                 (UDataPatch (Offset LowPCAttrInfo)
                                                    (FormCode DW_FORM_udata) 1)
                                                 (addAttributePatch A (AbbrevId AbbreviationDecl)
                                                    DW_AT_low_pc DW_AT_GNU_ranges_base
                                                    DW_FORM_indirect st3))))))
               else if findAttributeIndex AbbreviationDecl DW_AT_low_pc
                       \<and> findAttributeIndex AbbreviationDecl DW_AT_high_pc then
                 (case convertToRangesAbbrev A AbbreviationDecl RangesBase1 st1 of
                    None \<Rightarrow> None
                  | Some st2 \<Rightarrow> convertToRangesOffset DIE DebugRangesOffset P RangesBase1 st2)
               else
                 Some (if Verbosity opts \<ge> 1
                       then errs (ErrCannotUpdateRanges (getOffset DIE)) st1 else st1)))"

section \<open>The walk over a unit: \<^verbatim>\<open>updateUnitDebugInfo\<close>\<close>

type_synonym CachedRangesMap = "DebugAddressRange list \<rightharpoonup> nat"

text \<open>\<^verbatim>\<open>case dwarf::DW_TAG_compile_unit\<close> (lines 317 to 334).\<close>

definition updateCompileUnit ::
  "BinaryContext \<Rightarrow> Opts \<Rightarrow> DWARFUnit \<Rightarrow> UnitRef \<Rightarrow> UnitRef \<Rightarrow> nat option \<Rightarrow> DWARFDie
     \<Rightarrow> DWARFRewriter \<Rightarrow> DWARFRewriter option" where
  "updateCompileUnit BC opts Unit P A RangesBase DIE st =
     (case getAddressRanges DIE of
        None \<Rightarrow> Some st
      | Some ModuleRanges \<Rightarrow>
          let OutputRanges = translateModuleAddressRanges BC ModuleRanges in
          case addRanges OutputRanges (RangesSectionWriter st) of
            (RangesSectionOffset, W) \<Rightarrow>
              let st1 = st\<lparr>RangesSectionWriter := W\<rparr>;
                  st2 = (if \<not> isDWOUnit Unit
                         then st1\<lparr>ARangesSectionWriter :=
                                    addCURanges (of_nat (getUnitOffset Unit)) OutputRanges
                                      (ARangesSectionWriter st1)\<rparr>
                         else st1)
              in updateDWARFObjectAddressRanges opts DIE RangesSectionOffset P A RangesBase st2)"

text \<open>
  \<^verbatim>\<open>case dwarf::DW_TAG_subprogram\<close> (lines 335 to 395). The cache is cleared once the
  function's address is known; an entry that is not a function definition leaves it as
  it is.
\<close>

definition updateSubprogram ::
  "BinaryContext \<Rightarrow> Opts \<Rightarrow> DWARFUnit \<Rightarrow> UnitRef \<Rightarrow> UnitRef \<Rightarrow> DWARFDie
     \<Rightarrow> CachedRangesMap \<times> DWARFRewriter \<Rightarrow> (CachedRangesMap \<times> DWARFRewriter) option" where
  "updateSubprogram BC opts Unit P A DIE cs =
     (case cs of (CachedRanges, st) \<Rightarrow>
      case (case getLowAndHighPC DIE of
              Some Address \<Rightarrow> Some (Address, False)
            | None \<Rightarrow>
                (case getAddressRanges DIE of
                   None \<Rightarrow> None
                 | Some Ranges \<Rightarrow>
                     (case Ranges of
                        [] \<Rightarrow> None
                      | front # rest \<Rightarrow> Some (LowPC front, True)))) of
        None \<Rightarrow> Some (CachedRanges, st)
      | Some (Address, UsesRanges) \<Rightarrow>
          let FunctionRanges =
                (case getBinaryFunctionAtAddress BC Address of
                   Some Function \<Rightarrow> getOutputAddressRanges Function
                 | None \<Rightarrow> [])
          in map_option (Pair Map.empty)
               (if UsesRanges then
                  (case addRanges FunctionRanges (RangesSectionWriter st) of
                     (RangesSectionOffset, W) \<Rightarrow>
                       updateDWARFObjectAddressRanges opts DIE RangesSectionOffset P A None
                         (st\<lparr>RangesSectionWriter := W\<rparr>))
                else
                  case getAbbreviationDeclarationPtr DIE of
                    None \<Rightarrow> None
                  | Some Abbrev \<Rightarrow>
                      if length FunctionRanges > 1 then
                        (case convertPending A Abbrev P st of
                           None \<Rightarrow> None
                         | Some st1 \<Rightarrow> convertToRangesList DIE FunctionRanges P st1)
                      else if AbbrevId Abbrev \<in> ConvertedRangesAbbrevs st then
                        convertToRangesList DIE FunctionRanges P st
                      else
                        addToPendingRanges Abbrev DIE
                          (if FunctionRanges = [] then [DebugAddressRange_default]
                           else FunctionRanges)
                          (getDWOId Unit) st))"

text \<open>
  \<^verbatim>\<open>case dwarf::DW_TAG_lexical_block\<close>, \<^verbatim>\<open>DW_TAG_inlined_subroutine\<close>,
  \<^verbatim>\<open>DW_TAG_try_block\<close>, \<^verbatim>\<open>DW_TAG_catch_block\<close> (lines 396 to 422).
\<close>

definition updateBlock ::
  "BinaryContext \<Rightarrow> Opts \<Rightarrow> UnitRef \<Rightarrow> UnitRef \<Rightarrow> DWARFDie
     \<Rightarrow> CachedRangesMap \<times> DWARFRewriter \<Rightarrow> (CachedRangesMap \<times> DWARFRewriter) option" where
  "updateBlock BC opts P A DIE cs =
     (case cs of (CachedRanges, st) \<Rightarrow>
      case (case getAddressRanges DIE of
              None \<Rightarrow> None
            | Some Ranges \<Rightarrow>
                (case Ranges of
                   [] \<Rightarrow> None
                 | front # rest \<Rightarrow>
                     map_option (\<lambda>Function. (Function, Ranges))
                       (getBinaryFunctionContainingAddress BC (LowPC front)))) of
        Some (Function, Ranges) \<Rightarrow>
          (case addRangesCached (translateInputToOutputRanges Function Ranges) CachedRanges
                  (RangesSectionWriter st) of
             (RangesSectionOffset, CachedRanges', W) \<Rightarrow>
               map_option (Pair CachedRanges')
                 (updateDWARFObjectAddressRanges opts DIE RangesSectionOffset P A None
                    (st\<lparr>RangesSectionWriter := W\<rparr>)))
      | None \<Rightarrow>
          map_option (Pair CachedRanges)
            (updateDWARFObjectAddressRanges opts DIE
               (getEmptyRangesOffset (RangesSectionWriter st)) P A None st))"

text \<open>
  The callback given to \<^verbatim>\<open>visitLocationList\<close> (lines 444 to 477), run over the entries of
  the list with the running base address.
\<close>

fun visitLocationList ::
  "DWARFUnit \<Rightarrow> DWARFLocationEntry list \<Rightarrow> u64 \<Rightarrow> DebugLocationEntry list
     \<Rightarrow> DebugLocationEntry list option" where
  "visitLocationList Unit [] BaseAddress InputLL = Some InputLL"
| "visitLocationList Unit (DW_LLE_end_of_list # rest) BaseAddress InputLL = Some InputLL"
| "visitLocationList Unit (DW_LLE_base_address Value0 # rest) BaseAddress InputLL =
     visitLocationList Unit rest Value0 InputLL"
| "visitLocationList Unit (DW_LLE_offset_pair Value0 Value1 Loc # rest) BaseAddress InputLL =
     (if isDWOUnit Unit then None
      else visitLocationList Unit rest BaseAddress
             (InputLL @ [\<lparr>LocLowPC = BaseAddress + Value0, LocHighPC = BaseAddress + Value1,
                           Expr = Loc\<rparr>]))"
| "visitLocationList Unit (DW_LLE_startx_length Value0 Value1 Loc # rest) BaseAddress InputLL =
     (if \<not> isDWOUnit Unit then None
      else case map_of (getAddrOffsetSectionItem Unit) Value0 of
             None \<Rightarrow> None
           | Some EntryAddress \<Rightarrow>
               visitLocationList Unit rest BaseAddress
                 (InputLL @ [\<lparr>LocLowPC = EntryAddress, LocHighPC = EntryAddress + Value1,
                               Expr = Loc\<rparr>]))"
| "visitLocationList Unit (DW_LLE_unsupported # rest) BaseAddress InputLL = None"

text \<open>
  Lines 501 to 517: a location list that was written is recorded for the final pass, with
  its offset in the unit's own writer; an empty one is patched at once.
\<close>

fun DwoLocListDebugInfoPatches_push_back ::
  "nat \<Rightarrow> LocListDebugInfoPatchType \<Rightarrow> (nat \<times> LocListDebugInfoPatchType list) list
     \<Rightarrow> (nat \<times> LocListDebugInfoPatchType list) list" where
  "DwoLocListDebugInfoPatches_push_back k p [] = [(k, [p])]"
| "DwoLocListDebugInfoPatches_push_back k p ((k', ps) # rest) =
     (if k' = k then (k', ps @ [p]) # rest
      else (k', ps) # DwoLocListDebugInfoPatches_push_back k p rest)"

definition recordLocListPatch ::
  "nat \<Rightarrow> DWARFUnit \<Rightarrow> UnitRef \<Rightarrow> nat \<Rightarrow> nat option \<Rightarrow> DWARFRewriter \<Rightarrow> DWARFRewriter" where
  "recordLocListPatch CUIdx Unit P AttrOffset OutputLocListOffset st =
     (case OutputLocListOffset of
        Some LocalOffset \<Rightarrow>
          let p = \<lparr>DebugInfoOffset = AttrOffset, CUIndex = CUIdx, CUWriterOffset = LocalOffset\<rparr>
          in if isDWOUnit Unit
             then st\<lparr>DwoLocListDebugInfoPatches :=
                       DwoLocListDebugInfoPatches_push_back CUIdx p (DwoLocListDebugInfoPatches st)\<rparr>
             else st\<lparr>LocListDebugInfoPatches := LocListDebugInfoPatches st @ [p]\<rparr>
      | None \<Rightarrow> addPatch P (LE32Patch AttrOffset EmptyListOffset) st)"

text \<open>
  The \<^verbatim>\<open>default\<close> case (lines 423 to 584): an entry with a location attribute, or else with
  a low-pc attribute. \<open>encode\<close> is the byte layout of a location list.
\<close>

definition updateOther ::
  "BinaryContext \<Rightarrow> Opts \<Rightarrow> (DebugLocationEntry list \<Rightarrow> u8 list) \<Rightarrow> nat \<Rightarrow> DWARFUnit
     \<Rightarrow> UnitRef \<Rightarrow> DWARFDie \<Rightarrow> DWARFRewriter \<Rightarrow> DWARFRewriter option" where
  "updateOther BC opts encode CUIdx Unit P DIE st =
     (case findAttributeInfo DIE DW_AT_location of
        Some AttrVal \<Rightarrow>
          let AttrOffset = Offset AttrVal; Value = V AttrVal in
          if isFormClassConstant (getForm Value) \<or> isFormClassSectionOffset (getForm Value) then
            (case visitLocationList Unit (fst (LocationTable DIE))
                    (case getBaseAddress Unit of None \<Rightarrow> 0 | Some a \<Rightarrow> a) [] of
               None \<Rightarrow> None
             | Some InputLL \<Rightarrow>
                 (case InputLL of
                    [] \<Rightarrow>
                      Some (recordLocListPatch CUIdx Unit P AttrOffset None
                              (errs (WarnEmptyLocationList (getOffset DIE)) st))
                  | front # rest \<Rightarrow>
                      if snd (LocationTable DIE) then
                        Some (recordLocListPatch CUIdx Unit P AttrOffset None
                                (errs (WarnEmptyLocationList (getOffset DIE)) st))
                      else
                        (case getBinaryFunctionContainingAddress BC (LocLowPC front) of
                           None \<Rightarrow> Some (recordLocListPatch CUIdx Unit P AttrOffset None st)
                         | Some Function \<Rightarrow>
                             (case map_of (LocListWritersByCU st) CUIdx of
                                None \<Rightarrow> None
                              | Some LocWriter \<Rightarrow>
                                  (case addList encode
                                          (translateInputToOutputLocationList Function InputLL)
                                          LocWriter of
                                     (OutputLocListOffset, LocWriter') \<Rightarrow>
                                       Some (recordLocListPatch CUIdx Unit P AttrOffset
                                               OutputLocListOffset
                                               (st\<lparr>LocListWritersByCU :=
                                                     map (\<lambda>(k, w). if k = CUIdx then (k, LocWriter')
                                                                    else (k, w))
                                                       (LocListWritersByCU st)\<rparr>)))))))
          else if getForm Value \<noteq> DW_FORM_exprloc \<and> getForm Value \<noteq> DW_FORM_block then None
          else if isDWOUnit Unit then
            (case getDWOId Unit of
               None \<Rightarrow> None
             | Some DId \<Rightarrow>
                 if list_all (\<lambda>Index. map_of (getAddrOffsetSectionItem Unit) Index \<noteq> None
                                       \<and> unat Index \<le> 4294967295)
                      (AddrIndexOperands Value)
                 then Some (st\<lparr>AddrWriter :=
                       foldl (\<lambda>AW Index.
                                case map_of (getAddrOffsetSectionItem Unit) Index of
                                  None \<Rightarrow> AW
                                | Some EntryAddress \<Rightarrow> addIndexAddress EntryAddress (ucast Index) DId AW)
                         (AddrWriter st) (AddrIndexOperands Value)\<rparr>)
                 else None)
          else Some st
      | None \<Rightarrow>
          (case findAttributeInfo DIE DW_AT_low_pc of
             None \<Rightarrow> Some st
           | Some AttrVal \<Rightarrow>
               let AttrOffset = Offset AttrVal; Value = V AttrVal in
               case getAsAddress Value of
                 None \<Rightarrow>
                   Some (if Verbosity opts \<ge> 1
                         then errs (WarnUnexpectedFormValueForAttribute AttrOffset) st else st)
               | Some Address \<Rightarrow>
                   let NewAddress =
                         (case getBinaryFunctionContainingAddress BC Address of
                            Some Function \<Rightarrow> translateInputToOutputAddress Function Address
                          | None \<Rightarrow> 0)
                   in if getForm Value = DW_FORM_GNU_addr_index then
                        (if \<not> isDWOUnit Unit then None
                         else case getDWOId Unit of
                           None \<Rightarrow> None
                         | Some DId \<Rightarrow>
                             Some (st\<lparr>AddrWriter :=
                                        addIndexAddress
                                          (if NewAddress \<noteq> 0 then NewAddress else Address)
                                          (ucast (getRawUValue Value)) DId (AddrWriter st)\<rparr>))
                      else Some (addPatch P (LE64Patch AttrOffset NewAddress) st)))"

text \<open>The \<^verbatim>\<open>switch (DIE.getTag())\<close> of the loop body.\<close>

definition updateDIE ::
  "BinaryContext \<Rightarrow> Opts \<Rightarrow> (DebugLocationEntry list \<Rightarrow> u8 list) \<Rightarrow> nat \<Rightarrow> DWARFUnit
     \<Rightarrow> UnitRef \<Rightarrow> UnitRef \<Rightarrow> nat option \<Rightarrow> DWARFDie
     \<Rightarrow> CachedRangesMap \<times> DWARFRewriter \<Rightarrow> (CachedRangesMap \<times> DWARFRewriter) option" where
  "updateDIE BC opts encode CUIdx Unit P A RangesBase DIE cs =
     (case getTag DIE of
        DW_TAG_compile_unit \<Rightarrow>
          map_option (Pair (fst cs)) (updateCompileUnit BC opts Unit P A RangesBase DIE (snd cs))
      | DW_TAG_subprogram \<Rightarrow> updateSubprogram BC opts Unit P A DIE cs
      | DW_TAG_lexical_block \<Rightarrow> updateBlock BC opts P A DIE cs
      | DW_TAG_inlined_subroutine \<Rightarrow> updateBlock BC opts P A DIE cs
      | DW_TAG_try_block \<Rightarrow> updateBlock BC opts P A DIE cs
      | DW_TAG_catch_block \<Rightarrow> updateBlock BC opts P A DIE cs
      | _ \<Rightarrow> map_option (Pair (fst cs)) (updateOther BC opts encode CUIdx Unit P DIE (snd cs)))"

text \<open>
  The \<^verbatim>\<open>while\<close> loop (lines 299 to 586) over the entries that \<^verbatim>\<open>extractFast\<close> yields, with
  the nesting depth and the read offset. The result carries the read offset at which the
  loop stopped.
\<close>

fun walkEntries ::
  "BinaryContext \<Rightarrow> Opts \<Rightarrow> (DebugLocationEntry list \<Rightarrow> u8 list) \<Rightarrow> nat \<Rightarrow> DWARFUnit
     \<Rightarrow> UnitRef \<Rightarrow> UnitRef \<Rightarrow> nat option \<Rightarrow> DWARFDie list \<Rightarrow> nat \<Rightarrow> nat
     \<Rightarrow> CachedRangesMap \<times> DWARFRewriter \<Rightarrow> (nat \<times> DWARFRewriter) option" where
  "walkEntries BC opts encode CUIdx Unit P A RangesBase [] Depth DIEOffset cs =
     Some (DIEOffset, snd cs)"
| "walkEntries BC opts encode CUIdx Unit P A RangesBase (Die # rest) Depth DIEOffset cs =
     (if \<not> DIEOffset < getNextUnitOffset Unit then Some (DIEOffset, snd cs)
      else
        let Depth' = (case getAbbreviationDeclarationPtr Die of
                        Some AbbrDecl \<Rightarrow> if hasChildren AbbrDecl then Depth + 1 else Depth
                      | None \<Rightarrow> Depth - 1)
        in if getAbbreviationDeclarationPtr Die = None \<and> Depth' = 0
           then Some (NextOffset Die, snd cs)
           else case updateDIE BC opts encode CUIdx Unit P A RangesBase Die cs of
                  None \<Rightarrow> None
                | Some cs' \<Rightarrow>
                    walkEntries BC opts encode CUIdx Unit P A RangesBase rest Depth'
                      (NextOffset Die) cs')"

text \<open>\<^verbatim>\<open>updateUnitDebugInfo\<close> (lines 284 to 594).\<close>

definition updateUnitDebugInfo ::
  "BinaryContext \<Rightarrow> Opts \<Rightarrow> (DebugLocationEntry list \<Rightarrow> u8 list) \<Rightarrow> nat \<Rightarrow> DWARFUnit
     \<Rightarrow> UnitRef \<Rightarrow> UnitRef \<Rightarrow> nat option \<Rightarrow> DWARFRewriter \<Rightarrow> DWARFRewriter option" where
  "updateUnitDebugInfo BC opts encode CUIdx Unit P A RangesBase st =
     (case walkEntries BC opts encode CUIdx Unit P A RangesBase (Entries Unit) 0
             (getUnitOffset Unit + getHeaderSize Unit) (Map.empty, st) of
        None \<Rightarrow> None
      | Some (DIEOffset, st1) \<Rightarrow>
          let st2 = (if DIEOffset > getNextUnitOffset Unit
                     then errs (WarnCorruptDWARF (getUnitOffset Unit)) st1 else st1)
          in Some (st2\<lparr>UnitAbbreviations := UnitAbbreviations st2 @ [(A, getUnitOffset Unit)]\<rparr>))"

section \<open>The per-unit driver: \<^verbatim>\<open>processUnitDIE\<close>\<close>

text \<open>
  \<^verbatim>\<open>getDWOName\<close> (lines 132 to 159). \<open>useIndexMap\<close> tells whether a name-to-index map was
  passed; \<open>to_string\<close> is \<^verbatim>\<open>std::to_string\<close>.
\<close>

definition getDWOName ::
  "Opts \<Rightarrow> (nat \<Rightarrow> string) \<Rightarrow> DWARFUnit \<Rightarrow> bool \<Rightarrow> DWARFRewriter
     \<Rightarrow> (string \<times> DWARFRewriter) option" where
  "getDWOName opts to_string CU useIndexMap st =
     (case getDWOId CU of
        None \<Rightarrow> None
      | Some DId \<Rightarrow>
          (case map_of (DWOIdToName st) DId of
             Some Name \<Rightarrow> Some (Name, st)
           | None \<Rightarrow>
               if DWOName CU = [] then None
               else
                 case (if useIndexMap \<and> DwarfOutputPath opts \<noteq> [] then
                         (let n = (case map_of (NameToIndexMap st) (DWOName CU) of
                                     None \<Rightarrow> 0 | Some k \<Rightarrow> k)
                          in (DWOName CU @ to_string n,
                              st\<lparr>NameToIndexMap :=
                                    (DWOName CU, n + 1)
                                    # filter (\<lambda>(k, v). k \<noteq> DWOName CU) (NameToIndexMap st)\<rparr>))
                       else (DWOName CU, st)) of
                   (Name, st1) \<Rightarrow>
                     Some (Name @ ''.dwo'',
                           st1\<lparr>DWOIdToName :=
                                 (DId, Name @ ''.dwo'')
                                 # filter (\<lambda>(k, v). k \<noteq> DId) (DWOIdToName st1)\<rparr>)))"

text \<open>The lambda \<^verbatim>\<open>updateDWONameCompDir\<close> (lines 199 to 218).\<close>

definition updateDWONameCompDir ::
  "Opts \<Rightarrow> (nat \<Rightarrow> string) \<Rightarrow> DWARFUnit \<Rightarrow> DWARFRewriter \<Rightarrow> DWARFRewriter option" where
  "updateDWONameCompDir opts to_string Unit st =
     (case findAttributeInfo (getUnitDIE Unit) DW_AT_GNU_dwo_name of
        None \<Rightarrow> None
      | Some NameAttr \<Rightarrow>
          (case getDWOName opts to_string Unit True st of
             None \<Rightarrow> None
           | Some (ObjectName, st1) \<Rightarrow>
               (case addString ObjectName (StrWriter st1) of
                  (NewOffset, SW) \<Rightarrow>
                    let st2 = addPatch MainBinary (LE32Patch (Offset NameAttr) (of_nat NewOffset))
                                (st1\<lparr>StrWriter := SW\<rparr>)
                    in case findAttributeInfo (getUnitDIE Unit) DW_AT_comp_dir of
                         None \<Rightarrow> None
                       | Some DirAttr \<Rightarrow>
                           if DwarfOutputPath opts \<noteq> [] then
                             (case addString (DwarfOutputPath opts) (StrWriter st2) of
                                (NewOffset2, SW2) \<Rightarrow>
                                  Some (addPatch MainBinary
                                          (LE32Patch (Offset DirAttr) (of_nat NewOffset2))
                                          (st2\<lparr>StrWriter := SW2\<rparr>)))
                           else Some st2)))"

text \<open>
  The lambda \<^verbatim>\<open>processUnitDIE\<close> (lines 220 to 254). The split unit, when it was loaded, is
  rewritten first with its own patcher, abbreviation writer and location-list writer; then
  the unit itself is rewritten with the patcher of the main binary.
\<close>

definition processUnitDIE ::
  "BinaryContext \<Rightarrow> Opts \<Rightarrow> (DebugLocationEntry list \<Rightarrow> u8 list) \<Rightarrow> (nat \<Rightarrow> string)
     \<Rightarrow> nat \<Rightarrow> DWARFUnit \<Rightarrow> DWARFRewriter \<Rightarrow> DWARFRewriter option" where
  "processUnitDIE BC opts encode to_string CUIdx Unit st =
     (case (case getDWOId Unit of None \<Rightarrow> None
            | Some DId \<Rightarrow> map_option (Pair DId) (getDWOCU BC DId)) of
        Some (DId, SplitCU) \<Rightarrow>
          (case updateDWONameCompDir opts to_string Unit st of
             None \<Rightarrow> None
           | Some st1 \<Rightarrow>
               if map_of (LocListWritersByCU st1) DId \<noteq> None then None
               else
                 let st2 = st1\<lparr>LocListWritersByCU :=
                                 LocListWritersByCU st1
                                 @ [(DId, \<lparr>IsLoclistWriter = True, finalize = []\<rparr>)]\<rparr>;
                     RangesBase = SectionOffset (RangesSectionWriter st2);
                     st3 = st2\<lparr>DebugInfoPatchers := (DebugInfoPatchers st2)
                                 (DWO DId := (DebugInfoPatchers st2 (DWO DId))
                                               \<lparr>RangeBase := RangesBase\<rparr>)\<rparr>
                 in case updateUnitDebugInfo BC opts encode DId SplitCU (DWO DId) (DWO DId) None st3 of
                      None \<Rightarrow> None
                    | Some st4 \<Rightarrow>
                        updateUnitDebugInfo BC opts encode CUIdx Unit MainBinary MainBinary
                          (if WasRangeBaseUsed (DebugInfoPatchers st4 (DWO DId))
                           then Some RangesBase else None)
                          st4)
      | None \<Rightarrow> updateUnitDebugInfo BC opts encode CUIdx Unit MainBinary MainBinary None st)"

text \<open>The sequential loop over the compile units (lines 256 to 259).\<close>

fun processUnits ::
  "BinaryContext \<Rightarrow> Opts \<Rightarrow> (DebugLocationEntry list \<Rightarrow> u8 list) \<Rightarrow> (nat \<Rightarrow> string)
     \<Rightarrow> DWARFUnit list \<Rightarrow> DWARFRewriter \<Rightarrow> DWARFRewriter option" where
  "processUnits BC opts encode to_string [] st = Some st"
| "processUnits BC opts encode to_string (CU # rest) st =
     (case processUnitDIE BC opts encode to_string 0 CU st of
        None \<Rightarrow> None
      | Some st' \<Rightarrow> processUnits BC opts encode to_string rest st')"

section \<open>Applying a patch list\<close>

text \<open>
  Modelled from the spec: \<^verbatim>\<open>SimpleBinaryPatcher::patchBinary\<close> is declared outside this
  file. A patch is an intent to overwrite bytes at an offset: a fixed-width little-endian
  integer, or a variable-width value (ULEB128) written with an explicit byte count. The
  list is applied in order, in one pass; the offsets are offsets in the whole section, and
  \<open>DWPOffset\<close> is where the patched slice starts in it. A byte that would fall outside the
  contents is not written: a patch never changes the length of the section.
\<close>

definition uleb128 :: "u64 \<Rightarrow> nat \<Rightarrow> u8 list" where
  "uleb128 Value Size =
     map (\<lambda>i. (ucast (drop_bit (7 * i) Value) AND 0x7f)
               OR (if i + 1 < Size then 0x80 else 0)) [0..<Size]"

definition PatchOffset :: "Patch \<Rightarrow> nat" where
  "PatchOffset p = (case p of LE32Patch off v \<Rightarrow> off | LE64Patch off v \<Rightarrow> off
                    | UDataPatch off v n \<Rightarrow> off)"

definition PatchBytes :: "Patch \<Rightarrow> u8 list" where
  "PatchBytes p = (case p of LE32Patch off v \<Rightarrow> le_bytes 4 v | LE64Patch off v \<Rightarrow> le_bytes 8 v
                   | UDataPatch off v n \<Rightarrow> uleb128 v n)"

fun writeBytes :: "nat \<Rightarrow> u8 list \<Rightarrow> u8 list \<Rightarrow> u8 list" where
  "writeBytes pos [] BinaryContents = BinaryContents"
| "writeBytes pos (b # bs) BinaryContents =
     writeBytes (pos + 1) bs
       (if pos < length BinaryContents then BinaryContents[pos := b] else BinaryContents)"

definition patchBinary :: "Patch list \<Rightarrow> u8 list \<Rightarrow> nat \<Rightarrow> u8 list" where
  "patchBinary patches BinaryContents DWPOffset =
     foldl (\<lambda>contents p.
              if DWPOffset \<le> PatchOffset p
              then writeBytes (PatchOffset p - DWPOffset) (PatchBytes p) contents
              else contents)
       BinaryContents patches"

text \<open>The byte positions of the section that a patch and a patch list overwrite.\<close>

definition PatchSpan :: "Patch \<Rightarrow> nat set" where
  "PatchSpan p = {PatchOffset p ..< PatchOffset p + length (PatchBytes p)}"

definition PatchedOffsets :: "Patch list \<Rightarrow> nat set" where
  "PatchedOffsets patches = \<Union> (PatchSpan ` set patches)"

text \<open>The lambda \<^verbatim>\<open>applyPatch\<close> of \<^verbatim>\<open>updateDebugData\<close> (lines 921 to 926).\<close>

definition applyPatch :: "SimpleBinaryPatcher \<Rightarrow> u8 list \<Rightarrow> nat \<Rightarrow> u8 list" where
  "applyPatch Patcher Data DWPOffset = patchBinary (Patches Patcher) Data DWPOffset"

section \<open>Writing the split units: \<^verbatim>\<open>updateDebugData\<close>, \<^verbatim>\<open>writeDWP\<close>, \<^verbatim>\<open>writeDWOFiles\<close>\<close>

text \<open>\<^verbatim>\<open>createKnownSectionsMap\<close> (lines 890 to 903) and \<^verbatim>\<open>getSectionName\<close> (lines 905 to 911).\<close>

definition KnownSections :: "(string \<times> DWARFSectionKind) list" where
  "KnownSections =
     [(''debug_info.dwo'', DW_SECT_INFO),
      (''debug_types.dwo'', DW_SECT_EXT_TYPES),
      (''debug_str_offsets.dwo'', DW_SECT_STR_OFFSETS),
      (''debug_str.dwo'', DW_SECT_EXT_unknown),
      (''debug_loc.dwo'', DW_SECT_EXT_LOC),
      (''debug_abbrev.dwo'', DW_SECT_ABBREV),
      (''debug_line.dwo'', DW_SECT_EXT_unknown)]"

definition getSectionName :: "string \<Rightarrow> string" where
  "getSectionName Name = dropWhile (\<lambda>c. c = CHR ''.'' \<or> c = CHR ''_'') Name"

text \<open>The lambda \<^verbatim>\<open>getSliceData\<close> (lines 930 to 939): the slice and its offset in the package.\<close>

definition getSliceData ::
  "(DWARFSectionKind \<times> nat \<times> nat) list option \<Rightarrow> u8 list \<Rightarrow> DWARFSectionKind
     \<Rightarrow> (u8 list \<times> nat) option" where
  "getSliceData DWOEntry OutData Sec =
     (case DWOEntry of
        None \<Rightarrow> Some (OutData, 0)
      | Some Entry \<Rightarrow>
          (case map_of Entry Sec of
             None \<Rightarrow> None
           | Some (DWPOffset, Length) \<Rightarrow> Some (take Length (drop DWPOffset OutData), DWPOffset)))"

text \<open>
  \<^verbatim>\<open>updateDebugData\<close> (lines 915 to 994). The result is \<open>Some None\<close> for a section that is
  not known. \<open>finalizeAbbrev\<close> stands for \<^verbatim>\<open>DebugAbbrevWriter::finalize\<close>.
\<close>

definition updateDebugData ::
  "(UnitRef \<Rightarrow> AbbrevPatch list \<Rightarrow> u8 list) \<Rightarrow> string \<times> u8 list
     \<Rightarrow> (DWARFSectionKind \<times> nat \<times> nat) list option \<Rightarrow> nat \<Rightarrow> DWARFRewriter
     \<Rightarrow> (u8 list option \<times> DWARFRewriter) option" where
  "updateDebugData finalizeAbbrev Section DWOEntry DWOId st =
     (let Name = getSectionName (fst Section); OutData = snd Section in
      case map_of KnownSections Name of
        None \<Rightarrow> Some (None, st)
      | Some Kind \<Rightarrow>
          (case Kind of
             DW_SECT_INFO \<Rightarrow>
               (case getSliceData DWOEntry OutData DW_SECT_INFO of
                  None \<Rightarrow> None
                | Some (Slice, DWPOffset) \<Rightarrow>
                    Some (Some (applyPatch (DebugInfoPatchers st (DWO DWOId)) Slice DWPOffset), st))
           | DW_SECT_EXT_TYPES \<Rightarrow>
               map_option (\<lambda>(Slice, DWPOffset). (Some Slice, st))
                 (getSliceData DWOEntry OutData DW_SECT_EXT_TYPES)
           | DW_SECT_STR_OFFSETS \<Rightarrow>
               map_option (\<lambda>(Slice, DWPOffset). (Some Slice, st))
                 (getSliceData DWOEntry OutData DW_SECT_STR_OFFSETS)
           | DW_SECT_ABBREV \<Rightarrow>
               Some (Some (finalizeAbbrev (DWO DWOId) (AbbrevWriters st (DWO DWOId))), st)
           | DW_SECT_EXT_LOC \<Rightarrow>
               (case map_of (LocListWritersByCU st) DWOId of
                  None \<Rightarrow> None
                | Some LocWriter \<Rightarrow> Some (Some (finalize LocWriter), st))
           | DW_SECT_LINE \<Rightarrow>
               map_option (\<lambda>(Slice, DWPOffset). (Some Slice, st))
                 (getSliceData DWOEntry OutData DW_SECT_LINE)
           | DW_SECT_EXT_unknown \<Rightarrow>
               Some (Some OutData,
                     if Name \<noteq> ''debug_str.dwo''
                     then errs (WarnUnsupportedDebugSection Name) st else st)))"

text \<open>The entry of the DWO context's CU index for a unit, when the input is a package.\<close>

definition getDWOEntry :: "BinaryContext \<Rightarrow> nat \<Rightarrow> (DWARFSectionKind \<times> nat \<times> nat) list option" where
  "getDWOEntry BC DWOId =
     (case DWOCUIndexRows BC of
        None \<Rightarrow> None
      | Some Rows \<Rightarrow> if Rows = [] then None else map_of Rows DWOId)"

text \<open>
  \<^verbatim>\<open>writeDWOFiles\<close> (lines 1138 to 1191). An output file is its path and the bytes emitted
  into it, by section name.
\<close>

record DWOOutputFile =
  FullPath :: string
  EmittedBytes :: "(string \<times> u8 list) list"

fun emitDWOSections ::
  "(UnitRef \<Rightarrow> AbbrevPatch list \<Rightarrow> u8 list) \<Rightarrow> (DWARFSectionKind \<times> nat \<times> nat) list option
     \<Rightarrow> nat \<Rightarrow> (string \<times> u8 list) list \<Rightarrow> (string \<times> u8 list) list \<times> DWARFRewriter
     \<Rightarrow> ((string \<times> u8 list) list \<times> DWARFRewriter) option" where
  "emitDWOSections finalizeAbbrev DWOEntry DWOId [] acc = Some acc"
| "emitDWOSections finalizeAbbrev DWOEntry DWOId (Section # rest) acc =
     (case updateDebugData finalizeAbbrev Section DWOEntry DWOId (snd acc) of
        None \<Rightarrow> None
      | Some (None, st') \<Rightarrow> emitDWOSections finalizeAbbrev DWOEntry DWOId rest (fst acc, st')
      | Some (Some OutData, st') \<Rightarrow>
          emitDWOSections finalizeAbbrev DWOEntry DWOId rest
            (fst acc @ [(getSectionName (fst Section), OutData)], st'))"

fun writeDWOFilesLoop ::
  "BinaryContext \<Rightarrow> Opts \<Rightarrow> (nat \<Rightarrow> string) \<Rightarrow> (UnitRef \<Rightarrow> AbbrevPatch list \<Rightarrow> u8 list)
     \<Rightarrow> DWARFUnit list \<Rightarrow> DWOOutputFile list \<times> DWARFRewriter
     \<Rightarrow> (DWOOutputFile list \<times> DWARFRewriter) option" where
  "writeDWOFilesLoop BC opts to_string finalizeAbbrev [] acc = Some acc"
| "writeDWOFilesLoop BC opts to_string finalizeAbbrev (CU # rest) acc =
     (case getDWOId CU of
        None \<Rightarrow> writeDWOFilesLoop BC opts to_string finalizeAbbrev rest acc
      | Some DId \<Rightarrow>
          (case getDWOCU BC DId of
             None \<Rightarrow> writeDWOFilesLoop BC opts to_string finalizeAbbrev rest acc
           | Some DWOCU \<Rightarrow>
               let CompDir = (if DwarfOutputPath opts = [] then getCompilationDir CU
                              else DwarfOutputPath opts)
               in case getDWOName opts to_string CU False (snd acc) of
                    None \<Rightarrow> None
                  | Some (ObjectName, st1) \<Rightarrow>
                      (case emitDWOSections finalizeAbbrev (getDWOEntry BC DId) DId
                              (FileSections DWOCU) ([], st1) of
                         None \<Rightarrow> None
                       | Some (Emitted, st2) \<Rightarrow>
                           writeDWOFilesLoop BC opts to_string finalizeAbbrev rest
                             (fst acc @ [\<lparr>FullPath = CompDir @ ''/'' @ ObjectName,
                                          EmittedBytes = Emitted\<rparr>], st2))))"


text \<open>
  \<^verbatim>\<open>writeDWP\<close> (lines 998 to 1136). \<^verbatim>\<open>getContributionIndex(Kind, 2)\<close> is the position of a
  section kind in a version 2 index; it has none for an unknown kind.
\<close>

definition getContributionIndex :: "DWARFSectionKind \<Rightarrow> nat option" where
  "getContributionIndex Kind =
     (case Kind of
        DW_SECT_INFO \<Rightarrow> Some 0
      | DW_SECT_EXT_TYPES \<Rightarrow> Some 1
      | DW_SECT_ABBREV \<Rightarrow> Some 2
      | DW_SECT_LINE \<Rightarrow> Some 3
      | DW_SECT_EXT_LOC \<Rightarrow> Some 4
      | DW_SECT_STR_OFFSETS \<Rightarrow> Some 5
      | DW_SECT_EXT_unknown \<Rightarrow> None)"

record UnitIndexEntry =
  EntryName :: string
  EntryDWOName :: string
  Contributions :: "(nat \<times> nat \<times> nat) list"

text \<open>
  What \<^verbatim>\<open>writeDWP\<close> has produced so far: the bytes given to the streamer, the string and
  string-offset sections handed to \<^verbatim>\<open>writeStringsAndOffsets\<close>, the running offsets of the
  contributions, the index entries by signature, whether the index was written and
  whether the output file is kept.
\<close>

record DWPOutput =
  OutputName :: string
  StreamedBytes :: "(string \<times> u8 list) list"
  MergedStrings :: "(u8 list \<times> u8 list) list"
  ContributionOffsets :: "nat \<Rightarrow> nat"
  IndexEntries :: "(nat \<times> UnitIndexEntry) list"
  IndexWritten :: bool
  Kept :: bool

record DWPUnitState =
  CurStrSection :: "u8 list"
  CurStrOffsetSection :: "u8 list"
  StrSectionWrittenOut :: bool
  CurContributions :: "(nat \<times> nat \<times> nat) list"

text \<open>The loop over the sections of one split unit's file (lines 1080 to 1117).\<close>

fun writeDWPSections ::
  "(UnitRef \<Rightarrow> AbbrevPatch list \<Rightarrow> u8 list) \<Rightarrow> (DWARFSectionKind \<times> nat \<times> nat) list option
     \<Rightarrow> nat \<Rightarrow> (string \<times> u8 list) list \<Rightarrow> DWPUnitState \<times> DWPOutput \<times> DWARFRewriter
     \<Rightarrow> (DWPUnitState \<times> DWPOutput \<times> DWARFRewriter) option" where
  "writeDWPSections finalizeAbbrev DWOEntry DWOId [] acc = Some acc"
| "writeDWPSections finalizeAbbrev DWOEntry DWOId (Section # rest) (U, Out, st) =
     (case updateDebugData finalizeAbbrev Section DWOEntry DWOId st of
        None \<Rightarrow> None
      | Some (None, st') \<Rightarrow> writeDWPSections finalizeAbbrev DWOEntry DWOId rest (U, Out, st')
      | Some (Some OutData, st') \<Rightarrow>
          let Name = getSectionName (fst Section) in
          case (if Name = ''debug_str.dwo'' then Some (U\<lparr>CurStrSection := OutData\<rparr>, Out)
                else
                  case map_of KnownSections Name of
                    None \<Rightarrow> None
                  | Some Kind \<Rightarrow>
                      (case getContributionIndex Kind of
                         None \<Rightarrow> None
                       | Some Index \<Rightarrow>
                           Some ((if Kind = DW_SECT_STR_OFFSETS
                                  then U\<lparr>CurStrOffsetSection := OutData\<rparr> else U)
                                   \<lparr>CurContributions :=
                                      (Index, ContributionOffsets Out Index, length OutData)
                                      # filter (\<lambda>(i, c). i \<noteq> Index) (CurContributions U)\<rparr>,
                                 (if Kind = DW_SECT_STR_OFFSETS then Out
                                  else Out\<lparr>StreamedBytes := StreamedBytes Out @ [(Name, OutData)]\<rparr>)
                                   \<lparr>ContributionOffsets := (ContributionOffsets Out)
                                      (Index := ContributionOffsets Out Index + length OutData)\<rparr>))) of
            None \<Rightarrow> None
          | Some (U1, Out1) \<Rightarrow>
              if \<not> StrSectionWrittenOut U1 \<and> CurStrOffsetSection U1 \<noteq> [] \<and> CurStrSection U1 \<noteq> []
              then writeDWPSections finalizeAbbrev DWOEntry DWOId rest
                     (U1\<lparr>StrSectionWrittenOut := True\<rparr>,
                      Out1\<lparr>MergedStrings := MergedStrings Out1
                                              @ [(CurStrSection U1, CurStrOffsetSection U1)]\<rparr>,
                      st')
              else writeDWPSections finalizeAbbrev DWOEntry DWOId rest (U1, Out1, st'))"

text \<open>
  The loop over the compile units (lines 1046 to 1126). The second component of the result
  tells whether the loop ran to its end; it is \<open>False\<close> after the \<^verbatim>\<open>return\<close> that follows
  the diagnostic for a duplicate signature.
\<close>

fun writeDWPLoop ::
  "BinaryContext \<Rightarrow> (UnitRef \<Rightarrow> AbbrevPatch list \<Rightarrow> u8 list) \<Rightarrow> DWARFUnit list
     \<Rightarrow> DWPOutput \<times> DWARFRewriter \<Rightarrow> (bool \<times> DWPOutput \<times> DWARFRewriter) option" where
  "writeDWPLoop BC finalizeAbbrev [] acc = Some (True, acc)"
| "writeDWPLoop BC finalizeAbbrev (CU # rest) (Out, st) =
     (case getDWOId CU of
        None \<Rightarrow> writeDWPLoop BC finalizeAbbrev rest (Out, st)
      | Some DId \<Rightarrow>
          (case getDWOCU BC DId of
             None \<Rightarrow> writeDWPLoop BC finalizeAbbrev rest (Out, st)
           | Some DWOCU \<Rightarrow>
               if getVersion CU \<noteq> 4 then None
               else
                 case writeDWPSections finalizeAbbrev (getDWOEntry BC DId) DId (FileSections DWOCU)
                        (\<lparr>CurStrSection = [], CurStrOffsetSection = [],
                          StrSectionWrittenOut = False, CurContributions = []\<rparr>, Out, st) of
                   None \<Rightarrow> None
                 | Some (U, Out1, st1) \<Rightarrow>
                     let CurEntry = \<lparr>EntryName = (case getShortName CU of None \<Rightarrow> [] | Some n \<Rightarrow> n),
                                     EntryDWOName = DWOName CU,
                                     Contributions = CurContributions U\<rparr>
                     in case map_of (IndexEntries Out1) DId of
                          Some Previous \<Rightarrow>
                            Some (False, Out1,
                                  errs (ErrDuplicateDWOId DId (EntryDWOName Previous)
                                          (EntryDWOName CurEntry)) st1)
                        | None \<Rightarrow>
                            writeDWPLoop BC finalizeAbbrev rest
                              (Out1\<lparr>IndexEntries := IndexEntries Out1 @ [(DId, CurEntry)]\<rparr>, st1)))"





section \<open>Notions used to state the properties\<close>

text \<open>
  The local \<^verbatim>\<open>NumBytesToFill\<close> of \<^verbatim>\<open>convertToRanges(DIE, RangesSectionOffset, ...)\<close>
  (lines 1538 to 1548), for the two forms of high-pc that the function accepts.
\<close>

definition NumBytesToFill :: "Form \<Rightarrow> nat" where
  "NumBytesToFill HighPCForm = (if isHighPcFormEightBytes HighPCForm then 12 else 8)"

text \<open>
  A pending entry on which \<^verbatim>\<open>patchLowHigh\<close> passes its assertions: the DIE has a low-pc and a
  high-pc attribute and, when low-pc is an index into the address table, the DIE belongs to a
  split unit, the range's low address is registered in the table of that unit, and high-pc
  lies after low-pc, less than \<open>2^31\<close> bytes away.
\<close>

definition PendingEntryOK :: "(nat \<Rightarrow> (u32 \<times> u64) list) \<Rightarrow> DWARFDie \<times> DebugAddressRange \<Rightarrow> bool" where
  "PendingEntryOK AW e =
     (case e of (DIE, R) \<Rightarrow>
      case findAttributeInfo DIE DW_AT_low_pc of
        None \<Rightarrow> False
      | Some l \<Rightarrow>
          (case findAttributeInfo DIE DW_AT_high_pc of
             None \<Rightarrow> False
           | Some h \<Rightarrow>
               if getForm (V l) = DW_FORM_GNU_addr_index
               then UnitIsDWO DIE
                    \<and> (case UnitDWOId DIE of None \<Rightarrow> False
                        | Some d \<Rightarrow> getIndexFromAddress (LowPC R) d AW \<noteq> None)
                    \<and> Offset l \<le> Offset h \<and> Offset h - Offset l < 2 ^ 31
               else True))"

text \<open>
  What the specification says a flushed entry receives, written from its words: low-pc
  receives the low address of the range in 8 bytes or, for a split unit, its index in the
  address table, written over the bytes from the offset of low-pc up to the offset of
  high-pc; high-pc receives the difference high minus low, in 8 or 4 bytes according to the
  form of high-pc. The result names the patcher that receives the two patches.
\<close>

definition ExpectedLowHighPatches ::
  "UnitRef \<Rightarrow> (nat \<Rightarrow> (u32 \<times> u64) list) \<Rightarrow> DWARFDie \<times> DebugAddressRange
     \<Rightarrow> (UnitRef \<times> Patch list) option" where
  "ExpectedLowHighPatches P AW e =
     (case e of (DIE, R) \<Rightarrow>
      case findAttributeInfo DIE DW_AT_low_pc of
        None \<Rightarrow> None
      | Some l \<Rightarrow>
          (case findAttributeInfo DIE DW_AT_high_pc of
             None \<Rightarrow> None
           | Some h \<Rightarrow>
               let High = (if isHighPcFormEightBytes (getForm (V h))
                           then LE64Patch (Offset h) (HighPC R - LowPC R)
                           else LE32Patch (Offset h) (ucast (HighPC R - LowPC R)))
               in if getForm (V l) = DW_FORM_GNU_addr_index then
                    (case UnitDWOId DIE of
                       None \<Rightarrow> None
                     | Some d \<Rightarrow>
                         (case getIndexFromAddress (LowPC R) d AW of
                            None \<Rightarrow> None
                          | Some idx \<Rightarrow>
                              Some (DWO d,
                                    [UDataPatch (Offset l) (ucast idx) (Offset h - Offset l),
                                     High])))
                  else Some (P, [LE64Patch (Offset l) (LowPC R), High])))"

text \<open>
  An entry is flushed in a state when the expected patches are among the patches of the
  patcher they are meant for.
\<close>

definition PendingEntryFlushed ::
  "UnitRef \<Rightarrow> (nat \<Rightarrow> (u32 \<times> u64) list) \<Rightarrow> DWARFRewriter \<Rightarrow> DWARFDie \<times> DebugAddressRange \<Rightarrow> bool" where
  "PendingEntryFlushed P AW st' e =
     (case ExpectedLowHighPatches P AW e of
        None \<Rightarrow> False
      | Some (T, ps) \<Rightarrow> set ps \<subseteq> set (Patches (DebugInfoPatchers st' T)))"

text \<open>
  Between two states the address table is the same and no patcher lost a patch.
\<close>

definition PatchesGrow :: "DWARFRewriter \<Rightarrow> DWARFRewriter \<Rightarrow> bool" where
  "PatchesGrow st st' \<longleftrightarrow>
     AddrWriter st' = AddrWriter st
     \<and> (\<forall>Q. set (Patches (DebugInfoPatchers st Q)) \<subseteq> set (Patches (DebugInfoPatchers st' Q)))"

text \<open>
  A cache scope is the sequence of additions to the ranges writer made while one cache is
  live: those through the cache (\<^verbatim>\<open>addRanges(Ranges, CachedRanges)\<close>, the block tags) and the
  others (\<^verbatim>\<open>addRanges(Ranges)\<close>, which the conversion of low-pc/high-pc pairs calls in between).
  \<open>addRangesScope\<close> runs the sequence and returns the offsets in order.
\<close>

datatype RangesEvent = CachedAdd "DebugAddressRange list" | OtherAdd "DebugAddressRange list"

fun addRangesScope ::
  "RangesEvent list \<Rightarrow> CachedRangesMap \<Rightarrow> DebugRangesSectionWriter \<Rightarrow> nat list" where
  "addRangesScope [] C W = []"
| "addRangesScope (CachedAdd L # evs) C W =
     (case addRangesCached L C W of (off, C', W') \<Rightarrow> off # addRangesScope evs C' W')"
| "addRangesScope (OtherAdd L # evs) C W =
     (case addRanges L W of (off, W') \<Rightarrow> off # addRangesScope evs C W')"

text \<open>
  The cache holds only offsets of lists stored in the section, after the reserved empty list,
  at most one list for each offset.
\<close>

definition CacheInv :: "CachedRangesMap \<Rightarrow> DebugRangesSectionWriter \<Rightarrow> bool" where
  "CacheInv C W \<longleftrightarrow>
     EmptyRangesOffset W < SectionOffset W
     \<and> (\<forall>L off. C L = Some off \<longrightarrow> EmptyRangesOffset W < off \<and> off < SectionOffset W \<and> L \<noteq> [])
     \<and> (\<forall>L L' off. C L = Some off \<longrightarrow> C L' = Some off \<longrightarrow> L = L')"

text \<open>
  Between two states, every patcher other than \<open>P\<close> and every abbreviation writer other than
  \<open>A\<close> is the same, and so are the names of the split units and the string writer.
\<close>

definition OthersKept :: "UnitRef \<Rightarrow> UnitRef \<Rightarrow> DWARFRewriter \<Rightarrow> DWARFRewriter \<Rightarrow> bool" where
  "OthersKept P A st st' \<longleftrightarrow>
     (\<forall>Q. Q \<noteq> P \<longrightarrow> DebugInfoPatchers st' Q = DebugInfoPatchers st Q)
     \<and> (\<forall>B. B \<noteq> A \<longrightarrow> AbbrevWriters st' B = AbbrevWriters st B)
     \<and> DWOIdToName st' = DWOIdToName st \<and> NameToIndexMap st' = NameToIndexMap st
     \<and> StrWriter st' = StrWriter st"

text \<open>
  The width in bytes of the high-pc field, for the two forms that the conversion accepts.
\<close>

definition HighPCFieldWidth :: "Form \<Rightarrow> nat" where
  "HighPCFieldWidth HighPCForm = (if isHighPcFormEightBytes HighPCForm then 8 else 4)"

section \<open>Example inputs\<close>

text \<open>
  A rewriter before any unit is processed, a declaration of subprograms with an 8-byte
  low-pc and a 4-byte high-pc, one for the split unit 7 with an indexed low-pc of one byte,
  DIEs that use them, and a binary with a function of one output
  range at \<open>0x1000\<close>, one of three output ranges at \<open>0x2000\<close>, and none elsewhere.
\<close>

definition freshRewriter :: DWARFRewriter where
  "freshRewriter =
     \<lparr>ConvertedRangesAbbrevs = {}, PendingRanges = [],
      DebugInfoPatchers = (\<lambda>P. SimpleBinaryPatcher_new), AbbrevWriters = (\<lambda>A. []),
      UnitAbbreviations = [],
      RangesSectionWriter = \<lparr>EmptyRangesOffset = 0, SectionOffset = 16, RangeLists = []\<rparr>,
      ARangesSectionWriter = [], AddrWriter = (\<lambda>DWOId. []),
      StrWriter = \<lparr>StrSectionSize = 0, StrOffsets = []\<rparr>,
      LocListWritersByCU = [(0, \<lparr>IsLoclistWriter = False, finalize = []\<rparr>)],
      LocListDebugInfoPatches = [], DwoLocListDebugInfoPatches = [],
      NameToIndexMap = [], DWOIdToName = [], Diags = []\<rparr>"

definition exAttr :: "Form \<Rightarrow> u64 \<Rightarrow> u64 option \<Rightarrow> nat \<Rightarrow> AttrInfo" where
  "exAttr f raw addr off =
     \<lparr>V = \<lparr>getForm = f, getRawUValue = raw, getAsAddress = addr, AddrIndexOperands = []\<rparr>,
      Offset = off\<rparr>"

definition exSubprogramAbbrev :: DWARFAbbreviationDeclaration where
  "exSubprogramAbbrev =
     \<lparr>AbbrevId = 1, AbbrevTag = DW_TAG_subprogram, hasChildren = False,
      AttributeSpecs = [(DW_AT_low_pc, DW_FORM_addr), (DW_AT_high_pc, DW_FORM_data4)]\<rparr>"

definition exSubprogram :: "nat \<Rightarrow> u64 \<Rightarrow> DWARFDie" where
  "exSubprogram off addr =
     \<lparr>getOffset = off, NextOffset = off + 13,
      getAbbreviationDeclarationPtr = Some exSubprogramAbbrev,
      AttrValues = [(DW_AT_low_pc, exAttr DW_FORM_addr addr (Some addr) (off + 1)),
                    (DW_AT_high_pc, exAttr DW_FORM_data4 16 None (off + 9))],
      getAddressRanges = Some [\<lparr>LowPC = addr, HighPC = addr + 16\<rparr>],
      LocationTable = ([], False), UnitDWOId = None, UnitIsDWO = False\<rparr>"

definition exIndexedAbbrev :: DWARFAbbreviationDeclaration where
  "exIndexedAbbrev =
     \<lparr>AbbrevId = 2, AbbrevTag = DW_TAG_subprogram, hasChildren = False,
      AttributeSpecs = [(DW_AT_low_pc, DW_FORM_GNU_addr_index), (DW_AT_high_pc, DW_FORM_data4)]\<rparr>"

definition exIndexedSubprogram :: "nat \<Rightarrow> u64 \<Rightarrow> u64 \<Rightarrow> DWARFDie" where
  "exIndexedSubprogram off idx addr =
     \<lparr>getOffset = off, NextOffset = off + 6,
      getAbbreviationDeclarationPtr = Some exIndexedAbbrev,
      AttrValues = [(DW_AT_low_pc, exAttr DW_FORM_GNU_addr_index idx (Some addr) (off + 1)),
                    (DW_AT_high_pc, exAttr DW_FORM_data4 16 None (off + 2))],
      getAddressRanges = Some [\<lparr>LowPC = addr, HighPC = addr + 16\<rparr>],
      LocationTable = ([], False), UnitDWOId = Some 7, UnitIsDWO = True\<rparr>"

definition exFunction :: "DebugAddressRange list \<Rightarrow> BinaryFunction" where
  "exFunction Ranges =
     \<lparr>getOutputAddressRanges = Ranges,
      translateInputToOutputRanges = (\<lambda>In. []),
      translateInputToOutputLocationList = (\<lambda>In. In),
      translateInputToOutputAddress = (\<lambda>a. a)\<rparr>"

definition exFunctionAt :: "u64 \<Rightarrow> BinaryFunction option" where
  "exFunctionAt a =
     (if a = 0x1000 then Some (exFunction [\<lparr>LowPC = 0x5000, HighPC = 0x5010\<rparr>])
      else if a = 0x2000
      then Some (exFunction [\<lparr>LowPC = 0x6000, HighPC = 0x6008\<rparr>, \<lparr>LowPC = 0x7000, HighPC = 0x7004\<rparr>,
                             \<lparr>LowPC = 0x8000, HighPC = 0x8004\<rparr>])
      else None)"

definition exBC :: BinaryContext where
  "exBC =
     \<lparr>getBinaryFunctionAtAddress = exFunctionAt,
      getBinaryFunctionContainingAddress = exFunctionAt,
      translateModuleAddressRanges = (\<lambda>In. In),
      getDWOCU = (\<lambda>DWOId. None), compile_units = [],
      DWOCUIndexRows = None, getGdbIndexSection = None\<rparr>"

definition exOpts :: Opts where
  "exOpts = \<lparr>Verbosity = 1, DwarfOutputPath = [], OutputFilename = ''a.out'', WriteDWP = False\<rparr>"

definition exUnit :: "nat option \<Rightarrow> DWARFDie list \<Rightarrow> DWARFUnit" where
  "exUnit DWOId Dies =
     \<lparr>getUnitOffset = 0, getHeaderSize = 11, getNextUnitOffset = 100, getDWOId = DWOId,
      isDWOUnit = False, getBaseAddress = None, getAddrOffsetSectionItem = [],
      Entries = Dies, getUnitDIE = hd Dies, DWOName = ''a'', getShortName = Some ''a.c'',
      getCompilationDir = ''/src'', getVersion = 4, FileSections = []\<rparr>"

definition exPendingRewriter :: DWARFRewriter where
  "exPendingRewriter =
     freshRewriter\<lparr>PendingRanges :=
       [(1, [(exSubprogram 11 0x1000, \<lparr>LowPC = 0x5000, HighPC = 0x5010\<rparr>)]),
        (2, [(exIndexedSubprogram 10 0 0x1000, \<lparr>LowPC = 0x5000, HighPC = 0x5010\<rparr>)])],
       AddrWriter := (\<lambda>DWOId. if DWOId = 7 then [(3, 0x5000)] else [])\<rparr>"

definition exRangesWriter :: DebugRangesSectionWriter where
  "exRangesWriter = \<lparr>EmptyRangesOffset = 0, SectionOffset = 16, RangeLists = []\<rparr>"

definition exEvents :: "RangesEvent list" where
  "exEvents = [CachedAdd [\<lparr>LowPC = 1, HighPC = 2\<rparr>], CachedAdd [\<lparr>LowPC = 3, HighPC = 4\<rparr>],
               CachedAdd [\<lparr>LowPC = 1, HighPC = 2\<rparr>]]"

text \<open>
  A declaration of lexical blocks with a \<^verbatim>\<open>DW_AT_ranges\<close> attribute and a block that uses it.
\<close>

definition exBlockAbbrev :: DWARFAbbreviationDeclaration where
  "exBlockAbbrev =
     \<lparr>AbbrevId = 3, AbbrevTag = DW_TAG_lexical_block, hasChildren = False,
      AttributeSpecs = [(DW_AT_ranges, DW_FORM_sec_offset)]\<rparr>"

definition exBlock :: "nat \<Rightarrow> u64 \<Rightarrow> DWARFDie" where
  "exBlock off addr =
     \<lparr>getOffset = off, NextOffset = off + 5,
      getAbbreviationDeclarationPtr = Some exBlockAbbrev,
      AttrValues = [(DW_AT_ranges, exAttr DW_FORM_sec_offset 0 None (off + 1))],
      getAddressRanges = Some [\<lparr>LowPC = addr, HighPC = addr + 8\<rparr>],
      LocationTable = ([], False), UnitDWOId = None, UnitIsDWO = False\<rparr>"

text \<open>
  The patches that the conversion of a DIE at the ranges offset 16 leaves in a patcher,
  starting from a rewriter without patches.
\<close>

definition exConvertedPatches :: "DWARFDie \<Rightarrow> UnitRef \<Rightarrow> Patch list option" where
  "exConvertedPatches DIE P =
     map_option (\<lambda>st'. Patches (DebugInfoPatchers st' P)) (convertToRangesOffset DIE 16 P None freshRewriter)"

text \<open>
  A skeleton unit with the DWO id 7, whose unit DIE has a \<^verbatim>\<open>DW_AT_ranges\<close> attribute at offset
  20; the binary of the examples above has no split unit loaded for it. A second binary has
  two such units and a split unit loaded for the id 7, with no section in its file.
\<close>

definition exSkeletonAbbrev :: DWARFAbbreviationDeclaration where
  "exSkeletonAbbrev =
     \<lparr>AbbrevId = 4, AbbrevTag = DW_TAG_compile_unit, hasChildren = False,
      AttributeSpecs = [(DW_AT_GNU_dwo_name, DW_FORM_other), (DW_AT_comp_dir, DW_FORM_other),
                        (DW_AT_ranges, DW_FORM_sec_offset)]\<rparr>"

definition exSkeletonDie :: DWARFDie where
  "exSkeletonDie =
     \<lparr>getOffset = 11, NextOffset = 24,
      getAbbreviationDeclarationPtr = Some exSkeletonAbbrev,
      AttrValues = [(DW_AT_GNU_dwo_name, exAttr DW_FORM_other 0 None 12),
                    (DW_AT_comp_dir, exAttr DW_FORM_other 0 None 16),
                    (DW_AT_ranges, exAttr DW_FORM_sec_offset 0 None 20)],
      getAddressRanges = Some [\<lparr>LowPC = 0x1000, HighPC = 0x1010\<rparr>],
      LocationTable = ([], False), UnitDWOId = None, UnitIsDWO = False\<rparr>"

definition exSkeleton :: DWARFUnit where
  "exSkeleton = exUnit (Some 7) [exSkeletonDie]"




text \<open>
  Stand-ins for the encoders that the rewriter is given, and the empty package.
\<close>

definition exEncode :: "DebugLocationEntry list \<Rightarrow> u8 list" where
  "exEncode L = []"

definition exToString :: "nat \<Rightarrow> string" where
  "exToString n = ''0''"

definition exFinalizeAbbrev :: "UnitRef \<Rightarrow> AbbrevPatch list \<Rightarrow> u8 list" where
  "exFinalizeAbbrev A ps = []"


definition exDWPOutput :: DWPOutput where
  "exDWPOutput =
     \<lparr>OutputName = ''a.out.dwp'', StreamedBytes = [], MergedStrings = [],
      ContributionOffsets = (\<lambda>i. 0), IndexEntries = [], IndexWritten = False, Kept = False\<rparr>"

text \<open>
  Projections of a result: the patches of the main binary with the diagnostics; and the
  process status with the diagnostics and whether an output was kept.
\<close>

definition PatchesAndDiags :: "DWARFRewriter option \<Rightarrow> (Patch list \<times> Diag list) option" where
  "PatchesAndDiags r = map_option (\<lambda>st'. (Patches (DebugInfoPatchers st' MainBinary), Diags st')) r"





section \<open>Two-pass location-list offsets\<close>

lemma finalizeLocWriters_other:
  "k \<notin> fst ` set ws \<Longrightarrow> fst (snd (finalizeLocWriters ws (so, m, buf))) k = m k"
  by (induction ws arbitrary: so m buf) auto

lemma finalizeLocWriters_base:
  "distinct (map fst ws) \<Longrightarrow> i < length ws \<Longrightarrow> \<not> IsLoclistWriter (snd (ws ! i)) \<Longrightarrow>
   fst (snd (finalizeLocWriters ws (so, m, buf))) (fst (ws ! i)) =
     Some (so + sum_list (map (\<lambda>(cu, w). length (finalize w))
                      (filter (\<lambda>(cu, w). \<not> IsLoclistWriter w) (take i ws))))"
proof (induction ws arbitrary: i so m buf)
  case Nil
  then show ?case by simp
next
  case (Cons a ws)
  obtain cu w where a: "a = (cu, w)" by (cases a)
  show ?case
  proof (cases i)
    case 0
    with Cons.prems a show ?thesis
      by (simp add: finalizeLocWriters_other)
  next
    case (Suc n)
    with Cons.prems a have n: "n < length ws" "\<not> IsLoclistWriter (snd (ws ! n))" "distinct (map fst ws)"
      by auto
    show ?thesis using Cons.IH [OF n(3) n(1) n(2)] Suc a
      by (simp add: add.assoc)
  qed
qed

text \<open>
  Claim C4, as the code has it. Let the writers be visited in their iteration order, with
  distinct keys. For a deferred patch of the main binary whose \<^verbatim>\<open>CUIndex\<close> is the key of
  the writer at position \<open>i\<close> (not a split-unit writer), the value patched into debug-info
  is, cut to 32 bits, the 16 bytes of the leading empty list plus the buffer sizes of the
  preceding writers that are not split-unit writers plus the patch's local offset.
\<close>

theorem loclist_offset_resolution:
  assumes "distinct (map fst ws)" and "i < length ws" and "\<not> IsLoclistWriter (snd (ws ! i))"
    and "j < length ps" and "CUIndex (ps ! j) = fst (ws ! i)"
  shows "snd (snd (makeFinalLocListsSection ws dwo ps)) ! j =
           LE32Patch (DebugInfoOffset (ps ! j))
             (of_nat (code_unit_base ws i + CUWriterOffset (ps ! j)))"
proof -
  obtain so m buf where f: "finalizeLocWriters ws (2 * 8, Map.empty, replicate 16 0) = (so, m, buf)"
    by (cases "finalizeLocWriters ws (2 * 8, Map.empty, replicate 16 0)") auto
  have "m (fst (ws ! i)) = Some (code_unit_base ws i)"
    using finalizeLocWriters_base [OF assms(1-3), of "2 * 8" Map.empty "replicate 16 0"] f
    by (simp add: code_unit_base_def)
  then show ?thesis using assms(4,5) f
    by (simp add: makeFinalLocListsSection_def resolveLocListPatch_def SectionOffsetByCU_at_def)
qed

text \<open>
  The theorem at three writers, the second one a split-unit writer: the base of the third
  is \<open>16 + 3\<close>, and the local offset 1 resolves to 20.
\<close>

theorem loclist_offset_resolution_witness:
  "snd (snd (makeFinalLocListsSection
      [(0, \<lparr>IsLoclistWriter = False, finalize = [1, 2, 3]\<rparr>),
       (7, \<lparr>IsLoclistWriter = True, finalize = [9, 9]\<rparr>),
       (1, \<lparr>IsLoclistWriter = False, finalize = [4, 5]\<rparr>)]
      []
      [\<lparr>DebugInfoOffset = 100, CUIndex = 1, CUWriterOffset = 1\<rparr>])) ! 0 = LE32Patch 100 20"
  using loclist_offset_resolution [where i = 2 and j = 0 and dwo = "[]"
      and ws = "[(0, \<lparr>IsLoclistWriter = False, finalize = [1, 2, 3]\<rparr>),
       (7, \<lparr>IsLoclistWriter = True, finalize = [9, 9]\<rparr>),
       (1, \<lparr>IsLoclistWriter = False, finalize = [4, 5]\<rparr>)]"
      and ps = "[\<lparr>DebugInfoOffset = 100, CUIndex = 1, CUWriterOffset = 1\<rparr>]"]
  by (simp add: code_unit_base_def)

text \<open>
  Claim C4 as stated fails: with a single unit, no unit precedes it and the stated sum is 0,
  but the code patches 16 for the local offset 0, since the section begins with an empty
  list.
\<close>

theorem loclist_offset_counterexample:
  "snd (snd (makeFinalLocListsSection
      [(0, \<lparr>IsLoclistWriter = False, finalize = [1, 2, 3]\<rparr>)]
      []
      [\<lparr>DebugInfoOffset = 100, CUIndex = 0, CUWriterOffset = 0\<rparr>])) = [LE32Patch 100 16]
   \<and> spec_resolved_offset [(0, \<lparr>IsLoclistWriter = False, finalize = [1, 2, 3]\<rparr>)] 0 0 = 0"
  by (simp add: makeFinalLocListsSection_def resolveLocListPatch_def SectionOffsetByCU_at_def
      spec_resolved_offset_def spec_unit_base_def)


section \<open>Regenerating \<^verbatim>\<open>.gdb_index\<close>\<close>

lemma le_word_bytes32: "le_word (le_bytes 4 (w::u32)) = w"
proof (rule bit_word_eqI)
  fix n assume "n < LENGTH(32)"
  then have n: "n < 32" by simp
  consider "n < 8" | "8 \<le> n" "n < 16" | "16 \<le> n" "n < 24" | "24 \<le> n" using n by linarith
  then show "bit (le_word (le_bytes 4 w) :: u32) n = bit w n"
    by cases (use n in \<open>auto simp add: le_word_def le_bytes_def upt_rec bit_simps\<close>)
qed

lemma length_le_bytes: "length (le_bytes n w) = n"
  by (simp add: le_bytes_def)

lemma length_write32le: "length (write32le w) = 4"
  by (simp add: write32le_def length_le_bytes)

lemma length_write64le: "length (write64le w) = 8"
  by (simp add: write64le_def length_le_bytes)

lemma read32le_write32le: "read32le (write32le w @ rest) 0 = w"
  by (simp add: read32le_def write32le_def length_le_bytes le_word_bytes32)

lemma read32le_skip: "length pre = n \<Longrightarrow> read32le (pre @ rest) (n + k) = read32le rest k"
  by (simp add: read32le_def)

lemma read32le_header:
  "read32le (write32le a0 @ write32le a1 @ write32le a2 @ write32le a3 @ write32le a4
             @ write32le a5 @ rest) 0 = a0"
  "read32le (write32le a0 @ write32le a1 @ write32le a2 @ write32le a3 @ write32le a4
             @ write32le a5 @ rest) 4 = a1"
  "read32le (write32le a0 @ write32le a1 @ write32le a2 @ write32le a3 @ write32le a4
             @ write32le a5 @ rest) 8 = a2"
  "read32le (write32le a0 @ write32le a1 @ write32le a2 @ write32le a3 @ write32le a4
             @ write32le a5 @ rest) 12 = a3"
  "read32le (write32le a0 @ write32le a1 @ write32le a2 @ write32le a3 @ write32le a4
             @ write32le a5 @ rest) 16 = a4"
  "read32le (write32le a0 @ write32le a1 @ write32le a2 @ write32le a3 @ write32le a4
             @ write32le a5 @ rest) 20 = a5"
  by (simp_all add: read32le_def length_write32le)
     (simp_all add: write32le_def le_word_bytes32 length_le_bytes)

lemma length_AddressTableEntry: "length (AddressTableEntry i r) = 20"
  by (simp add: AddressTableEntry_def length_write32le length_write64le)

lemma length_NewAddressTable: "length (NewAddressTable m ars) = 20 * NumRanges ars"
proof (induction ars)
  case Nil
  show ?case by (simp add: NewAddressTable_def NumRanges_def)
next
  case (Cons a ars)
  obtain cu rs where a: "a = (cu, rs)" by (cases a)
  have "length (concat (map (AddressTableEntry i) rs)) = 20 * length rs" for i
    by (induction rs) (simp_all add: length_AddressTableEntry)
  with Cons a show ?case
    by (simp add: NewAddressTable_def NumRanges_def algebra_simps)
qed

lemma NewAddressTableSize_foldl:
  "foldl (\<lambda>acc (cu, Ranges). acc + of_nat (length Ranges * 20)) (a::u32) ars =
     a + of_nat (20 * NumRanges ars)"
proof (induction ars arbitrary: a)
  case Nil
  show ?case by (simp add: NumRanges_def)
next
  case (Cons x ars)
  obtain cu rs where x: "x = (cu, rs)" by (cases x)
  show ?case using Cons [of "a + of_nat (length rs * 20)"] x
    by (simp add: NumRanges_def algebra_simps)
qed

lemma NewAddressTableSize_eq: "NewAddressTableSize ars = of_nat (20 * NumRanges ars)"
  unfolding NewAddressTableSize_def NewAddressTableSize_foldl by simp

lemma verifyCUList_ok:
  "\<forall>i < length cus. read64le c (D + 16 * i) = cus ! i \<Longrightarrow> D + 16 * length cus \<le> length c \<Longrightarrow>
   \<exists>m. verifyCUList c D cus idx m0 = Inr m"
proof (induction cus arbitrary: D idx m0)
  case Nil
  show ?case by simp
next
  case (Cons a cus)
  have h: "read64le c D = a" using Cons.prems(1) [rule_format, of 0] by simp
  have r: "\<forall>i < length cus. read64le c (D + 16 + 16 * i) = cus ! i"
  proof (intro allI impI)
    fix i assume i: "i < length cus"
    have e: "D + 16 * Suc i = D + 16 + 16 * i" by simp
    have "read64le c (D + 16 * Suc i) = (a # cus) ! Suc i"
      using Cons.prems(1) [rule_format, of "Suc i"] i by simp
    then show "read64le c (D + 16 + 16 * i) = cus ! i" unfolding e by simp
  qed
  have b: "D + 16 + 16 * length cus \<le> length c" using Cons.prems(2) by simp
  from Cons.IH [OF r b] obtain m where "verifyCUList c (D + 16) cus (idx + 1) (m0(ucast a \<mapsto> of_nat idx)) = Inr m"
    by blast
  then show ?case using h Cons.prems(2) by simp
qed

lemma sint_delta:
  assumes "a < 2 ^ 31" "b < 2 ^ 31"
  shows "sint (of_nat a - of_nat b :: u32) = int a - int b"
proof -
  have "(of_nat a - of_nat b :: u32) = word_of_int (int a - int b)" by simp
  then have "sint (of_nat a - of_nat b :: u32) = signed_take_bit 31 (int a - int b)"
    by (simp only: sint_sbintrunc') simp
  also have "\<dots> = int a - int b"
    using assms by (intro signed_take_bit_int_eq_self) auto
  finally show ?thesis .
qed


lemma length_RetainedRanges: "length (RetainedRanges ars) = NumRanges ars"
  by (induction ars) (auto simp add: RetainedRanges_def NumRanges_def)

lemma NewAddressTable_flat:
  "NewAddressTable m ars =
     concat (map (\<lambda>(cu, R). AddressTableEntry (OffsetToIndexMap_at m cu) R) (RetainedRanges ars))"
proof (induction ars)
  case Nil
  show ?case by (simp add: NewAddressTable_def RetainedRanges_def)
next
  case (Cons a ars)
  obtain cu rs where a: "a = (cu, rs)" by (cases a)
  have "map (\<lambda>(cu, R). AddressTableEntry (OffsetToIndexMap_at m cu) R) (map (Pair cu) rs)
          = map (AddressTableEntry (OffsetToIndexMap_at m cu)) rs"
    by simp
  with Cons a show ?case
    by (simp add: NewAddressTable_def RetainedRanges_def comp_def)
qed

lemma concat_blocks_nth:
  "\<forall>x \<in> set xs. length (f x) = n \<Longrightarrow> p < length xs \<Longrightarrow> b < n \<Longrightarrow>
     concat (map f xs) ! (n * p + b) = f (xs ! p) ! b"
proof (induction xs arbitrary: p)
  case Nil
  then show ?case by simp
next
  case (Cons x xs)
  show ?case
  proof (cases p)
    case 0
    then show ?thesis using Cons.prems by (simp add: nth_append)
  next
    case (Suc q)
    have "n * p + b = n + (n * q + b)" using Suc by simp
    then have "concat (map f (x # xs)) ! (n * p + b) = concat (map f xs) ! (n * q + b)"
      using Cons.prems(1) by (simp add: nth_append)
    also have "\<dots> = f (xs ! q) ! b"
      using Cons.IH [of q] Cons.prems Suc by simp
    finally show ?thesis using Suc by simp
  qed
qed

lemma AddressTableEntry_nth:
  "b < 8 \<Longrightarrow> AddressTableEntry i R ! b = ucast (drop_bit (8 * b) (LowPC R))"
  "b < 8 \<Longrightarrow> AddressTableEntry i R ! (8 + b) = ucast (drop_bit (8 * b) (HighPC R))"
  "b < 4 \<Longrightarrow> AddressTableEntry i R ! (16 + b) = ucast (drop_bit (8 * b) i)"
  by (simp_all add: AddressTableEntry_def write64le_def write32le_def le_bytes_def nth_append)

lemma NewAddressTable_nth:
  assumes "p < length (RetainedRanges ars)"
  shows "b < 8 \<Longrightarrow> NewAddressTable m ars ! (20 * p + b)
           = ucast (drop_bit (8 * b) (LowPC (snd (RetainedRanges ars ! p))))"
    and "b < 8 \<Longrightarrow> NewAddressTable m ars ! (20 * p + 8 + b)
           = ucast (drop_bit (8 * b) (HighPC (snd (RetainedRanges ars ! p))))"
    and "b < 4 \<Longrightarrow> NewAddressTable m ars ! (20 * p + 16 + b)
           = ucast (drop_bit (8 * b) (OffsetToIndexMap_at m (fst (RetainedRanges ars ! p))))"
proof -
  let ?f = "\<lambda>(cu, R). AddressTableEntry (OffsetToIndexMap_at m cu) R"
  have len: "\<forall>x \<in> set (RetainedRanges ars). length (?f x) = 20"
    by (auto simp add: length_AddressTableEntry)
  obtain cu R where e: "RetainedRanges ars ! p = (cu, R)" by (cases "RetainedRanges ars ! p")
  have n: "NewAddressTable m ars ! (20 * p + k) = AddressTableEntry (OffsetToIndexMap_at m cu) R ! k"
    if "k < 20" for k
    unfolding NewAddressTable_flat
    using concat_blocks_nth [OF len assms that] e by simp
  show "b < 8 \<Longrightarrow> NewAddressTable m ars ! (20 * p + b)
           = ucast (drop_bit (8 * b) (LowPC (snd (RetainedRanges ars ! p))))"
    using n [of b] e by (simp add: AddressTableEntry_nth)
  show "b < 8 \<Longrightarrow> NewAddressTable m ars ! (20 * p + 8 + b)
           = ucast (drop_bit (8 * b) (HighPC (snd (RetainedRanges ars ! p))))"
    using n [of "8 + b"] e by (simp add: AddressTableEntry_nth add.assoc)
  show "b < 4 \<Longrightarrow> NewAddressTable m ars ! (20 * p + 16 + b)
           = ucast (drop_bit (8 * b) (OffsetToIndexMap_at m (fst (RetainedRanges ars ! p))))"
    using n [of "16 + b"] e by (simp add: AddressTableEntry_nth add.assoc)
qed

lemma verifyCUList_map:
  "verifyCUList c D cus k m0 = Inr m \<Longrightarrow> distinct (map (ucast :: u64 \<Rightarrow> u32) cus) \<Longrightarrow>
     (\<forall>i < length cus. m (ucast (cus ! i)) = Some (of_nat (k + i)))
     \<and> (\<forall>key. key \<notin> ucast ` set cus \<longrightarrow> m key = m0 key)"
proof (induction cus arbitrary: D k m0)
  case Nil
  then show ?case by simp
next
  case (Cons a cus)
  from Cons.prems(1) have r: "verifyCUList c (D + 16) cus (k + 1) (m0(ucast a \<mapsto> of_nat k)) = Inr m"
    by (simp add: Let_def split: if_splits)
  from Cons.prems(2) have d: "distinct (map (ucast :: u64 \<Rightarrow> u32) cus)"
    and na: "(ucast a :: u32) \<notin> ucast ` set cus" by simp_all
  from Cons.IH [OF r d] have ih1: "\<forall>i < length cus. m (ucast (cus ! i)) = Some (of_nat (k + 1 + i))"
    and ih2: "\<forall>key. key \<notin> ucast ` set cus \<longrightarrow> m key = (m0(ucast a \<mapsto> of_nat k)) key"
    by blast+
  have h: "m (ucast a) = Some (of_nat k)" using ih2 na by simp
  have "m (ucast ((a # cus) ! i)) = Some (of_nat (k + i))" if "i < length (a # cus)" for i
  proof (cases i)
    case 0
    then show ?thesis using h by simp
  next
    case (Suc j)
    then show ?thesis using ih1 that by simp
  qed
  moreover have "m key = m0 key" if "key \<notin> ucast ` set (a # cus)" for key
    using ih2 that by auto
  ultimately show ?case by blast
qed

text \<open>
  Claim C3. Let the index be well formed: version 7 or 8, a CU list that matches the
  units, whose offsets are distinct as 32-bit keys, the four table offsets in order and
  inside a section of less than 4 GiB, and both address tables below \<open>2^31\<close> bytes. Then
  \<^verbatim>\<open>updateGdbIndexSection\<close> returns a section whose size is the old size plus the new
  address-table size minus the old one. The new table has one entry of 20 bytes for each
  retained range of each unit, in order: byte \<open>b\<close> of the first 8 bytes is byte \<open>b\<close> of the
  low address, least significant first, the next 8 bytes hold the high address in the same
  way, and the last 4 bytes hold the position of the unit in the CU list (0 for a unit that
  is not in the list). The bytes after the table are the original bytes from the symbol
  table on; the symbol-table and constant-pool offsets of the header are shifted by the
  size difference and the four other header fields are unchanged.
\<close>

theorem gdb_index_regeneration:
  assumes ver: "read32le c 0 = 7 \<or> read32le c 0 = 8"
    and culist: "unat (read32le c 8) = unat (read32le c 4) + 16 * length cus"
    and cus: "\<forall>i < length cus. read64le c (24 + 16 * i) = cus ! i"
    and keys: "distinct (map (ucast :: u64 \<Rightarrow> u32) cus)"
    and ord1: "unat (read32le c 8) \<le> unat (read32le c 12)"
    and ord2: "unat (read32le c 12) \<le> unat (read32le c 16)"
    and bound: "24 + (unat (read32le c 16) - unat (read32le c 4)) \<le> length c"
    and len: "length c < 2 ^ 32"
    and old: "unat (read32le c 16) - unat (read32le c 12) < 2 ^ 31"
    and new: "20 * NumRanges ars < 2 ^ 31"
  shows "\<exists>out. updateGdbIndexSection c cus ars = Inr out
    \<and> int (length out) = int (length c)
          + (int (20 * NumRanges ars) - int (unat (read32le c 16) - unat (read32le c 12)))
    \<and> length (RetainedRanges ars) = NumRanges ars
    \<and> (\<forall>p < NumRanges ars.
          (\<forall>b < 8. out ! (24 + (unat (read32le c 12) - unat (read32le c 4)) + 20 * p + b)
                     = ucast (drop_bit (8 * b) (LowPC (snd (RetainedRanges ars ! p)))))
        \<and> (\<forall>b < 8. out ! (24 + (unat (read32le c 12) - unat (read32le c 4)) + 20 * p + 8 + b)
                     = ucast (drop_bit (8 * b) (HighPC (snd (RetainedRanges ars ! p)))))
        \<and> (\<forall>i < length cus. cus ! i = fst (RetainedRanges ars ! p) \<longrightarrow>
             (\<forall>b < 4. out ! (24 + (unat (read32le c 12) - unat (read32le c 4)) + 20 * p + 16 + b)
                        = ucast (drop_bit (8 * b) (of_nat i :: u32))))
        \<and> ((ucast (fst (RetainedRanges ars ! p)) :: u32) \<notin> ucast ` set cus \<longrightarrow>
             (\<forall>b < 4. out ! (24 + (unat (read32le c 12) - unat (read32le c 4)) + 20 * p + 16 + b) = 0)))
    \<and> drop (24 + (unat (read32le c 12) - unat (read32le c 4)) + 20 * NumRanges ars) out
          = drop (24 + (unat (read32le c 16) - unat (read32le c 4))) c
    \<and> read32le out 0 = read32le c 0 \<and> read32le out 4 = read32le c 4
    \<and> read32le out 8 = read32le c 8 \<and> read32le out 12 = read32le c 12
    \<and> read32le out 16 = read32le c 16
          + (of_nat (20 * NumRanges ars) - (read32le c 16 - read32le c 12))
    \<and> read32le out 20 = read32le c 20
          + (of_nat (20 * NumRanges ars) - (read32le c 16 - read32le c 12))"
proof -
  let ?CUL = "read32le c 4" and ?CUT = "read32le c 8" and ?AT = "read32le c 12"
    and ?ST = "read32le c 16" and ?n = "length cus" and ?New = "20 * NumRanges ars"
  let ?Old = "unat ?ST - unat ?AT"
  let ?D = "of_nat ?New - (?ST - ?AT) :: u32"
  have le1: "unat ?CUL \<le> unat ?CUT" "unat ?CUT \<le> unat ?AT" "unat ?AT \<le> unat ?ST"
    using ord1 ord2 culist by simp_all
  have o0: "?CUL \<le> ?CUT" and o2: "?AT \<le> ?ST" and o3: "?CUL \<le> ?AT" and o4: "?CUT \<le> ?ST"
    using le1 by (simp_all add: word_le_nat_alt)
  have len24: "\<not> length c < 24" using bound by simp
  have cusize: "?CUT - ?CUL = of_nat (?n * 16)"
  proof -
    have "unat (?CUT - ?CUL) = ?n * 16" using culist o0 by (simp add: unat_sub)
    moreover have "?CUT - ?CUL = of_nat (unat (?CUT - ?CUL))" by simp
    ultimately show ?thesis by (simp only:)
  qed
  have u1: "unat (?ST - ?CUT) = unat ?ST - unat ?CUT" using o4 by (simp add: unat_sub)
  have u2: "unat (?AT - ?CUL) = unat ?AT - unat ?CUL" using o3 by (simp add: unat_sub)
  have u3: "unat (?ST - ?AT) = ?Old" using o2 by (simp add: unat_sub)
  have Data: "24 + 16 * ?n + unat (?ST - ?CUT) = 24 + (unat ?ST - unat ?CUL)"
    using u1 culist le1 by simp
  have cu_end: "24 + 16 * length cus \<le> length c" using bound culist le1 by simp
  obtain m where m: "verifyCUList c 24 cus 0 Map.empty = Inr m"
    using verifyCUList_ok [OF cus cu_end] by blast
  have "?ST - ?AT = of_nat (unat (?ST - ?AT))" by simp
  then have sa: "?ST - ?AT = of_nat ?Old" by (simp only: u3)
  have nd: "NewAddressTableSize ars - (?ST - ?AT) = ?D"
    by (simp only: NewAddressTableSize_eq)
  have "sint (of_nat ?New - of_nat ?Old :: u32) = int ?New - int ?Old"
    by (rule sint_delta [OF new old])
  then have sd: "sint ?D = int ?New - int ?Old" by (simp only: sa [symmetric])
  have Oldle: "?Old \<le> length c" using bound le1 by simp
  have size: "nat ((int (length c) + sint ?D) mod 2 ^ 64) = length c + ?New - ?Old"
  proof -
    have "0 \<le> int (length c) + (int ?New - int ?Old)" using Oldle by simp
    moreover have "int (length c) + (int ?New - int ?Old) < 2 ^ 64" using len new by simp
    ultimately have "(int (length c) + (int ?New - int ?Old)) mod 2 ^ 64
                       = int (length c) + (int ?New - int ?Old)"
      by simp
    then show ?thesis unfolding sd using Oldle by simp
  qed
  have tl: "length (NewAddressTable m ars) = ?New" by (rule length_NewAddressTable)
  have copy: "\<not> length c < 24 + (unat ?AT - unat ?CUL)" using bound le1 by simp
  have data: "\<not> length c < 24 + (unat ?ST - unat ?CUL)" using bound by simp
  have sizeok: "24 + (unat ?AT - unat ?CUL) + ?New + (length c - (24 + (unat ?ST - unat ?CUL)))
                  = length c + ?New - ?Old"
    using bound le1 by simp
  let ?out = "write32le (read32le c 0) @ write32le ?CUL @ write32le ?CUT @ write32le ?AT
              @ write32le (?ST + ?D) @ write32le (read32le c 20 + ?D)
              @ take (unat ?AT - unat ?CUL) (drop 24 c) @ NewAddressTable m ars
              @ drop (24 + (unat ?ST - unat ?CUL)) c"
  have res: "updateGdbIndexSection c cus ars = Inr ?out"
    unfolding updateGdbIndexSection_def Let_def nd Data u2 size tl
    using ver len24 cusize copy data sizeok
    by (simp only: m if_False if_True sum.case simp_thms split: if_splits) (auto simp: tl)
  have lt: "length (take (unat ?AT - unat ?CUL) (drop 24 c)) = unat ?AT - unat ?CUL"
    using copy by simp
  have l: "int (length ?out) = int (length c) + (int ?New - int ?Old)"
    using sizeok Oldle lt by (simp add: length_write32le tl)
  have t: "take ?New (drop (24 + (unat ?AT - unat ?CUL)) ?out) = NewAddressTable m ars"
    using lt tl by (simp add: length_write32le)
  have d: "drop (24 + (unat ?AT - unat ?CUL) + ?New) ?out = drop (24 + (unat ?ST - unat ?CUL)) c"
    using lt tl by (simp add: length_write32le)
  let ?T = "24 + (unat ?AT - unat ?CUL)"
  have lr: "length (RetainedRanges ars) = NumRanges ars" by (rule length_RetainedRanges)
  have nth: "?out ! (?T + k) = NewAddressTable m ars ! k" if "k < ?New" for k
  proof -
    have Tle: "?T \<le> length ?out" using lt by (simp add: length_write32le)
    have "NewAddressTable m ars ! k = take ?New (drop ?T ?out) ! k" by (simp only: t)
    also have "\<dots> = drop ?T ?out ! k" using that by (simp only: nth_take)
    also have "\<dots> = ?out ! (?T + k)" using Tle by (simp only: nth_drop)
    finally show ?thesis by (rule sym)
  qed
  have mk: "\<forall>i < length cus. m (ucast (cus ! i)) = Some (of_nat (0 + i))"
    and mo: "\<forall>key. key \<notin> ucast ` set cus \<longrightarrow> m key = Map.empty key"
    using verifyCUList_map [OF m keys] by blast+
  have ent: "\<forall>p < NumRanges ars.
          (\<forall>b < 8. ?out ! (?T + 20 * p + b)
                     = ucast (drop_bit (8 * b) (LowPC (snd (RetainedRanges ars ! p)))))
        \<and> (\<forall>b < 8. ?out ! (?T + 20 * p + 8 + b)
                     = ucast (drop_bit (8 * b) (HighPC (snd (RetainedRanges ars ! p)))))
        \<and> (\<forall>i < length cus. cus ! i = fst (RetainedRanges ars ! p) \<longrightarrow>
             (\<forall>b < 4. ?out ! (?T + 20 * p + 16 + b)
                        = ucast (drop_bit (8 * b) (of_nat i :: u32))))
        \<and> ((ucast (fst (RetainedRanges ars ! p)) :: u32) \<notin> ucast ` set cus \<longrightarrow>
             (\<forall>b < 4. ?out ! (?T + 20 * p + 16 + b) = 0))"
  proof (intro allI impI conjI)
    fix p b assume p: "p < NumRanges ars" and b: "b < (8::nat)"
    have "?out ! (?T + (20 * p + b)) = NewAddressTable m ars ! (20 * p + b)"
      by (rule nth) (use p b in simp)
    then show "?out ! (?T + 20 * p + b)
                 = ucast (drop_bit (8 * b) (LowPC (snd (RetainedRanges ars ! p))))"
      using NewAddressTable_nth(1) [of p ars b m] p b lr by (simp add: add.assoc)
  next
    fix p b assume p: "p < NumRanges ars" and b: "b < (8::nat)"
    have "?out ! (?T + (20 * p + 8 + b)) = NewAddressTable m ars ! (20 * p + 8 + b)"
      by (rule nth) (use p b in simp)
    then show "?out ! (?T + 20 * p + 8 + b)
                 = ucast (drop_bit (8 * b) (HighPC (snd (RetainedRanges ars ! p))))"
      using NewAddressTable_nth(2) [of p ars b m] p b lr by (simp add: add.assoc)
  next
    fix p i b assume p: "p < NumRanges ars" and i: "i < length cus"
      and e: "cus ! i = fst (RetainedRanges ars ! p)" and b: "b < (4::nat)"
    have "?out ! (?T + (20 * p + 16 + b)) = NewAddressTable m ars ! (20 * p + 16 + b)"
      by (rule nth) (use p b in simp)
    moreover have "OffsetToIndexMap_at m (fst (RetainedRanges ars ! p)) = of_nat i"
      using mk [rule_format, OF i] e by (simp add: OffsetToIndexMap_at_def)
    ultimately show "?out ! (?T + 20 * p + 16 + b) = ucast (drop_bit (8 * b) (of_nat i :: u32))"
      using NewAddressTable_nth(3) [of p ars b m] p b lr by (simp add: add.assoc)
  next
    fix p b assume p: "p < NumRanges ars"
      and e: "(ucast (fst (RetainedRanges ars ! p)) :: u32) \<notin> ucast ` set cus" and b: "b < (4::nat)"
    have "?out ! (?T + (20 * p + 16 + b)) = NewAddressTable m ars ! (20 * p + 16 + b)"
      by (rule nth) (use p b in simp)
    moreover have "OffsetToIndexMap_at m (fst (RetainedRanges ars ! p)) = 0"
      using mo e by (simp add: OffsetToIndexMap_at_def)
    ultimately show "?out ! (?T + 20 * p + 16 + b) = 0"
      using NewAddressTable_nth(3) [of p ars b m] p b lr by (simp add: add.assoc)
  qed
  show ?thesis
    by (intro exI [of _ ?out] conjI res l lr ent d read32le_header)
qed

lemma gdb1_fields:
  "read32le gdb1 0 = 7" "read32le gdb1 4 = 24" "read32le gdb1 8 = 56"
  "read32le gdb1 12 = 56" "read32le gdb1 16 = 76" "read32le gdb1 20 = 80"
  "read64le gdb1 24 = 0" "read64le gdb1 40 = 100" "length gdb1 = 81" "NumRanges ars1 = 3"
  "RetainedRanges ars1 = [(0, \<lparr>LowPC = 1, HighPC = 2\<rparr>), (100, \<lparr>LowPC = 3, HighPC = 4\<rparr>),
                          (100, \<lparr>LowPC = 5, HighPC = 6\<rparr>)]"
  by (simp_all add: gdb1_def ars1_def read32le_def read64le_def le_word_def NumRanges_def
      RetainedRanges_def)

text \<open>
  The theorem at the small index: the old table of 20 bytes gives way to a table of 60
  bytes at offset 56, the section grows from 81 to 121 bytes, both shifted offsets grow by
  40, and the entries of the second unit carry the CU index 1.
\<close>

theorem gdb_index_regeneration_witness:
  "\<exists>out. updateGdbIndexSection gdb1 [0, 100] ars1 = Inr out \<and> length out = 121
     \<and> drop 116 out = [2, 3, 4, 5, 6]
     \<and> read32le out 12 = 56 \<and> read32le out 16 = 116 \<and> read32le out 20 = 120
     \<and> out ! 56 = 1 \<and> out ! 64 = 2 \<and> out ! 72 = 0
     \<and> out ! 76 = 3 \<and> out ! 84 = 4 \<and> out ! 92 = 1
     \<and> out ! 96 = 5 \<and> out ! 104 = 6 \<and> out ! 112 = 1 \<and> out ! 113 = 0"
proof -
  have c: "\<forall>i < length [0, 100 :: u64]. read64le gdb1 (24 + 16 * i) = [0, 100] ! i"
    by (simp add: less_Suc_eq gdb1_fields)
  have "\<exists>out. updateGdbIndexSection gdb1 [0, 100] ars1 = Inr out
    \<and> int (length out) = int (length gdb1)
          + (int (20 * NumRanges ars1) - int (unat (read32le gdb1 16) - unat (read32le gdb1 12)))
    \<and> length (RetainedRanges ars1) = NumRanges ars1
    \<and> (\<forall>p < NumRanges ars1.
          (\<forall>b < 8. out ! (24 + (unat (read32le gdb1 12) - unat (read32le gdb1 4)) + 20 * p + b)
                     = ucast (drop_bit (8 * b) (LowPC (snd (RetainedRanges ars1 ! p)))))
        \<and> (\<forall>b < 8. out ! (24 + (unat (read32le gdb1 12) - unat (read32le gdb1 4)) + 20 * p + 8 + b)
                     = ucast (drop_bit (8 * b) (HighPC (snd (RetainedRanges ars1 ! p)))))
        \<and> (\<forall>i < length [0, 100 :: u64]. [0, 100] ! i = fst (RetainedRanges ars1 ! p) \<longrightarrow>
             (\<forall>b < 4. out ! (24 + (unat (read32le gdb1 12) - unat (read32le gdb1 4)) + 20 * p + 16 + b)
                        = ucast (drop_bit (8 * b) (of_nat i :: u32))))
        \<and> ((ucast (fst (RetainedRanges ars1 ! p)) :: u32) \<notin> ucast ` set [0, 100 :: u64] \<longrightarrow>
             (\<forall>b < 4. out ! (24 + (unat (read32le gdb1 12) - unat (read32le gdb1 4)) + 20 * p + 16 + b) = 0)))
    \<and> drop (24 + (unat (read32le gdb1 12) - unat (read32le gdb1 4)) + 20 * NumRanges ars1) out
          = drop (24 + (unat (read32le gdb1 16) - unat (read32le gdb1 4))) gdb1
    \<and> read32le out 0 = read32le gdb1 0 \<and> read32le out 4 = read32le gdb1 4
    \<and> read32le out 8 = read32le gdb1 8 \<and> read32le out 12 = read32le gdb1 12
    \<and> read32le out 16 = read32le gdb1 16
          + (of_nat (20 * NumRanges ars1) - (read32le gdb1 16 - read32le gdb1 12))
    \<and> read32le out 20 = read32le gdb1 20
          + (of_nat (20 * NumRanges ars1) - (read32le gdb1 16 - read32le gdb1 12))"
    by (rule gdb_index_regeneration [OF _ _ c]) (simp_all add: gdb1_fields)
  then obtain out where o: "updateGdbIndexSection gdb1 [0, 100] ars1 = Inr out"
    "int (length out) = 121" "drop 116 out = drop 76 gdb1"
    "read32le out 12 = 56" "read32le out 16 = 116" "read32le out 20 = 120"
    and ent: "\<forall>p < 3.
          (\<forall>b < 8. out ! (56 + 20 * p + b)
                     = ucast (drop_bit (8 * b) (LowPC (snd (RetainedRanges ars1 ! p)))))
        \<and> (\<forall>b < 8. out ! (56 + 20 * p + 8 + b)
                     = ucast (drop_bit (8 * b) (HighPC (snd (RetainedRanges ars1 ! p)))))
        \<and> (\<forall>i < length [0, 100 :: u64]. [0, 100] ! i = fst (RetainedRanges ars1 ! p) \<longrightarrow>
             (\<forall>b < 4. out ! (56 + 20 * p + 16 + b)
                        = ucast (drop_bit (8 * b) (of_nat i :: u32))))"
    by (auto simp add: gdb1_fields(1-10))
  have e0: "out ! 56 = 1" "out ! 64 = 2" "out ! 72 = 0"
    using ent [rule_format, of 0, THEN conjunct1, rule_format, of 0]
      ent [rule_format, of 0, THEN conjunct2, THEN conjunct1, rule_format, of 0]
      ent [rule_format, of 0, THEN conjunct2, THEN conjunct2, rule_format, of 0 0]
    by (simp_all add: gdb1_fields)
  have e1: "out ! 76 = 3" "out ! 84 = 4" "out ! 92 = 1"
    using ent [rule_format, of 1, THEN conjunct1, rule_format, of 0]
      ent [rule_format, of 1, THEN conjunct2, THEN conjunct1, rule_format, of 0]
      ent [rule_format, of 1, THEN conjunct2, THEN conjunct2, rule_format, of 1 0]
    by (simp_all add: gdb1_fields)
  have e2: "out ! 96 = 5" "out ! 104 = 6" "out ! 112 = 1" "out ! 113 = 0"
    using ent [rule_format, of 2, THEN conjunct1, rule_format, of 0]
      ent [rule_format, of 2, THEN conjunct2, THEN conjunct1, rule_format, of 0]
      ent [rule_format, of 2, THEN conjunct2, THEN conjunct2, rule_format, of 1 0]
      ent [rule_format, of 2, THEN conjunct2, THEN conjunct2, rule_format, of 1 1]
    by (simp_all add: gdb1_fields)
  have "drop 76 gdb1 = [2, 3, 4, 5, 6]" by (simp add: gdb1_def)
  with o e0 e1 e2 show ?thesis by auto
qed

section \<open>Deferring a subprogram with at most one output range\<close>

lemma getLowAndHighPC_SomeD:
  assumes "getLowAndHighPC DIE = Some Address"
  obtains l h where "findAttributeInfo DIE DW_AT_low_pc = Some l"
    and "findAttributeInfo DIE DW_AT_high_pc = Some h"
    and "getAsAddress (V l) = Some Address"
  using assms unfolding getLowAndHighPC_def
  by (auto split: option.splits if_splits)

lemma Patches_errs [simp]: "DebugInfoPatchers (errs d st) = DebugInfoPatchers st"
  by (simp add: errs_def)

lemma PendingRanges_errs [simp]: "PendingRanges (errs d st) = PendingRanges st"
  by (simp add: errs_def)

lemma Patches_addPatch_same [simp]:
  "Patches (DebugInfoPatchers (addPatch P p st) P) = Patches (DebugInfoPatchers st P) @ [p]"
  by (simp add: addPatch_def)

lemma Patches_addPatch_other [simp]:
  "Q \<noteq> P \<Longrightarrow> DebugInfoPatchers (addPatch P p st) Q = DebugInfoPatchers st Q"
  by (simp add: addPatch_def)

lemma getRangeAttrData_Some:
  assumes "findAttributeInfo DIE DW_AT_low_pc = Some l" "findAttributeInfo DIE DW_AT_high_pc = Some h"
  obtains st1 where
    "getRangeAttrData DIE st = Some ((Offset l, Offset h, getForm (V l), getForm (V h)), st1)"
    "DebugInfoPatchers st1 = DebugInfoPatchers st" "PendingRanges st1 = PendingRanges st"
    "AddrWriter st1 = AddrWriter st" "RangesSectionWriter st1 = RangesSectionWriter st"
    "ConvertedRangesAbbrevs st1 = ConvertedRangesAbbrevs st" "AbbrevWriters st1 = AbbrevWriters st"
  using assms unfolding getRangeAttrData_def Let_def
  by (auto simp: errs_def)

lemma addToPendingRanges_Some:
  assumes lo: "findAttributeInfo DIE DW_AT_low_pc = Some l"
    and hi: "findAttributeInfo DIE DW_AT_high_pc = Some h"
    and lf: "getForm (V l) = DW_FORM_GNU_addr_index \<longrightarrow> DWOId \<noteq> None"
  shows "\<exists>st'. addToPendingRanges Abbrev DIE (front # rest) DWOId st = Some st'
           \<and> PendingRanges st' =
               PendingRanges_emplace_back (AbbrevId Abbrev) (DIE, front) (PendingRanges st)
           \<and> DebugInfoPatchers st' = DebugInfoPatchers st
           \<and> ConvertedRangesAbbrevs st' = ConvertedRangesAbbrevs st
           \<and> AbbrevWriters st' = AbbrevWriters st
           \<and> RangesSectionWriter st' = RangesSectionWriter st"
proof (cases "getForm (V l) = DW_FORM_GNU_addr_index")
  case False
  then show ?thesis using lo hi by (simp add: addToPendingRanges_def Let_def)
next
  case True
  with lf obtain d where "DWOId = Some d" by auto
  with True show ?thesis using lo hi
    by (simp add: addToPendingRanges_def Let_def del: foldl.simps)
qed

lemma flushPendingRanges_single:
  assumes lo: "findAttributeInfo DIE DW_AT_low_pc = Some l"
    and hi: "findAttributeInfo DIE DW_AT_high_pc = Some h"
    and lf: "getForm (V l) \<noteq> DW_FORM_GNU_addr_index"
    and pe: "PendingRanges st = [(k, [(DIE, R)])]"
  shows "\<exists>st'. flushPendingRanges P st = Some st' \<and> PendingRanges st' = []
           \<and> Patches (DebugInfoPatchers st' P) =
                Patches (DebugInfoPatchers st P)
                @ [LE64Patch (Offset l) (LowPC R), HighPCPatch (getForm (V h)) (Offset h) R]"
proof -
  obtain st1 where g: "getRangeAttrData DIE st = Some ((Offset l, Offset h, getForm (V l), getForm (V h)), st1)"
    and p: "DebugInfoPatchers st1 = DebugInfoPatchers st"
    by (rule getRangeAttrData_Some [OF lo hi])
  have "patchLowHigh DIE R P st =
          Some (addPatch P (HighPCPatch (getForm (V h)) (Offset h) R)
                  (addPatch P (LE64Patch (Offset l) (LowPC R)) st1))"
    using g lf by (simp add: patchLowHigh_def)
  then show ?thesis
    using pe p by (simp add: flushPendingRanges_def)
qed

text \<open>
  Claim C10. A subprogram DIE with a low-pc/high-pc pair, of a declaration not yet converted,
  whose function has at most one output range is deferred as a pending entry carrying exactly
  one range: the single output range of the function, or the zero range \<open>(0, 0)\<close> when there
  is no function at the address or it has no output range. The walk adds no patch for it.
  When the entry holds the zero range, the flush does not fail on it and patches low-pc and
  high-pc of the DIE with \<open>0\<close>, in the width of the high-pc form.
\<close>

theorem pending_entry_has_one_range:
  assumes pc: "getLowAndHighPC DIE = Some Address"
    and ab: "getAbbreviationDeclarationPtr DIE = Some Abbrev"
    and nc: "AbbrevId Abbrev \<notin> ConvertedRangesAbbrevs st"
    and lo: "findAttributeInfo DIE DW_AT_low_pc = Some l"
    and hi: "findAttributeInfo DIE DW_AT_high_pc = Some h"
    and lf: "getForm (V l) = DW_FORM_GNU_addr_index \<longrightarrow> getDWOId Unit \<noteq> None"
    and fr: "FR = (case getBinaryFunctionAtAddress BC Address of
                     Some Function \<Rightarrow> getOutputAddressRanges Function | None \<Rightarrow> [])"
    and len: "length FR \<le> 1"
  shows "\<exists>st'. updateSubprogram BC opts Unit P A DIE (CachedRanges, st) = Some (Map.empty, st')
         \<and> PendingRanges st' =
             PendingRanges_emplace_back (AbbrevId Abbrev)
               (DIE, if FR = [] then \<lparr>LowPC = 0, HighPC = 0\<rparr> else hd FR) (PendingRanges st)
         \<and> DebugInfoPatchers st' = DebugInfoPatchers st
         \<and> (FR = [] \<and> PendingRanges st = [] \<and> getForm (V l) \<noteq> DW_FORM_GNU_addr_index \<longrightarrow>
              (\<exists>st''. flushPendingRanges P st' = Some st'' \<and> PendingRanges st'' = []
                 \<and> Patches (DebugInfoPatchers st'' P) =
                      Patches (DebugInfoPatchers st P)
                      @ [LE64Patch (Offset l) 0,
                         if isHighPcFormEightBytes (getForm (V h)) then LE64Patch (Offset h) 0
                         else LE32Patch (Offset h) 0]))"
proof -
  let ?FR' = "if FR = [] then [DebugAddressRange_default] else FR"
  let ?e = "(DIE, if FR = [] then \<lparr>LowPC = 0, HighPC = 0\<rparr> else hd FR)"
  obtain front where front: "?FR' = [front]"
    "front = (if FR = [] then \<lparr>LowPC = 0, HighPC = 0\<rparr> else hd FR)"
    using len by (cases FR) (auto simp: DebugAddressRange_default_def)
  obtain st' where a: "addToPendingRanges Abbrev DIE ?FR' (getDWOId Unit) st = Some st'"
    and p: "PendingRanges st' = PendingRanges_emplace_back (AbbrevId Abbrev) ?e (PendingRanges st)"
    and d: "DebugInfoPatchers st' = DebugInfoPatchers st"
    using addToPendingRanges_Some [OF lo hi lf, of Abbrev front "[]" st]
    unfolding front by blast
  have u: "updateSubprogram BC opts Unit P A DIE (CachedRanges, st) = Some (Map.empty, st')"
    using pc ab nc len a by (auto simp add: updateSubprogram_def Let_def fr [symmetric])
  have "\<exists>st''. flushPendingRanges P st' = Some st'' \<and> PendingRanges st'' = []
                 \<and> Patches (DebugInfoPatchers st'' P) =
                      Patches (DebugInfoPatchers st P)
                      @ [LE64Patch (Offset l) 0,
                         if isHighPcFormEightBytes (getForm (V h)) then LE64Patch (Offset h) 0
                         else LE32Patch (Offset h) 0]"
    if "FR = []" "PendingRanges st = []" "getForm (V l) \<noteq> DW_FORM_GNU_addr_index"
  proof -
    have "PendingRanges st' = [(AbbrevId Abbrev, [(DIE, \<lparr>LowPC = 0, HighPC = 0\<rparr>)])]"
      using p that by simp
    from flushPendingRanges_single [OF lo hi that(3) this, of P]
    show ?thesis by (auto simp add: d HighPCPatch_def)
  qed
  with u p d show ?thesis by blast
qed

section \<open>Converting a declaration shared by several subprograms\<close>

lemma map_of_emplace_back_same:
  "map_of (PendingRanges_emplace_back k e ps) k =
     Some ((case map_of ps k of None \<Rightarrow> [] | Some es \<Rightarrow> es) @ [e])"
  by (induction ps) auto

lemma map_of_erase_same: "map_of (PendingRanges_erase k ps) k = None"
  by (induction ps) (auto simp: PendingRanges_erase_def)

lemma convertToRangesOffset_Some:
  assumes lo: "findAttributeInfo DIE DW_AT_low_pc = Some l"
    and hi: "findAttributeInfo DIE DW_AT_high_pc = Some h"
    and hf: "isHighPcFormEightBytes (getForm (V h)) \<or> getForm (V h) = DW_FORM_data4"
  shows "\<exists>st' ps. convertToRangesOffset DIE off P None st = Some st'
     \<and> Patches (DebugInfoPatchers st' P) =
          Patches (DebugInfoPatchers st P) @ ps
          @ [LE32Patch (Offset h + NumBytesToFill (getForm (V h)) - 8)
               (of_nat off - of_nat (if getForm (V l) = DW_FORM_GNU_addr_index
                                      then RangeBase (DebugInfoPatchers st P) else 0))]
     \<and> (\<forall>Q. RangeBase (DebugInfoPatchers st' Q) = RangeBase (DebugInfoPatchers st Q))
     \<and> AbbrevWriters st' = AbbrevWriters st
     \<and> ConvertedRangesAbbrevs st' = ConvertedRangesAbbrevs st
     \<and> PendingRanges st' = PendingRanges st
     \<and> RangesSectionWriter st' = RangesSectionWriter st"
proof -
  obtain st1 where g: "getRangeAttrData DIE st = Some ((Offset l, Offset h, getForm (V l), getForm (V h)), st1)"
    and f: "DebugInfoPatchers st1 = DebugInfoPatchers st" "PendingRanges st1 = PendingRanges st"
    "RangesSectionWriter st1 = RangesSectionWriter st"
    "ConvertedRangesAbbrevs st1 = ConvertedRangesAbbrevs st" "AbbrevWriters st1 = AbbrevWriters st"
    by (rule getRangeAttrData_Some [OF lo hi])
  show ?thesis
  proof (cases "getForm (V l) = DW_FORM_GNU_addr_index")
    case True
    then show ?thesis using g hf f
      by (auto simp add: convertToRangesOffset_def Let_def NumBytesToFill_def getRangeBase_def
          addPatch_def)
  next
    case False
    then show ?thesis using g hf f
      by (auto simp add: convertToRangesOffset_def Let_def NumBytesToFill_def addPatch_def)
  qed
qed

lemma convertToRangesList_Some:
  assumes lo: "findAttributeInfo DIE DW_AT_low_pc = Some l"
    and hi: "findAttributeInfo DIE DW_AT_high_pc = Some h"
    and hf: "isHighPcFormEightBytes (getForm (V h)) \<or> getForm (V h) = DW_FORM_data4"
    and ne: "Ranges \<noteq> []"
  shows "\<exists>st' ps. convertToRangesList DIE Ranges P st = Some st'
     \<and> Patches (DebugInfoPatchers st' P) =
          Patches (DebugInfoPatchers st P) @ ps
          @ [LE32Patch (Offset h + NumBytesToFill (getForm (V h)) - 8)
               (of_nat (SectionOffset (RangesSectionWriter st))
                - of_nat (if getForm (V l) = DW_FORM_GNU_addr_index
                          then RangeBase (DebugInfoPatchers st P) else 0))]
     \<and> (\<forall>Q. RangeBase (DebugInfoPatchers st' Q) = RangeBase (DebugInfoPatchers st Q))
     \<and> AbbrevWriters st' = AbbrevWriters st
     \<and> ConvertedRangesAbbrevs st' = ConvertedRangesAbbrevs st
     \<and> PendingRanges st' = PendingRanges st
     \<and> RangesSectionWriter st' =
         (RangesSectionWriter st)
           \<lparr>SectionOffset := SectionOffset (RangesSectionWriter st) + 16 * (length Ranges + 1),
            RangeLists := RangeLists (RangesSectionWriter st) @ [Ranges]\<rparr>"
proof -
  let ?W = "(RangesSectionWriter st)
           \<lparr>SectionOffset := SectionOffset (RangesSectionWriter st) + 16 * (length Ranges + 1),
            RangeLists := RangeLists (RangesSectionWriter st) @ [Ranges]\<rparr>"
  have e: "convertToRangesList DIE Ranges P st =
        convertToRangesOffset DIE (SectionOffset (RangesSectionWriter st)) P None
          (st\<lparr>RangesSectionWriter := ?W\<rparr>)"
    using ne by (simp add: convertToRangesList_def addRanges_def)
  let ?st = "st\<lparr>RangesSectionWriter := ?W\<rparr>"
  obtain st' ps where a: "convertToRangesOffset DIE (SectionOffset (RangesSectionWriter st)) P None ?st = Some st'"
    and b: "Patches (DebugInfoPatchers st' P) =
          Patches (DebugInfoPatchers ?st P) @ ps
          @ [LE32Patch (Offset h + NumBytesToFill (getForm (V h)) - 8)
               (of_nat (SectionOffset (RangesSectionWriter st))
                - of_nat (if getForm (V l) = DW_FORM_GNU_addr_index
                          then RangeBase (DebugInfoPatchers ?st P) else 0))]"
    and c: "\<forall>Q. RangeBase (DebugInfoPatchers st' Q) = RangeBase (DebugInfoPatchers ?st Q)"
      "AbbrevWriters st' = AbbrevWriters ?st"
      "ConvertedRangesAbbrevs st' = ConvertedRangesAbbrevs ?st"
      "PendingRanges st' = PendingRanges ?st"
      "RangesSectionWriter st' = RangesSectionWriter ?st"
    using convertToRangesOffset_Some [OF lo hi hf, of "SectionOffset (RangesSectionWriter st)" P ?st]
    by blast
  have d: "DebugInfoPatchers ?st = DebugInfoPatchers st" "AbbrevWriters ?st = AbbrevWriters st"
    "ConvertedRangesAbbrevs ?st = ConvertedRangesAbbrevs st" "PendingRanges ?st = PendingRanges st"
    "RangesSectionWriter ?st = ?W"
    by simp_all
  show ?thesis
    unfolding e using a b c unfolding d by blast
qed

lemma convertToRangesAbbrev_Some:
  assumes "map_of (AttributeSpecs Abbrev) DW_AT_low_pc = Some lf"
    and "map_of (AttributeSpecs Abbrev) DW_AT_high_pc = Some hf"
  shows "\<exists>st'. convertToRangesAbbrev A Abbrev None st = Some st'
     \<and> filter (\<lambda>p. PatchAbbrev p = AbbrevId Abbrev \<and> AttrTag p = DW_AT_high_pc) (AbbrevWriters st' A)
         = filter (\<lambda>p. PatchAbbrev p = AbbrevId Abbrev \<and> AttrTag p = DW_AT_high_pc) (AbbrevWriters st A)
           @ [\<lparr>PatchAbbrev = AbbrevId Abbrev, AttrTag = DW_AT_high_pc, NewAttrTag = DW_AT_ranges,
               NewAttrForm = DW_FORM_sec_offset\<rparr>]
     \<and> DebugInfoPatchers st' = DebugInfoPatchers st
     \<and> ConvertedRangesAbbrevs st' = ConvertedRangesAbbrevs st
     \<and> PendingRanges st' = PendingRanges st
     \<and> RangesSectionWriter st' = RangesSectionWriter st"
  using assms by (simp add: convertToRangesAbbrev_def addAttributePatch_def)

lemma updateSubprogram_defer:
  assumes pc: "getLowAndHighPC DIE = Some Address"
    and ab: "getAbbreviationDeclarationPtr DIE = Some Abbrev"
    and nc: "AbbrevId Abbrev \<notin> ConvertedRangesAbbrevs st"
    and lo: "findAttributeInfo DIE DW_AT_low_pc = Some l"
    and hi: "findAttributeInfo DIE DW_AT_high_pc = Some h"
    and lf: "getForm (V l) = DW_FORM_GNU_addr_index \<longrightarrow> getDWOId Unit \<noteq> None"
    and fr: "FR = (case getBinaryFunctionAtAddress BC Address of
                     Some Function \<Rightarrow> getOutputAddressRanges Function | None \<Rightarrow> [])"
    and len: "length FR \<le> 1"
  shows "\<exists>st'. updateSubprogram BC opts Unit P A DIE (CachedRanges, st) = Some (Map.empty, st')
         \<and> PendingRanges st' =
             PendingRanges_emplace_back (AbbrevId Abbrev)
               (DIE, if FR = [] then \<lparr>LowPC = 0, HighPC = 0\<rparr> else hd FR) (PendingRanges st)
         \<and> DebugInfoPatchers st' = DebugInfoPatchers st
         \<and> ConvertedRangesAbbrevs st' = ConvertedRangesAbbrevs st
         \<and> AbbrevWriters st' = AbbrevWriters st
         \<and> RangesSectionWriter st' = RangesSectionWriter st"
proof -
  let ?FR' = "if FR = [] then [DebugAddressRange_default] else FR"
  obtain front where front: "?FR' = [front]"
    "front = (if FR = [] then \<lparr>LowPC = 0, HighPC = 0\<rparr> else hd FR)"
    using len by (cases FR) (auto simp: DebugAddressRange_default_def)
  obtain st' where a: "addToPendingRanges Abbrev DIE ?FR' (getDWOId Unit) st = Some st'"
    and p: "PendingRanges st' = PendingRanges_emplace_back (AbbrevId Abbrev) (DIE, front) (PendingRanges st)"
      "DebugInfoPatchers st' = DebugInfoPatchers st"
      "ConvertedRangesAbbrevs st' = ConvertedRangesAbbrevs st"
      "AbbrevWriters st' = AbbrevWriters st"
      "RangesSectionWriter st' = RangesSectionWriter st"
    using addToPendingRanges_Some [OF lo hi lf, of Abbrev front "[]" st]
    unfolding front by blast
  have u: "updateSubprogram BC opts Unit P A DIE (CachedRanges, st) = Some (Map.empty, st')"
    using pc ab nc len a by (auto simp add: updateSubprogram_def Let_def fr [symmetric])
  show ?thesis using u p unfolding front(2) by blast
qed

lemma convertPending_one:
  assumes nc: "AbbrevId Abbrev \<notin> ConvertedRangesAbbrevs st"
    and sl: "map_of (AttributeSpecs Abbrev) DW_AT_low_pc = Some lf"
    and sh: "map_of (AttributeSpecs Abbrev) DW_AT_high_pc = Some hf"
    and pe: "map_of (PendingRanges st) (AbbrevId Abbrev) = Some [(DIE, R)]"
    and lo: "findAttributeInfo DIE DW_AT_low_pc = Some l"
    and hi: "findAttributeInfo DIE DW_AT_high_pc = Some h"
    and hform: "isHighPcFormEightBytes (getForm (V h)) \<or> getForm (V h) = DW_FORM_data4"
  shows "\<exists>st' ps. convertPending A Abbrev P st = Some st'
     \<and> ConvertedRangesAbbrevs st' = insert (AbbrevId Abbrev) (ConvertedRangesAbbrevs st)
     \<and> map_of (PendingRanges st') (AbbrevId Abbrev) = None
     \<and> filter (\<lambda>p. PatchAbbrev p = AbbrevId Abbrev \<and> AttrTag p = DW_AT_high_pc) (AbbrevWriters st' A)
         = filter (\<lambda>p. PatchAbbrev p = AbbrevId Abbrev \<and> AttrTag p = DW_AT_high_pc) (AbbrevWriters st A)
           @ [\<lparr>PatchAbbrev = AbbrevId Abbrev, AttrTag = DW_AT_high_pc, NewAttrTag = DW_AT_ranges,
               NewAttrForm = DW_FORM_sec_offset\<rparr>]
     \<and> Patches (DebugInfoPatchers st' P) =
          Patches (DebugInfoPatchers st P) @ ps
          @ [LE32Patch (Offset h + NumBytesToFill (getForm (V h)) - 8)
               (of_nat (SectionOffset (RangesSectionWriter st))
                - of_nat (if getForm (V l) = DW_FORM_GNU_addr_index
                          then RangeBase (DebugInfoPatchers st P) else 0))]
     \<and> (\<forall>Q. RangeBase (DebugInfoPatchers st' Q) = RangeBase (DebugInfoPatchers st Q))
     \<and> RangesSectionWriter st' =
         (RangesSectionWriter st)
           \<lparr>SectionOffset := SectionOffset (RangesSectionWriter st) + 32,
            RangeLists := RangeLists (RangesSectionWriter st) @ [[R]]\<rparr>"
proof -
  obtain sta where a: "convertToRangesAbbrev A Abbrev None st = Some sta"
    and af: "filter (\<lambda>p. PatchAbbrev p = AbbrevId Abbrev \<and> AttrTag p = DW_AT_high_pc) (AbbrevWriters sta A)
         = filter (\<lambda>p. PatchAbbrev p = AbbrevId Abbrev \<and> AttrTag p = DW_AT_high_pc) (AbbrevWriters st A)
           @ [\<lparr>PatchAbbrev = AbbrevId Abbrev, AttrTag = DW_AT_high_pc, NewAttrTag = DW_AT_ranges,
               NewAttrForm = DW_FORM_sec_offset\<rparr>]"
    and aa: "DebugInfoPatchers sta = DebugInfoPatchers st"
      "ConvertedRangesAbbrevs sta = ConvertedRangesAbbrevs st"
      "PendingRanges sta = PendingRanges st"
      "RangesSectionWriter sta = RangesSectionWriter st"
    using convertToRangesAbbrev_Some [OF sl sh, of A st] by blast
  obtain stb ps where b: "convertToRangesList DIE [R] P sta = Some stb"
    and bp: "Patches (DebugInfoPatchers stb P) =
          Patches (DebugInfoPatchers sta P) @ ps
          @ [LE32Patch (Offset h + NumBytesToFill (getForm (V h)) - 8)
               (of_nat (SectionOffset (RangesSectionWriter sta))
                - of_nat (if getForm (V l) = DW_FORM_GNU_addr_index
                          then RangeBase (DebugInfoPatchers sta P) else 0))]"
    and bb: "\<forall>Q. RangeBase (DebugInfoPatchers stb Q) = RangeBase (DebugInfoPatchers sta Q)"
      "AbbrevWriters stb = AbbrevWriters sta"
      "ConvertedRangesAbbrevs stb = ConvertedRangesAbbrevs sta"
      "PendingRanges stb = PendingRanges sta"
      "RangesSectionWriter stb =
         (RangesSectionWriter sta)
           \<lparr>SectionOffset := SectionOffset (RangesSectionWriter sta) + 16 * (length [R] + 1),
            RangeLists := RangeLists (RangesSectionWriter sta) @ [[R]]\<rparr>"
    using convertToRangesList_Some [OF lo hi hform, of "[R]" P sta] by blast
  let ?st' = "stb\<lparr>PendingRanges := PendingRanges_erase (AbbrevId Abbrev) (PendingRanges stb),
                 ConvertedRangesAbbrevs := insert (AbbrevId Abbrev) (ConvertedRangesAbbrevs stb)\<rparr>"
  have c: "convertPending A Abbrev P st = Some ?st'"
    using nc a b pe aa by (simp add: convertPending_def)
  have "ConvertedRangesAbbrevs ?st' = insert (AbbrevId Abbrev) (ConvertedRangesAbbrevs st)"
    "map_of (PendingRanges ?st') (AbbrevId Abbrev) = None"
    "AbbrevWriters ?st' = AbbrevWriters sta"
    "DebugInfoPatchers ?st' = DebugInfoPatchers stb"
    "RangesSectionWriter ?st' = RangesSectionWriter stb"
    using bb aa by (simp_all add: map_of_erase_same)
  then show ?thesis
    using c af bp bb aa by (intro exI [of _ ?st'] exI [of _ ps]) simp
qed

lemma convertToRangesList_frame:
  "convertToRangesList DIE Ranges P st = Some st' \<Longrightarrow>
     AbbrevWriters st' = AbbrevWriters st \<and> ConvertedRangesAbbrevs st' = ConvertedRangesAbbrevs st"
  unfolding convertToRangesList_def convertToRangesOffset_def getRangeAttrData_def Let_def
  by (auto simp add: addPatch_def errs_def getRangeBase_def addRanges_def
      split: option.splits if_splits prod.splits)

lemma updateSubprogram_converted:
  assumes "getLowAndHighPC DIE \<noteq> None"
    and "getAbbreviationDeclarationPtr DIE = Some Abbrev"
    and "AbbrevId Abbrev \<in> ConvertedRangesAbbrevs st"
    and "updateSubprogram BC opts Unit P A DIE (CachedRanges, st) = Some r"
  shows "AbbrevWriters (snd r) = AbbrevWriters st
       \<and> ConvertedRangesAbbrevs (snd r) = ConvertedRangesAbbrevs st"
  using assms unfolding updateSubprogram_def Let_def
  by (auto simp add: convertPending_def dest!: convertToRangesList_frame split: if_splits option.splits)

text \<open>
  Claim C1. Two subprogram DIEs share one declaration, untouched so far. The first function
  has exactly one output range and is deferred as pending; the second has more than one and
  forces the conversion. After both, the declaration is marked converted and has no pending
  entry left, its high-pc attribute was rewritten to \<^verbatim>\<open>DW_AT_ranges\<close> exactly once, both range
  lists are in the ranges section and both DIEs are patched with the offset of their list.
  Asking again for the conversion of the pending entries changes nothing, and no later DIE of
  this declaration adds an abbreviation patch.
\<close>

theorem shared_declaration_converted_once:
  assumes ab1: "getAbbreviationDeclarationPtr DIE1 = Some Abbrev"
    and ab2: "getAbbreviationDeclarationPtr DIE2 = Some Abbrev"
    and pc1: "getLowAndHighPC DIE1 = Some Address1"
    and pc2: "getLowAndHighPC DIE2 = Some Address2"
    and lo1: "findAttributeInfo DIE1 DW_AT_low_pc = Some l1"
    and hi1: "findAttributeInfo DIE1 DW_AT_high_pc = Some h1"
    and lo2: "findAttributeInfo DIE2 DW_AT_low_pc = Some l2"
    and hi2: "findAttributeInfo DIE2 DW_AT_high_pc = Some h2"
    and sl: "map_of (AttributeSpecs Abbrev) DW_AT_low_pc = Some lf"
    and sh: "map_of (AttributeSpecs Abbrev) DW_AT_high_pc = Some hf"
    and hf1: "isHighPcFormEightBytes (getForm (V h1)) \<or> getForm (V h1) = DW_FORM_data4"
    and hf2: "isHighPcFormEightBytes (getForm (V h2)) \<or> getForm (V h2) = DW_FORM_data4"
    and lf1: "getForm (V l1) = DW_FORM_GNU_addr_index \<longrightarrow> getDWOId Unit \<noteq> None"
    and nc: "AbbrevId Abbrev \<notin> ConvertedRangesAbbrevs st"
    and np: "map_of (PendingRanges st) (AbbrevId Abbrev) = None"
    and nw: "filter (\<lambda>p. PatchAbbrev p = AbbrevId Abbrev \<and> AttrTag p = DW_AT_high_pc)
               (AbbrevWriters st A) = []"
    and fr1: "(case getBinaryFunctionAtAddress BC Address1 of
                 Some Function \<Rightarrow> getOutputAddressRanges Function | None \<Rightarrow> []) = [R1]"
    and fr2: "FR2 = (case getBinaryFunctionAtAddress BC Address2 of
                 Some Function \<Rightarrow> getOutputAddressRanges Function | None \<Rightarrow> [])"
    and len2: "length FR2 > 1"
  shows "\<exists>st1 st2 ps1 ps2.
      updateSubprogram BC opts Unit P A DIE1 (CachedRanges, st) = Some (Map.empty, st1)
    \<and> map_of (PendingRanges st1) (AbbrevId Abbrev) = Some [(DIE1, R1)]
    \<and> updateSubprogram BC opts Unit P A DIE2 (Map.empty, st1) = Some (Map.empty, st2)
    \<and> AbbrevId Abbrev \<in> ConvertedRangesAbbrevs st2
    \<and> map_of (PendingRanges st2) (AbbrevId Abbrev) = None
    \<and> filter (\<lambda>p. PatchAbbrev p = AbbrevId Abbrev \<and> AttrTag p = DW_AT_high_pc)
         (AbbrevWriters st2 A)
       = [\<lparr>PatchAbbrev = AbbrevId Abbrev, AttrTag = DW_AT_high_pc, NewAttrTag = DW_AT_ranges,
            NewAttrForm = DW_FORM_sec_offset\<rparr>]
    \<and> RangeLists (RangesSectionWriter st2) = RangeLists (RangesSectionWriter st) @ [[R1], FR2]
    \<and> Patches (DebugInfoPatchers st2 P) =
         Patches (DebugInfoPatchers st P)
         @ ps1
         @ [LE32Patch (Offset h1 + NumBytesToFill (getForm (V h1)) - 8)
              (of_nat (SectionOffset (RangesSectionWriter st))
               - of_nat (if getForm (V l1) = DW_FORM_GNU_addr_index
                         then RangeBase (DebugInfoPatchers st P) else 0))]
         @ ps2
         @ [LE32Patch (Offset h2 + NumBytesToFill (getForm (V h2)) - 8)
              (of_nat (SectionOffset (RangesSectionWriter st) + 32)
               - of_nat (if getForm (V l2) = DW_FORM_GNU_addr_index
                         then RangeBase (DebugInfoPatchers st P) else 0))]
    \<and> convertPending A Abbrev P st2 = Some st2
    \<and> (\<forall>DIE3 C3 r. getAbbreviationDeclarationPtr DIE3 = Some Abbrev
          \<longrightarrow> getLowAndHighPC DIE3 \<noteq> None
          \<longrightarrow> updateSubprogram BC opts Unit P A DIE3 (C3, st2) = Some r
          \<longrightarrow> AbbrevWriters (snd r) = AbbrevWriters st2
              \<and> ConvertedRangesAbbrevs (snd r) = ConvertedRangesAbbrevs st2)"
proof -
  let ?f = "filter (\<lambda>p. PatchAbbrev p = AbbrevId Abbrev \<and> AttrTag p = DW_AT_high_pc)"
  have len1: "length [R1] \<le> 1" by simp
  obtain st1 where u1: "updateSubprogram BC opts Unit P A DIE1 (CachedRanges, st) = Some (Map.empty, st1)"
    and p1: "PendingRanges st1 =
             PendingRanges_emplace_back (AbbrevId Abbrev) (DIE1, R1) (PendingRanges st)"
    and f1: "DebugInfoPatchers st1 = DebugInfoPatchers st"
      "ConvertedRangesAbbrevs st1 = ConvertedRangesAbbrevs st"
      "AbbrevWriters st1 = AbbrevWriters st"
      "RangesSectionWriter st1 = RangesSectionWriter st"
    using updateSubprogram_defer [OF pc1 ab1 nc lo1 hi1 lf1 fr1 [symmetric] len1, of opts P A CachedRanges]
    by auto
  have m1: "map_of (PendingRanges st1) (AbbrevId Abbrev) = Some [(DIE1, R1)]"
    unfolding p1 by (simp add: map_of_emplace_back_same np)
  have nc1: "AbbrevId Abbrev \<notin> ConvertedRangesAbbrevs st1" using nc f1 by simp
  obtain sta ps1 where c: "convertPending A Abbrev P st1 = Some sta"
    and ca: "ConvertedRangesAbbrevs sta = insert (AbbrevId Abbrev) (ConvertedRangesAbbrevs st1)"
      "map_of (PendingRanges sta) (AbbrevId Abbrev) = None"
      "?f (AbbrevWriters sta A) = ?f (AbbrevWriters st1 A)
           @ [\<lparr>PatchAbbrev = AbbrevId Abbrev, AttrTag = DW_AT_high_pc, NewAttrTag = DW_AT_ranges,
               NewAttrForm = DW_FORM_sec_offset\<rparr>]"
      "Patches (DebugInfoPatchers sta P) =
          Patches (DebugInfoPatchers st1 P) @ ps1
          @ [LE32Patch (Offset h1 + NumBytesToFill (getForm (V h1)) - 8)
               (of_nat (SectionOffset (RangesSectionWriter st1))
                - of_nat (if getForm (V l1) = DW_FORM_GNU_addr_index
                          then RangeBase (DebugInfoPatchers st1 P) else 0))]"
      "\<forall>Q. RangeBase (DebugInfoPatchers sta Q) = RangeBase (DebugInfoPatchers st1 Q)"
      "RangesSectionWriter sta =
         (RangesSectionWriter st1)
           \<lparr>SectionOffset := SectionOffset (RangesSectionWriter st1) + 32,
            RangeLists := RangeLists (RangesSectionWriter st1) @ [[R1]]\<rparr>"
    using convertPending_one [OF nc1 sl sh m1 lo1 hi1 hf1, of A P] by blast
  have ne2: "FR2 \<noteq> []" using len2 by auto
  obtain st2 ps2 where d: "convertToRangesList DIE2 FR2 P sta = Some st2"
    and da: "Patches (DebugInfoPatchers st2 P) =
          Patches (DebugInfoPatchers sta P) @ ps2
          @ [LE32Patch (Offset h2 + NumBytesToFill (getForm (V h2)) - 8)
               (of_nat (SectionOffset (RangesSectionWriter sta))
                - of_nat (if getForm (V l2) = DW_FORM_GNU_addr_index
                          then RangeBase (DebugInfoPatchers sta P) else 0))]"
      "AbbrevWriters st2 = AbbrevWriters sta"
      "ConvertedRangesAbbrevs st2 = ConvertedRangesAbbrevs sta"
      "PendingRanges st2 = PendingRanges sta"
      "RangesSectionWriter st2 =
         (RangesSectionWriter sta)
           \<lparr>SectionOffset := SectionOffset (RangesSectionWriter sta) + 16 * (length FR2 + 1),
            RangeLists := RangeLists (RangesSectionWriter sta) @ [FR2]\<rparr>"
    using convertToRangesList_Some [OF lo2 hi2 hf2 ne2, of P sta] by blast
  have u2: "updateSubprogram BC opts Unit P A DIE2 (Map.empty, st1) = Some (Map.empty, st2)"
    using pc2 ab2 len2 c d by (simp add: updateSubprogram_def Let_def fr2 [symmetric])
  have conv2: "AbbrevId Abbrev \<in> ConvertedRangesAbbrevs st2" using da ca by simp
  have pend2: "map_of (PendingRanges st2) (AbbrevId Abbrev) = None" using da ca by simp
  have w2: "?f (AbbrevWriters st2 A)
       = [\<lparr>PatchAbbrev = AbbrevId Abbrev, AttrTag = DW_AT_high_pc, NewAttrTag = DW_AT_ranges,
            NewAttrForm = DW_FORM_sec_offset\<rparr>]"
    using da(2) ca(3) f1(3) nw by simp
  have r2: "RangeLists (RangesSectionWriter st2) = RangeLists (RangesSectionWriter st) @ [[R1], FR2]"
    using da(5) ca(6) f1(4) by simp
  have so: "SectionOffset (RangesSectionWriter sta) = SectionOffset (RangesSectionWriter st) + 32"
    using ca(6) f1(4) by simp
  have rb: "RangeBase (DebugInfoPatchers sta P) = RangeBase (DebugInfoPatchers st P)"
    using ca(5) f1(1) by simp
  have pt: "Patches (DebugInfoPatchers st2 P) =
         Patches (DebugInfoPatchers st P)
         @ ps1
         @ [LE32Patch (Offset h1 + NumBytesToFill (getForm (V h1)) - 8)
              (of_nat (SectionOffset (RangesSectionWriter st))
               - of_nat (if getForm (V l1) = DW_FORM_GNU_addr_index
                         then RangeBase (DebugInfoPatchers st P) else 0))]
         @ ps2
         @ [LE32Patch (Offset h2 + NumBytesToFill (getForm (V h2)) - 8)
              (of_nat (SectionOffset (RangesSectionWriter st) + 32)
               - of_nat (if getForm (V l2) = DW_FORM_GNU_addr_index
                         then RangeBase (DebugInfoPatchers st P) else 0))]"
    unfolding da(1) ca(4) so rb f1 by simp
  have noop: "convertPending A Abbrev P st2 = Some st2"
    using conv2 by (simp add: convertPending_def)
  have later: "\<forall>DIE3 C3 r. getAbbreviationDeclarationPtr DIE3 = Some Abbrev
          \<longrightarrow> getLowAndHighPC DIE3 \<noteq> None
          \<longrightarrow> updateSubprogram BC opts Unit P A DIE3 (C3, st2) = Some r
          \<longrightarrow> AbbrevWriters (snd r) = AbbrevWriters st2
              \<and> ConvertedRangesAbbrevs (snd r) = ConvertedRangesAbbrevs st2"
    using updateSubprogram_converted [OF _ _ conv2] by blast
  show ?thesis
    by (intro exI [of _ st1] exI [of _ st2] exI [of _ ps1] exI [of _ ps2] conjI
        u1 m1 u2 conv2 pend2 w2 r2 pt noop later)
qed

section \<open>Flushing the pending entries\<close>

lemma PatchesGrow_refl: "PatchesGrow st st"
  by (simp add: PatchesGrow_def)

lemma PatchesGrow_trans: "PatchesGrow a b \<Longrightarrow> PatchesGrow b c \<Longrightarrow> PatchesGrow a c"
  unfolding PatchesGrow_def by (metis subset_trans)

lemma PendingEntryFlushed_mono:
  assumes "PatchesGrow st st'" and "PendingEntryFlushed P AW st e"
  shows "PendingEntryFlushed P AW st' e"
proof (cases "ExpectedLowHighPatches P AW e")
  case None
  with assms(2) show ?thesis by (simp add: PendingEntryFlushed_def)
next
  case (Some a)
  obtain T ps where a: "a = (T, ps)" by (cases a)
  have "set (Patches (DebugInfoPatchers st T)) \<subseteq> set (Patches (DebugInfoPatchers st' T))"
    using assms(1) by (simp add: PatchesGrow_def)
  with assms(2) Some a show ?thesis by (auto simp add: PendingEntryFlushed_def)
qed

lemma absIntDiff_eq:
  assumes "l \<le> h" "h - l < 2 ^ 31"
  shows "absIntDiff h l = h - l"
proof -
  have "sint (of_nat (h - l) - of_nat 0 :: u32) = int (h - l) - int 0"
    by (rule sint_delta) (use assms in simp_all)
  moreover have "(of_nat h - of_nat l :: u32) = of_nat (h - l)" using assms(1) by simp
  ultimately show ?thesis by (simp add: absIntDiff_def)
qed

lemma patchLowHigh_ok:
  assumes "PendingEntryOK (AddrWriter st) (DIE, R)"
  shows "\<exists>st'. patchLowHigh DIE R P st = Some st' \<and> PatchesGrow st st'
           \<and> PendingEntryFlushed P (AddrWriter st) st' (DIE, R)"
proof -
  from assms obtain l h where lo: "findAttributeInfo DIE DW_AT_low_pc = Some l"
    and hi: "findAttributeInfo DIE DW_AT_high_pc = Some h"
    by (auto simp: PendingEntryOK_def split: option.splits)
  obtain st1 where g: "getRangeAttrData DIE st = Some ((Offset l, Offset h, getForm (V l), getForm (V h)), st1)"
    and f: "DebugInfoPatchers st1 = DebugInfoPatchers st" "AddrWriter st1 = AddrWriter st"
    by (rule getRangeAttrData_Some [OF lo hi])
  show ?thesis
  proof (cases "getForm (V l) = DW_FORM_GNU_addr_index")
    case True
    with assms lo hi obtain d idx where d: "UnitIsDWO DIE" "UnitDWOId DIE = Some d"
      "getIndexFromAddress (LowPC R) d (AddrWriter st) = Some idx"
      and w: "absIntDiff (Offset h) (Offset l) = Offset h - Offset l"
      by (auto simp: PendingEntryOK_def absIntDiff_eq split: option.splits)
    let ?st' = "addPatch (DWO d) (HighPCPatch (getForm (V h)) (Offset h) R)
                  (addPatch (DWO d) (UDataPatch (Offset l) (ucast idx)
                     (absIntDiff (Offset h) (Offset l))) st1)"
    have r: "patchLowHigh DIE R P st = Some ?st'"
      using True g f d by (simp add: patchLowHigh_def)
    have gr: "PatchesGrow st ?st'"
      using f by (auto simp add: PatchesGrow_def addPatch_def)
    have fl: "PendingEntryFlushed P (AddrWriter st) ?st' (DIE, R)"
      using True lo hi d w
      by (simp add: PendingEntryFlushed_def ExpectedLowHighPatches_def HighPCPatch_def)
    show ?thesis using r gr fl by blast
  next
    case False
    let ?st' = "addPatch P (HighPCPatch (getForm (V h)) (Offset h) R)
                  (addPatch P (LE64Patch (Offset l) (LowPC R)) st1)"
    have r: "patchLowHigh DIE R P st = Some ?st'"
      using False g by (simp add: patchLowHigh_def)
    have gr: "PatchesGrow st ?st'"
      using f by (auto simp add: PatchesGrow_def addPatch_def)
    have fl: "PendingEntryFlushed P (AddrWriter st) ?st' (DIE, R)"
      using False lo hi
      by (simp add: PendingEntryFlushed_def ExpectedLowHighPatches_def HighPCPatch_def)
    show ?thesis using r gr fl by blast
  qed
qed

lemma patchLowHighPairs_ok:
  "list_all (PendingEntryOK (AddrWriter st)) es \<Longrightarrow>
   \<exists>st'. patchLowHighPairs es P st = Some st' \<and> PatchesGrow st st'
         \<and> list_all (PendingEntryFlushed P (AddrWriter st) st') es"
proof (induction es arbitrary: st)
  case Nil
  show ?case by (simp add: PatchesGrow_refl)
next
  case (Cons e es)
  obtain DIE R where e: "e = (DIE, R)" by (cases e)
  from Cons.prems e obtain st1 where s1: "patchLowHigh DIE R P st = Some st1"
    and g1: "PatchesGrow st st1" and p1: "PendingEntryFlushed P (AddrWriter st) st1 (DIE, R)"
    using patchLowHigh_ok [of st DIE R P] by auto
  have aw: "AddrWriter st1 = AddrWriter st" using g1 by (simp add: PatchesGrow_def)
  from Cons.prems have "list_all (PendingEntryOK (AddrWriter st1)) es" by (simp add: aw)
  from Cons.IH [OF this] obtain st' where s2: "patchLowHighPairs es P st1 = Some st'"
    and g2: "PatchesGrow st1 st'" and p2: "list_all (PendingEntryFlushed P (AddrWriter st1) st') es"
    by blast
  have "PendingEntryFlushed P (AddrWriter st) st' (DIE, R)"
    by (rule PendingEntryFlushed_mono [OF g2 p1])
  then show ?case using s1 s2 e p2 aw PatchesGrow_trans [OF g1 g2] by auto
qed

lemma flushPendingLoop_ok:
  "list_all (\<lambda>(k, es). list_all (PendingEntryOK (AddrWriter st)) es) pend \<Longrightarrow>
   \<exists>st'. flushPendingLoop pend P st = Some st' \<and> PatchesGrow st st'
         \<and> list_all (\<lambda>(k, es). list_all (PendingEntryFlushed P (AddrWriter st) st') es) pend"
proof (induction pend arbitrary: st)
  case Nil
  show ?case by (simp add: PatchesGrow_refl)
next
  case (Cons a pend)
  obtain k es where a: "a = (k, es)" by (cases a)
  from Cons.prems a obtain st1 where s1: "patchLowHighPairs es P st = Some st1"
    and g1: "PatchesGrow st st1" and p1: "list_all (PendingEntryFlushed P (AddrWriter st) st1) es"
    using patchLowHighPairs_ok [of st es P] by auto
  have aw: "AddrWriter st1 = AddrWriter st" using g1 by (simp add: PatchesGrow_def)
  from Cons.prems have "list_all (\<lambda>(k, es). list_all (PendingEntryOK (AddrWriter st1)) es) pend"
    by (simp add: aw)
  from Cons.IH [OF this] obtain st' where s2: "flushPendingLoop pend P st1 = Some st'"
    and g2: "PatchesGrow st1 st'"
    and p2: "list_all (\<lambda>(k, es). list_all (PendingEntryFlushed P (AddrWriter st1) st') es) pend"
    by blast
  have "list_all (PendingEntryFlushed P (AddrWriter st) st') es"
    using p1 PendingEntryFlushed_mono [OF g2] by (auto simp: list_all_iff)
  then show ?case using s1 s2 a p2 aw PatchesGrow_trans [OF g1 g2] by auto
qed

text \<open>
  Claim C2. At the end of the run \<^verbatim>\<open>flushPendingRanges\<close> returns, leaves no pending entry, and
  every entry that was pending has been flushed: the patcher of its unit holds the patch of
  low-pc with the low address of its single range (for a split unit, the index of that
  address in the address table, as wide as the distance from low-pc to high-pc) and the
  patch of high-pc with the difference high minus low, 8 or 4 bytes wide according to the
  form of high-pc.
\<close>

theorem flush_patches_pending_entries:
  assumes "list_all (\<lambda>(k, es). list_all (PendingEntryOK (AddrWriter st)) es) (PendingRanges st)"
  shows "\<exists>st'. flushPendingRanges P st = Some st' \<and> PendingRanges st' = []
           \<and> list_all (\<lambda>(k, es). list_all (PendingEntryFlushed P (AddrWriter st) st') es)
               (PendingRanges st)"
proof -
  from flushPendingLoop_ok [OF assms, of P] obtain st1 where
    s: "flushPendingLoop (PendingRanges st) P st = Some st1"
    and p: "list_all (\<lambda>(k, es). list_all (PendingEntryFlushed P (AddrWriter st) st1) es)
               (PendingRanges st)"
    by blast
  have g: "PatchesGrow st1 (st1\<lparr>PendingRanges := []\<rparr>)" by (simp add: PatchesGrow_def)
  have "list_all (\<lambda>(k, es). list_all (PendingEntryFlushed P (AddrWriter st) (st1\<lparr>PendingRanges := []\<rparr>)) es)
               (PendingRanges st)"
    using p PendingEntryFlushed_mono [OF g] by (auto simp: list_all_iff)
  then show ?thesis using s by (simp add: flushPendingRanges_def)
qed

section \<open>The cache of range lists\<close>

lemma CacheInv_empty: "EmptyRangesOffset W < SectionOffset W \<Longrightarrow> CacheInv Map.empty W"
  by (simp add: CacheInv_def)

lemma addRanges_step:
  assumes "CacheInv C W" "addRanges L W = (off, W')"
  shows "CacheInv C W'" "EmptyRangesOffset W' = EmptyRangesOffset W"
    "\<forall>K x. C K = Some x \<longrightarrow> x \<noteq> off"
  using assms unfolding CacheInv_def addRanges_def getEmptyRangesOffset_def
  by (auto split: if_splits) fastforce+

lemma addRangesCached_step:
  assumes "CacheInv C W" "addRangesCached L C W = (off, C', W')"
  shows "CacheInv C' W'" "EmptyRangesOffset W' = EmptyRangesOffset W"
    "L \<noteq> [] \<Longrightarrow> C' L = Some off" "L = [] \<Longrightarrow> off = EmptyRangesOffset W"
    "\<forall>K x. C K = Some x \<longrightarrow> C' K = Some x"
proof -
  show "EmptyRangesOffset W' = EmptyRangesOffset W"
    using assms(2) unfolding addRangesCached_def addRanges_def
    by (auto split: if_splits option.splits)
  show "L \<noteq> [] \<Longrightarrow> C' L = Some off"
    using assms(2) unfolding addRangesCached_def addRanges_def
    by (auto split: if_splits option.splits)
  show "L = [] \<Longrightarrow> off = EmptyRangesOffset W"
    using assms(2) unfolding addRangesCached_def getEmptyRangesOffset_def by auto
  show "\<forall>K x. C K = Some x \<longrightarrow> C' K = Some x"
    using assms(2) unfolding addRangesCached_def addRanges_def
    by (auto split: if_splits option.splits)
  show "CacheInv C' W'"
  proof (cases "L = [] \<or> C L \<noteq> None")
    case True
    then have "C' = C" "W' = W" using assms(2) unfolding addRangesCached_def
      by (auto split: if_splits option.splits)
    with assms(1) show ?thesis by simp
  next
    case False
    then have e: "C' = C(L \<mapsto> SectionOffset W)"
      "W' = W\<lparr>SectionOffset := SectionOffset W + 16 * (length L + 1),
              RangeLists := RangeLists W @ [L]\<rparr>"
      using assms(2) unfolding addRangesCached_def addRanges_def
      by (auto split: if_splits option.splits)
    show ?thesis using assms(1) False unfolding e CacheInv_def
      by (auto split: if_splits) fastforce+
  qed
qed

lemma cached_offset_later:
  assumes "CacheInv C W" "C A = Some oa" "j < length evs" "evs ! j = CachedAdd B"
  shows "addRangesScope evs C W ! j = oa \<longleftrightarrow> B = A"
  using assms
proof (induction evs arbitrary: C W j)
  case Nil
  then show ?case by simp
next
  case (Cons ev evs)
  show ?case
  proof (cases ev)
    case (CachedAdd L)
    obtain off C' W' where s: "addRangesCached L C W = (off, C', W')"
      by (cases "addRangesCached L C W") auto
    note st = addRangesCached_step [OF Cons.prems(1) s]
    have ca: "C' A = Some oa" using st(5) Cons.prems(2) by blast
    show ?thesis
    proof (cases j)
      case 0
      then have LB: "L = B" using Cons.prems(4) CachedAdd by simp
      have ne: "A \<noteq> []" using Cons.prems(1,2) by (auto simp: CacheInv_def)
      have oa_gt: "EmptyRangesOffset W < oa" using Cons.prems(1,2) by (auto simp: CacheInv_def)
      show ?thesis
      proof (cases "B = []")
        case True
        then have "off = EmptyRangesOffset W" using st(4) LB by simp
        then show ?thesis using 0 CachedAdd s True ne oa_gt by auto
      next
        case False
        then have "C' B = Some off" using st(3) LB by simp
        then have "off = oa \<longleftrightarrow> B = A" using ca st(1) by (auto simp: CacheInv_def)
        then show ?thesis using 0 CachedAdd s by simp
      qed
    next
      case (Suc n)
      then show ?thesis
        using Cons.IH [OF st(1) ca, of n] Cons.prems(3,4) CachedAdd s by simp
    qed
  next
    case (OtherAdd L)
    obtain off W' where s: "addRanges L W = (off, W')" by (cases "addRanges L W") auto
    note st = addRanges_step [OF Cons.prems(1) s]
    show ?thesis
    proof (cases j)
      case 0
      then show ?thesis using Cons.prems(4) OtherAdd by simp
    next
      case (Suc n)
      then show ?thesis
        using Cons.IH [OF st(1) Cons.prems(2), of n] Cons.prems(3,4) OtherAdd s by simp
    qed
  qed
qed

lemma empty_offset_later:
  assumes "CacheInv C W" "j < length evs" "evs ! j = CachedAdd B"
  shows "addRangesScope evs C W ! j = EmptyRangesOffset W \<longleftrightarrow> B = []"
  using assms
proof (induction evs arbitrary: C W j)
  case Nil
  then show ?case by simp
next
  case (Cons ev evs)
  show ?case
  proof (cases ev)
    case (CachedAdd L)
    obtain off C' W' where s: "addRangesCached L C W = (off, C', W')"
      by (cases "addRangesCached L C W") auto
    note st = addRangesCached_step [OF Cons.prems(1) s]
    show ?thesis
    proof (cases j)
      case 0
      then have LB: "L = B" using Cons.prems(3) CachedAdd by simp
      show ?thesis
      proof (cases "B = []")
        case True
        then show ?thesis using st(4) LB 0 CachedAdd s by simp
      next
        case False
        then have "C' B = Some off" using st(3) LB by simp
        then have "EmptyRangesOffset W' < off" using st(1) by (auto simp: CacheInv_def)
        then show ?thesis using False 0 CachedAdd s st(2) by simp
      qed
    next
      case (Suc n)
      then show ?thesis
        using Cons.IH [OF st(1), of n] Cons.prems(2,3) CachedAdd s st(2) by simp
    qed
  next
    case (OtherAdd L)
    obtain off W' where s: "addRanges L W = (off, W')" by (cases "addRanges L W") auto
    note st = addRanges_step [OF Cons.prems(1) s]
    show ?thesis
    proof (cases j)
      case 0
      then show ?thesis using Cons.prems(3) OtherAdd by simp
    next
      case (Suc n)
      then show ?thesis
        using Cons.IH [OF st(1), of n] Cons.prems(2,3) OtherAdd s st(2) by simp
    qed
  qed
qed

lemma scope_offsets:
  assumes "CacheInv C W" "i < j" "j < length evs" "evs ! i = CachedAdd A" "evs ! j = CachedAdd B"
  shows "addRangesScope evs C W ! i = addRangesScope evs C W ! j \<longleftrightarrow> A = B"
  using assms
proof (induction evs arbitrary: C W i j)
  case Nil
  then show ?case by simp
next
  case (Cons ev evs)
  obtain n where j: "j = Suc n" using Cons.prems(2) by (cases j) auto
  show ?case
  proof (cases i)
    case 0
    then have ev: "ev = CachedAdd A" using Cons.prems(4) by simp
    obtain off C' W' where s: "addRangesCached A C W = (off, C', W')"
      by (cases "addRangesCached A C W") auto
    note st = addRangesCached_step [OF Cons.prems(1) s]
    have n: "n < length evs" "evs ! n = CachedAdd B" using Cons.prems(3,5) j by simp_all
    show ?thesis
    proof (cases "A = []")
      case True
      then have "off = EmptyRangesOffset W'" using st(4) st(2) by simp
      then show ?thesis
        using empty_offset_later [OF st(1) n] 0 j ev s True by auto
    next
      case False
      then have "C' A = Some off" using st(3) by simp
      from cached_offset_later [OF st(1) this n]
      show ?thesis using 0 j ev s by auto
    qed
  next
    case (Suc m)
    have mn: "m < n" "n < length evs" "evs ! m = CachedAdd A" "evs ! n = CachedAdd B"
      using Cons.prems Suc j by simp_all
    show ?thesis
    proof (cases ev)
      case (CachedAdd L)
      obtain off C' W' where s: "addRangesCached L C W = (off, C', W')"
        by (cases "addRangesCached L C W") auto
      note st = addRangesCached_step [OF Cons.prems(1) s]
      show ?thesis using Cons.IH [OF st(1) mn] Suc j CachedAdd s by simp
    next
      case (OtherAdd L)
      obtain off W' where s: "addRanges L W = (off, W')" by (cases "addRanges L W") auto
      note st = addRanges_step [OF Cons.prems(1) s]
      show ?thesis using Cons.IH [OF st(1) mn] Suc j OtherAdd s by simp
    qed
  qed
qed

section \<open>What the walk over a unit leaves untouched\<close>

lemma OthersKept_refl: "OthersKept P A st st"
  by (simp add: OthersKept_def)

lemma OthersKept_trans: "OthersKept P A a b \<Longrightarrow> OthersKept P A b c \<Longrightarrow> OthersKept P A a c"
  by (simp add: OthersKept_def)

lemma OthersKept_basic:
  "OthersKept P A st (errs d st)"
  "OthersKept P A st (addPatch P p st)"
  "OthersKept P A st (snd (getRangeBase P st))"
  "OthersKept P A st (addAttributePatch A k a b f st)"
  "OthersKept P A st (st\<lparr>RangesSectionWriter := W\<rparr>)"
  "OthersKept P A st (st\<lparr>ARangesSectionWriter := AW\<rparr>)"
  "OthersKept P A st (st\<lparr>PendingRanges := PR\<rparr>)"
  "OthersKept P A st (st\<lparr>ConvertedRangesAbbrevs := CR\<rparr>)"
  "OthersKept P A st (st\<lparr>AddrWriter := ADW\<rparr>)"
  "OthersKept P A st (st\<lparr>LocListWritersByCU := LW\<rparr>)"
  "OthersKept P A st (st\<lparr>LocListDebugInfoPatches := LP\<rparr>)"
  "OthersKept P A st (st\<lparr>DwoLocListDebugInfoPatches := DLP\<rparr>)"
  "OthersKept P A st (st\<lparr>UnitAbbreviations := UA\<rparr>)"
  by (simp_all add: OthersKept_def errs_def addPatch_def getRangeBase_def addAttributePatch_def)

lemma PendingKept_basic:
  "PendingRanges (addPatch P p st) = PendingRanges st"
  "PendingRanges (snd (getRangeBase P st)) = PendingRanges st"
  "PendingRanges (addAttributePatch A k a b f st) = PendingRanges st"
  by (simp_all add: addPatch_def getRangeBase_def addAttributePatch_def)

lemma getRangeAttrData_kept:
  "getRangeAttrData DIE st = Some (r, st1) \<Longrightarrow>
     OthersKept P A st st1 \<and> PendingRanges st1 = PendingRanges st"
  unfolding getRangeAttrData_def Let_def
  by (auto simp add: OthersKept_basic OthersKept_refl split: option.splits if_splits)

lemma convertToRangesAbbrev_kept:
  "convertToRangesAbbrev A Abbrev RB st = Some st' \<Longrightarrow>
     OthersKept P A st st' \<and> PendingRanges st' = PendingRanges st"
  unfolding convertToRangesAbbrev_def
  by (auto simp add: OthersKept_def addAttributePatch_def split: option.splits if_splits)

lemma convertToRangesOffset_kept:
  assumes "convertToRangesOffset DIE off P RB st = Some st'"
  shows "OthersKept P A st st' \<and> PendingRanges st' = PendingRanges st"
proof -
  from assms obtain r st1 where g: "getRangeAttrData DIE st = Some (r, st1)"
    by (auto simp add: convertToRangesOffset_def split: option.splits)
  have k: "OthersKept P A st st1" "PendingRanges st1 = PendingRanges st"
    using getRangeAttrData_kept [OF g] by simp_all
  have "OthersKept P A st1 st' \<and> PendingRanges st' = PendingRanges st1"
    using assms g
    by (auto simp add: convertToRangesOffset_def Let_def OthersKept_def addPatch_def
        getRangeBase_def split: option.splits if_splits prod.splits)
  with k show ?thesis using OthersKept_trans by auto
qed

lemma updateDWARFObjectAddressRanges_kept:
  assumes "updateDWARFObjectAddressRanges opts DIE off P A RB st = Some st'"
  shows "OthersKept P A st st' \<and> PendingRanges st' = PendingRanges st"
proof (cases "getAbbreviationDeclarationPtr DIE")
  case None
  with assms show ?thesis
    by (auto simp add: updateDWARFObjectAddressRanges_def OthersKept_basic OthersKept_refl)
next
  case (Some D)
  obtain RB1 st1 where b: "(case RB of
                   None \<Rightarrow> (None, st)
                 | Some Base \<Rightarrow>
                     (case findAttributeInfo DIE DW_AT_GNU_ranges_base of
                        None \<Rightarrow> (Some Base, st)
                      | Some RangesBaseAttrInfo \<Rightarrow>
                          (None, addPatch P (LE32Patch (Offset RangesBaseAttrInfo) (of_nat Base)) st)))
                 = (RB1, st1)"
    by (cases "(case RB of
                   None \<Rightarrow> (None, st)
                 | Some Base \<Rightarrow>
                     (case findAttributeInfo DIE DW_AT_GNU_ranges_base of
                        None \<Rightarrow> (Some Base, st)
                      | Some RangesBaseAttrInfo \<Rightarrow>
                          (None, addPatch P (LE32Patch (Offset RangesBaseAttrInfo) (of_nat Base)) st)))")
  have k1: "OthersKept P A st st1" "PendingRanges st1 = PendingRanges st"
    using b by (auto simp add: OthersKept_basic OthersKept_refl PendingKept_basic
        split: option.splits)
  have "OthersKept P A st1 st' \<and> PendingRanges st' = PendingRanges st1"
  proof (cases "findAttributeIndex D DW_AT_ranges")
    case True
    with assms Some b show ?thesis
      by (auto simp add: updateDWARFObjectAddressRanges_def Let_def OthersKept_def addPatch_def
          getRangeBase_def addAttributePatch_def errs_def split: option.splits)
  next
    case False
    show ?thesis
    proof (cases "findAttributeIndex D DW_AT_low_pc \<and> findAttributeIndex D DW_AT_high_pc")
      case True
      with assms Some b False obtain st2 where
        c1: "convertToRangesAbbrev A D RB1 st1 = Some st2"
        and c2: "convertToRangesOffset DIE off P RB1 st2 = Some st'"
        by (auto simp add: updateDWARFObjectAddressRanges_def split: option.splits)
      show ?thesis
        using convertToRangesAbbrev_kept [OF c1, of P] convertToRangesOffset_kept [OF c2, of A]
          OthersKept_trans by auto
    next
      case nolh: False
      with assms Some b False show ?thesis
        by (auto simp add: updateDWARFObjectAddressRanges_def OthersKept_basic OthersKept_refl
            split: if_splits)
    qed
  qed
  with k1 show ?thesis using OthersKept_trans by auto
qed

lemma updateBlock_kept:
  assumes "updateBlock BC opts P A DIE (C, st) = Some (C', st')"
  shows "OthersKept P A st st' \<and> PendingRanges st' = PendingRanges st"
proof -
  from assms obtain off W where
    u: "updateDWARFObjectAddressRanges opts DIE off P A None (st\<lparr>RangesSectionWriter := W\<rparr>) = Some st'"
    unfolding updateBlock_def
    by (auto split: option.splits list.splits prod.splits) (metis DWARFRewriter.surjective DWARFRewriter.update_convs(6))+
  from updateDWARFObjectAddressRanges_kept [OF u]
  show ?thesis using OthersKept_trans [OF OthersKept_basic(5) [of P A st W]] by auto
qed

lemma convertToRangesList_kept:
  assumes "convertToRangesList DIE Ranges P st = Some st'"
  shows "OthersKept P A st st'"
proof -
  from assms obtain off W where
    c: "convertToRangesOffset DIE off P None (st\<lparr>RangesSectionWriter := W\<rparr>) = Some st'"
    unfolding convertToRangesList_def by (auto split: prod.splits)
  from convertToRangesOffset_kept [OF c, of A]
  show ?thesis using OthersKept_trans [OF OthersKept_basic(5) [of P A st W]] by auto
qed

lemma convertPendingPairs_kept:
  "convertPendingPairs es P st = Some st' \<Longrightarrow> OthersKept P A st st'"
proof (induction es arbitrary: st)
  case Nil
  then show ?case by (simp add: OthersKept_refl)
next
  case (Cons e es)
  obtain DIE R where e: "e = (DIE, R)" by (cases e)
  from Cons.prems e obtain st1 where c: "convertToRangesList DIE [R] P st = Some st1"
    and r: "convertPendingPairs es P st1 = Some st'"
    by (auto split: option.splits)
  show ?case
    using OthersKept_trans [OF convertToRangesList_kept [OF c] Cons.IH [OF r]] .
qed

lemma convertPending_kept:
  assumes "convertPending A Abbrev P st = Some st'"
  shows "OthersKept P A st st'"
proof (cases "AbbrevId Abbrev \<in> ConvertedRangesAbbrevs st")
  case True
  with assms show ?thesis by (simp add: convertPending_def OthersKept_refl)
next
  case False
  with assms obtain st1 st2 where a: "convertToRangesAbbrev A Abbrev None st = Some st1"
    and b: "(case map_of (PendingRanges st1) (AbbrevId Abbrev) of
                     None \<Rightarrow> Some st1
                   | Some Pairs \<Rightarrow>
                       map_option
                         (\<lambda>st'. st'\<lparr>PendingRanges :=
                                      PendingRanges_erase (AbbrevId Abbrev) (PendingRanges st')\<rparr>)
                         (convertPendingPairs Pairs P st1)) = Some st2"
    and c: "st' = st2\<lparr>ConvertedRangesAbbrevs :=
                             insert (AbbrevId Abbrev) (ConvertedRangesAbbrevs st2)\<rparr>"
    by (auto simp add: convertPending_def split: option.splits)
  have k1: "OthersKept P A st st1" using convertToRangesAbbrev_kept [OF a] by simp
  have k2: "OthersKept P A st1 st2"
  proof (cases "map_of (PendingRanges st1) (AbbrevId Abbrev)")
    case None
    with b show ?thesis by (simp add: OthersKept_refl)
  next
    case (Some Pairs)
    with b obtain st3 where p: "convertPendingPairs Pairs P st1 = Some st3"
      and e: "st2 = st3\<lparr>PendingRanges := PendingRanges_erase (AbbrevId Abbrev) (PendingRanges st3)\<rparr>"
      by auto
    show ?thesis unfolding e
      using OthersKept_trans [OF convertPendingPairs_kept [OF p] OthersKept_basic(7)] .
  qed
  have k3: "OthersKept P A st2 st'" unfolding c by (rule OthersKept_basic)
  show ?thesis using OthersKept_trans [OF OthersKept_trans [OF k1 k2] k3] .
qed

lemma addToPendingRanges_kept:
  "addToPendingRanges Abbrev DIE FR DWOId st = Some st' \<Longrightarrow> OthersKept P A st st'"
  unfolding addToPendingRanges_def Let_def
  by (auto simp add: OthersKept_def split: option.splits if_splits list.splits)

lemma updateSubprogram_kept:
  assumes "updateSubprogram BC opts Unit P A DIE (C, st) = Some (C', st')"
  shows "OthersKept P A st st'"
proof -
  let ?a = "(case getLowAndHighPC DIE of
              Some Address \<Rightarrow> Some (Address, False)
            | None \<Rightarrow>
                (case getAddressRanges DIE of
                   None \<Rightarrow> None
                 | Some Ranges \<Rightarrow>
                     (case Ranges of
                        [] \<Rightarrow> None
                      | front # rest \<Rightarrow> Some (LowPC front, True))))"
  show ?thesis
  proof (cases ?a)
    case None
    with assms show ?thesis by (simp add: updateSubprogram_def OthersKept_refl)
  next
    case (Some au)
    obtain Address UsesRanges where au: "au = (Address, UsesRanges)" by (cases au)
    let ?FR = "(case getBinaryFunctionAtAddress BC Address of
                   Some Function \<Rightarrow> getOutputAddressRanges Function
                 | None \<Rightarrow> [])"
    show ?thesis
    proof (cases UsesRanges)
      case True
      with assms Some au obtain off W where
        u: "updateDWARFObjectAddressRanges opts DIE off P A None (st\<lparr>RangesSectionWriter := W\<rparr>) = Some st'"
        by (auto simp add: updateSubprogram_def Let_def split: prod.splits)
      from updateDWARFObjectAddressRanges_kept [OF u]
      show ?thesis using OthersKept_trans [OF OthersKept_basic(5) [of P A st W]] by auto
    next
      case False
      with assms Some au obtain Abbrev where ab: "getAbbreviationDeclarationPtr DIE = Some Abbrev"
        and r: "(if length ?FR > 1 then
                        (case convertPending A Abbrev P st of
                           None \<Rightarrow> None
                         | Some st1 \<Rightarrow> convertToRangesList DIE ?FR P st1)
                      else if AbbrevId Abbrev \<in> ConvertedRangesAbbrevs st then
                        convertToRangesList DIE ?FR P st
                      else
                        addToPendingRanges Abbrev DIE
                          (if ?FR = [] then [DebugAddressRange_default] else ?FR)
                          (getDWOId Unit) st) = Some st'"
        by (auto simp add: updateSubprogram_def Let_def split: option.splits)
      show ?thesis
      proof (cases "length ?FR > 1")
        case True
        with r obtain st1 where c1: "convertPending A Abbrev P st = Some st1"
          and c2: "convertToRangesList DIE ?FR P st1 = Some st'"
          by (auto split: option.splits)
        show ?thesis
          using OthersKept_trans [OF convertPending_kept [OF c1] convertToRangesList_kept [OF c2]] .
      next
        case nl: False
        show ?thesis
        proof (cases "AbbrevId Abbrev \<in> ConvertedRangesAbbrevs st")
          case True
          with r nl have "convertToRangesList DIE ?FR P st = Some st'" by simp
          then show ?thesis by (rule convertToRangesList_kept)
        next
          case False
          with r nl have "addToPendingRanges Abbrev DIE
                          (if ?FR = [] then [DebugAddressRange_default] else ?FR)
                          (getDWOId Unit) st = Some st'" by simp
          then show ?thesis by (rule addToPendingRanges_kept)
        qed
      qed
    qed
  qed
qed

lemma updateCompileUnit_kept:
  assumes "updateCompileUnit BC opts Unit P A RB DIE st = Some st'"
  shows "OthersKept P A st st'"
proof (cases "getAddressRanges DIE")
  case None
  with assms show ?thesis by (simp add: updateCompileUnit_def OthersKept_refl)
next
  case (Some MR)
  with assms obtain off st2 where
    u: "updateDWARFObjectAddressRanges opts DIE off P A RB st2 = Some st'"
    and k: "OthersKept P A st st2"
    by (auto simp add: updateCompileUnit_def Let_def OthersKept_def split: prod.splits if_splits)
  from updateDWARFObjectAddressRanges_kept [OF u] k
  show ?thesis using OthersKept_trans by blast
qed

lemma recordLocListPatch_kept: "OthersKept P A st (recordLocListPatch CUIdx Unit P off x st)"
  by (auto simp add: recordLocListPatch_def Let_def OthersKept_def addPatch_def split: option.splits)

lemma updateOther_kept:
  assumes "updateOther BC opts encode CUIdx Unit P DIE st = Some st'"
  shows "OthersKept P A st st'"
  using assms unfolding updateOther_def Let_def
  by (auto simp add: OthersKept_basic OthersKept_refl recordLocListPatch_kept
      intro: OthersKept_trans [OF OthersKept_basic(1) recordLocListPatch_kept]
             OthersKept_trans [OF OthersKept_basic(10) recordLocListPatch_kept]
      split: option.splits if_splits list.splits prod.splits)

lemma updateDIE_kept:
  assumes "updateDIE BC opts encode CUIdx Unit P A RB DIE (C, st) = Some (C', st')"
  shows "OthersKept P A st st'"
  using assms unfolding updateDIE_def
  by (auto split: Tag.splits dest: updateCompileUnit_kept updateSubprogram_kept updateBlock_kept
      updateOther_kept)

lemma walkEntries_kept:
  "walkEntries BC opts encode CUIdx Unit P A RB Dies Depth off (C, st) = Some (off', st')
     \<Longrightarrow> OthersKept P A st st'"
proof (induction Dies arbitrary: Depth off C st)
  case Nil
  then show ?case by (simp add: OthersKept_refl)
next
  case (Cons Die Dies)
  show ?case
  proof (cases "\<not> off < getNextUnitOffset Unit")
    case True
    with Cons.prems show ?thesis by (simp add: OthersKept_refl)
  next
    case False
    let ?D = "(case getAbbreviationDeclarationPtr Die of
                        Some AbbrDecl \<Rightarrow> if hasChildren AbbrDecl then Depth + 1 else Depth
                      | None \<Rightarrow> Depth - 1)"
    show ?thesis
    proof (cases "getAbbreviationDeclarationPtr Die = None \<and> ?D = 0")
      case True
      with Cons.prems False show ?thesis
        by (auto simp add: OthersKept_refl Let_def split: if_splits)
    next
      case nz: False
      with Cons.prems False obtain C1 st1 where
        u: "updateDIE BC opts encode CUIdx Unit P A RB Die (C, st) = Some (C1, st1)"
        and w: "walkEntries BC opts encode CUIdx Unit P A RB Dies ?D (NextOffset Die) (C1, st1)
                  = Some (off', st')"
        by (auto simp add: Let_def split: option.splits)
      show ?thesis using OthersKept_trans [OF updateDIE_kept [OF u] Cons.IH [OF w]] .
    qed
  qed
qed

lemma updateUnitDebugInfo_kept:
  assumes "updateUnitDebugInfo BC opts encode CUIdx Unit P A RB st = Some st'"
  shows "OthersKept P A st st'"
proof -
  from assms obtain off st1 where
    w: "walkEntries BC opts encode CUIdx Unit P A RB (Entries Unit) 0
             (getUnitOffset Unit + getHeaderSize Unit) (Map.empty, st) = Some (off, st1)"
    and k: "OthersKept P A st1 st'"
    by (auto simp add: updateUnitDebugInfo_def Let_def OthersKept_def errs_def
        split: option.splits prod.splits)
  show ?thesis using OthersKept_trans [OF walkEntries_kept [OF w] k] .
qed

lemma updateSubprogram_resets_cache:
  assumes "updateSubprogram BC opts Unit P A DIE (C, st) = Some (C', st')"
    and "getLowAndHighPC DIE \<noteq> None"
  shows "C' = Map.empty"
  using assms unfolding updateSubprogram_def Let_def
  by (auto split: option.splits)

text \<open>
  Claim C5. Within one cache scope, which starts from an empty cache, two additions through
  the cache return the same offset when the lists are equal and distinct offsets when they
  differ. A list found in the cache is not stored again, and the walk leaves every
  subprogram DIE with a low-pc/high-pc pair with an empty cache.
\<close>

theorem cached_add_ranges_offsets:
  assumes "EmptyRangesOffset W < SectionOffset W"
    and "i < j" and "j < length evs"
    and "evs ! i = CachedAdd L1" and "evs ! j = CachedAdd L2"
  shows "(L1 = L2 \<longrightarrow> addRangesScope evs Map.empty W ! i = addRangesScope evs Map.empty W ! j)
       \<and> (L1 \<noteq> L2 \<longrightarrow> addRangesScope evs Map.empty W ! i \<noteq> addRangesScope evs Map.empty W ! j)
       \<and> (\<forall>C W' off. C L1 = Some off \<longrightarrow> L1 \<noteq> [] \<longrightarrow> addRangesCached L1 C W' = (off, C, W'))
       \<and> (\<forall>BC opts Unit P A DIE C st C' st'.
            updateSubprogram BC opts Unit P A DIE (C, st) = Some (C', st')
            \<longrightarrow> getLowAndHighPC DIE \<noteq> None \<longrightarrow> C' = Map.empty)"
proof -
  have inv: "CacheInv Map.empty W" by (rule CacheInv_empty [OF assms(1)])
  have "addRangesScope evs Map.empty W ! i = addRangesScope evs Map.empty W ! j \<longleftrightarrow> L1 = L2"
    by (rule scope_offsets [OF inv assms(2-5)])
  moreover have "\<forall>C W' off. C L1 = Some off \<longrightarrow> L1 \<noteq> [] \<longrightarrow> addRangesCached L1 C W' = (off, C, W')"
    by (simp add: addRangesCached_def)
  moreover have "\<forall>BC opts Unit P A DIE C st C' st'.
            updateSubprogram BC opts Unit P A DIE (C, st) = Some (C', st')
            \<longrightarrow> getLowAndHighPC DIE \<noteq> None \<longrightarrow> C' = Map.empty"
    using updateSubprogram_resets_cache by blast
  ultimately show ?thesis by blast
qed

section \<open>Blocks without output ranges\<close>

lemma updateBlock_empty_offset:
  assumes "case getAddressRanges DIE of
             Some (front # rest) \<Rightarrow>
               (case getBinaryFunctionContainingAddress BC (LowPC front) of
                  Some Function \<Rightarrow> translateInputToOutputRanges Function (front # rest) = []
                | None \<Rightarrow> True)
           | _ \<Rightarrow> True"
  shows "updateBlock BC opts P A DIE (C, st) =
           map_option (Pair C)
             (updateDWARFObjectAddressRanges opts DIE
                (getEmptyRangesOffset (RangesSectionWriter st)) P A None st)"
proof (cases "getAddressRanges DIE")
  case None
  then show ?thesis by (simp add: updateBlock_def)
next
  case (Some Ranges)
  show ?thesis
  proof (cases Ranges)
    case Nil
    with Some show ?thesis by (simp add: updateBlock_def)
  next
    case (Cons front rest)
    show ?thesis
    proof (cases "getBinaryFunctionContainingAddress BC (LowPC front)")
      case None
      with Some Cons show ?thesis by (simp add: updateBlock_def)
    next
      case (Some Function)
      with assms \<open>getAddressRanges DIE = Some Ranges\<close> Cons
      have "translateInputToOutputRanges Function (front # rest) = []" by simp
      with Some \<open>getAddressRanges DIE = Some Ranges\<close> Cons show ?thesis
        by (simp add: updateBlock_def addRangesCached_def)
    qed
  qed
qed

text \<open>
  Claim C9. Take a lexical block, inlined subroutine, try block or catch block DIE whose
  output ranges are empty: it has no address ranges, or no function contains its first
  range, or the function translates its ranges to the empty list. The DIE has a
  \<^verbatim>\<open>DW_AT_ranges\<close> attribute, or else a low-pc/high-pc pair. Then the walk patches the ranges
  attribute (for a pair: the four bytes that end the two fields, the declaration being
  turned to \<^verbatim>\<open>DW_AT_ranges\<close>) with the reserved offset of the empty list, relative to the
  ranges base of the patcher where one applies; nothing is added to the ranges section; and
  the DIE is neither deferred as pending nor patched as a low-pc/high-pc pair. No DIE of
  these tags, whatever its ranges, adds or removes a pending entry.
\<close>

theorem empty_block_ranges_point_at_empty_offset:
  assumes em: "case getAddressRanges DIE of
             Some (front # rest) \<Rightarrow>
               (case getBinaryFunctionContainingAddress BC (LowPC front) of
                  Some Function \<Rightarrow> translateInputToOutputRanges Function (front # rest) = []
                | None \<Rightarrow> True)
           | _ \<Rightarrow> True"
    and ab: "getAbbreviationDeclarationPtr DIE = Some Abbrev"
    and rg: "findAttributeIndex Abbrev DW_AT_ranges \<longrightarrow> findAttributeInfo DIE DW_AT_ranges = Some r"
    and lh: "\<not> findAttributeIndex Abbrev DW_AT_ranges \<longrightarrow>
               map_of (AttributeSpecs Abbrev) DW_AT_low_pc = Some lf
             \<and> map_of (AttributeSpecs Abbrev) DW_AT_high_pc = Some hf
             \<and> findAttributeInfo DIE DW_AT_low_pc = Some l
             \<and> findAttributeInfo DIE DW_AT_high_pc = Some h
             \<and> (isHighPcFormEightBytes (getForm (V h)) \<or> getForm (V h) = DW_FORM_data4)"
  shows "\<exists>st' ps. updateBlock BC opts P A DIE (C, st) = Some (C, st')
     \<and> RangesSectionWriter st' = RangesSectionWriter st
     \<and> PendingRanges st' = PendingRanges st
     \<and> ConvertedRangesAbbrevs st' = ConvertedRangesAbbrevs st
     \<and> Patches (DebugInfoPatchers st' P) =
          Patches (DebugInfoPatchers st P) @ ps
          @ [LE32Patch
               (if findAttributeIndex Abbrev DW_AT_ranges then Offset r
                else Offset h + NumBytesToFill (getForm (V h)) - 8)
               (of_nat (EmptyRangesOffset (RangesSectionWriter st))
                - of_nat (if findAttributeIndex Abbrev DW_AT_ranges
                             \<or> getForm (V l) = DW_FORM_GNU_addr_index
                          then RangeBase (DebugInfoPatchers st P) else 0))]
     \<and> (\<not> findAttributeIndex Abbrev DW_AT_ranges \<longrightarrow>
          filter (\<lambda>p. PatchAbbrev p = AbbrevId Abbrev \<and> AttrTag p = DW_AT_high_pc) (AbbrevWriters st' A)
          = filter (\<lambda>p. PatchAbbrev p = AbbrevId Abbrev \<and> AttrTag p = DW_AT_high_pc) (AbbrevWriters st A)
            @ [\<lparr>PatchAbbrev = AbbrevId Abbrev, AttrTag = DW_AT_high_pc, NewAttrTag = DW_AT_ranges,
                NewAttrForm = DW_FORM_sec_offset\<rparr>])
     \<and> (\<forall>DIE' C0 st0 C1 st1.
          updateBlock BC opts P A DIE' (C0, st0) = Some (C1, st1) \<longrightarrow>
          PendingRanges st1 = PendingRanges st0)"
proof -
  have np: "\<forall>DIE' C0 st0 C1 st1.
          updateBlock BC opts P A DIE' (C0, st0) = Some (C1, st1) \<longrightarrow>
          PendingRanges st1 = PendingRanges st0"
    using updateBlock_kept by blast
  show ?thesis
  proof (cases "findAttributeIndex Abbrev DW_AT_ranges")
  case True
  with rg have r: "findAttributeInfo DIE DW_AT_ranges = Some r" by simp
  let ?st' = "addPatch P (LE32Patch (Offset r)
                 (of_nat (getEmptyRangesOffset (RangesSectionWriter st))
                  - of_nat (RangeBase (DebugInfoPatchers st P))))
               (snd (getRangeBase P st))"
  have u: "updateDWARFObjectAddressRanges opts DIE (getEmptyRangesOffset (RangesSectionWriter st))
             P A None st = Some ?st'"
    using ab True r by (simp add: updateDWARFObjectAddressRanges_def getRangeBase_def Let_def)
  have "updateBlock BC opts P A DIE (C, st) = Some (C, ?st')"
    unfolding updateBlock_empty_offset [OF em] u by simp
  moreover have "RangesSectionWriter ?st' = RangesSectionWriter st"
    "PendingRanges ?st' = PendingRanges st"
    "ConvertedRangesAbbrevs ?st' = ConvertedRangesAbbrevs st"
    "Patches (DebugInfoPatchers ?st' P) =
          Patches (DebugInfoPatchers st P) @ []
          @ [LE32Patch (Offset r)
               (of_nat (getEmptyRangesOffset (RangesSectionWriter st))
                - of_nat (RangeBase (DebugInfoPatchers st P)))]"
    by (simp_all add: addPatch_def getRangeBase_def)
  ultimately show ?thesis using True np
    by (intro exI [of _ ?st'] exI [of _ "[]"]) (simp add: getEmptyRangesOffset_def)
next
  case False
  with lh have sl: "map_of (AttributeSpecs Abbrev) DW_AT_low_pc = Some lf"
    and sh: "map_of (AttributeSpecs Abbrev) DW_AT_high_pc = Some hf"
    and lo: "findAttributeInfo DIE DW_AT_low_pc = Some l"
    and hi: "findAttributeInfo DIE DW_AT_high_pc = Some h"
    and hform: "isHighPcFormEightBytes (getForm (V h)) \<or> getForm (V h) = DW_FORM_data4"
    by simp_all
  let ?f = "filter (\<lambda>p. PatchAbbrev p = AbbrevId Abbrev \<and> AttrTag p = DW_AT_high_pc)"
  let ?E = "getEmptyRangesOffset (RangesSectionWriter st)"
  obtain sta where a: "convertToRangesAbbrev A Abbrev None st = Some sta"
    and af: "?f (AbbrevWriters sta A) = ?f (AbbrevWriters st A)
           @ [\<lparr>PatchAbbrev = AbbrevId Abbrev, AttrTag = DW_AT_high_pc, NewAttrTag = DW_AT_ranges,
               NewAttrForm = DW_FORM_sec_offset\<rparr>]"
    and aa: "DebugInfoPatchers sta = DebugInfoPatchers st"
      "ConvertedRangesAbbrevs sta = ConvertedRangesAbbrevs st"
      "PendingRanges sta = PendingRanges st"
      "RangesSectionWriter sta = RangesSectionWriter st"
    using convertToRangesAbbrev_Some [OF sl sh, of A st] by blast
  obtain st' ps where b: "convertToRangesOffset DIE ?E P None sta = Some st'"
    and bp: "Patches (DebugInfoPatchers st' P) =
          Patches (DebugInfoPatchers sta P) @ ps
          @ [LE32Patch (Offset h + NumBytesToFill (getForm (V h)) - 8)
               (of_nat ?E - of_nat (if getForm (V l) = DW_FORM_GNU_addr_index
                                      then RangeBase (DebugInfoPatchers sta P) else 0))]"
    and bb: "AbbrevWriters st' = AbbrevWriters sta"
      "ConvertedRangesAbbrevs st' = ConvertedRangesAbbrevs sta"
      "PendingRanges st' = PendingRanges sta"
      "RangesSectionWriter st' = RangesSectionWriter sta"
    using convertToRangesOffset_Some [OF lo hi hform, of ?E P sta] by blast
  have fi: "findAttributeIndex Abbrev DW_AT_low_pc" "findAttributeIndex Abbrev DW_AT_high_pc"
    using sl sh by (simp_all add: findAttributeIndex_def)
  have u: "updateDWARFObjectAddressRanges opts DIE ?E P A None st = Some st'"
    using ab False fi a b by (simp add: updateDWARFObjectAddressRanges_def)
  have "updateBlock BC opts P A DIE (C, st) = Some (C, st')"
    unfolding updateBlock_empty_offset [OF em] u by simp
  then show ?thesis
    using False bp bb aa af np
    by (intro exI [of _ st'] exI [of _ ps]) (simp add: getEmptyRangesOffset_def)
qed
qed

section \<open>Patches preserve the length of a section\<close>

lemma length_uleb128: "length (uleb128 v n) = n"
  by (simp add: uleb128_def)

lemma length_PatchBytes:
  "length (PatchBytes (LE32Patch off v)) = 4"
  "length (PatchBytes (LE64Patch off w)) = 8"
  "length (PatchBytes (UDataPatch off w n)) = n"
  by (simp_all add: PatchBytes_def length_le_bytes length_uleb128)

lemma PatchSpan_simps:
  "PatchSpan (LE32Patch off v) = {off ..< off + 4}"
  "PatchSpan (LE64Patch off w) = {off ..< off + 8}"
  "PatchSpan (UDataPatch off w n) = {off ..< off + n}"
  by (simp_all add: PatchSpan_def PatchOffset_def length_PatchBytes)

lemma length_writeBytes: "length (writeBytes pos bs data) = length data"
  by (induction bs arbitrary: pos data) auto

lemma writeBytes_nth:
  "i < length data \<Longrightarrow> i \<notin> {pos ..< pos + length bs} \<Longrightarrow> writeBytes pos bs data ! i = data ! i"
proof (induction bs arbitrary: pos data)
  case Nil
  then show ?case by simp
next
  case (Cons b bs)
  let ?d = "if pos < length data then data[pos := b] else data"
  have l: "length ?d = length data" by simp
  have n: "i \<notin> {pos + 1 ..< pos + 1 + length bs}" using Cons.prems(2) by auto
  have "writeBytes (pos + 1) bs ?d ! i = ?d ! i"
    using Cons.IH [of ?d "pos + 1"] Cons.prems(1) n l by simp
  moreover have "?d ! i = data ! i" using Cons.prems(2) by auto
  ultimately show ?case by simp
qed

lemma length_patchBinary: "length (patchBinary ps data DWPOffset) = length data"
  unfolding patchBinary_def
  by (induction ps arbitrary: data) (simp_all add: length_writeBytes)

lemma patchBinary_nth:
  "i < length data \<Longrightarrow> DWPOffset + i \<notin> PatchedOffsets ps \<Longrightarrow>
     patchBinary ps data DWPOffset ! i = data ! i"
proof (induction ps arbitrary: data)
  case Nil
  then show ?case by (simp add: patchBinary_def)
next
  case (Cons p ps)
  let ?d = "if DWPOffset \<le> PatchOffset p
            then writeBytes (PatchOffset p - DWPOffset) (PatchBytes p) data else data"
  have l: "length ?d = length data" by (simp add: length_writeBytes)
  have np: "DWPOffset + i \<notin> PatchSpan p" and nps: "DWPOffset + i \<notin> PatchedOffsets ps"
    using Cons.prems(2) by (simp_all add: PatchedOffsets_def)
  have "?d ! i = data ! i"
  proof (cases "DWPOffset \<le> PatchOffset p")
    case True
    have "i \<notin> {PatchOffset p - DWPOffset ..< PatchOffset p - DWPOffset + length (PatchBytes p)}"
      using np True by (auto simp: PatchSpan_def)
    then show ?thesis using True Cons.prems(1) by (simp add: writeBytes_nth)
  next
    case False
    then show ?thesis by simp
  qed
  moreover have "patchBinary ps ?d DWPOffset ! i = ?d ! i"
    using Cons.IH [of ?d] Cons.prems(1) nps l by simp
  moreover have "patchBinary (p # ps) data DWPOffset = patchBinary ps ?d DWPOffset"
    by (simp add: patchBinary_def)
  ultimately show ?case by simp
qed

lemma convertToRangesOffset_fills:
  assumes lo: "findAttributeInfo DIE DW_AT_low_pc = Some l"
    and hi: "findAttributeInfo DIE DW_AT_high_pc = Some h"
    and hf: "isHighPcFormEightBytes (getForm (V h)) \<or> getForm (V h) = DW_FORM_data4"
    and adj: "if getForm (V l) = DW_FORM_GNU_addr_index
              then Offset l \<le> Offset h \<and> Offset h - Offset l < 2 ^ 31
              else Offset h = Offset l + 8"
  shows "\<exists>st' new. convertToRangesOffset DIE off P RangesBase st = Some st'
     \<and> Patches (DebugInfoPatchers st' P) = Patches (DebugInfoPatchers st P) @ new
     \<and> PatchedOffsets new = {Offset l ..< Offset h + HighPCFieldWidth (getForm (V h))}
     \<and> sum_list (map (\<lambda>p. length (PatchBytes p)) new)
         = Offset h - Offset l + HighPCFieldWidth (getForm (V h))"
proof -
  obtain st1 where g: "getRangeAttrData DIE st = Some ((Offset l, Offset h, getForm (V l), getForm (V h)), st1)"
    and f: "DebugInfoPatchers st1 = DebugInfoPatchers st"
    by (rule getRangeAttrData_Some [OF lo hi])
  show ?thesis
  proof (cases "getForm (V l) = DW_FORM_GNU_addr_index")
    case True
    with adj have a: "absIntDiff (Offset h) (Offset l) = Offset h - Offset l" "Offset l \<le> Offset h"
      by (simp_all add: absIntDiff_eq)
    show ?thesis using True g hf f a
      by (auto simp add: convertToRangesOffset_def Let_def getRangeBase_def addPatch_def
          HighPCFieldWidth_def PatchedOffsets_def PatchSpan_simps length_PatchBytes)
  next
    case False
    with adj have a: "Offset h = Offset l + 8" by simp
    show ?thesis
    proof (cases RangesBase)
      case None
      then show ?thesis using False g hf f a
        by (auto simp add: convertToRangesOffset_def Let_def addPatch_def
            HighPCFieldWidth_def PatchedOffsets_def PatchSpan_simps length_PatchBytes)
    next
      case (Some b)
      then show ?thesis using False g hf f a
        by (auto simp add: convertToRangesOffset_def Let_def addPatch_def
            HighPCFieldWidth_def PatchedOffsets_def PatchSpan_simps length_PatchBytes)
    qed
  qed
qed

text \<open>
  Claim C6, amended. Converting a DIE from a low-pc/high-pc pair to a ranges attribute emits
  patches that cover exactly the bytes from the start of low-pc to the end of high-pc, each
  byte once. This is 12 bytes for a 4-byte and 16 bytes for an 8-byte high-pc when low-pc is
  an 8-byte address immediately followed by high-pc; when low-pc is an index into the
  address table, it is the distance from low-pc to high-pc plus the 4 or 8 bytes of high-pc.
  Applying the patch list of the patcher to section bytes leaves their length unchanged and
  changes no byte outside the patched offsets.
\<close>

theorem conversion_patches_fill_fields:
  assumes lo: "findAttributeInfo DIE DW_AT_low_pc = Some l"
    and hi: "findAttributeInfo DIE DW_AT_high_pc = Some h"
    and hf: "isHighPcFormEightBytes (getForm (V h)) \<or> getForm (V h) = DW_FORM_data4"
    and adj: "if getForm (V l) = DW_FORM_GNU_addr_index
              then Offset l \<le> Offset h \<and> Offset h - Offset l < 2 ^ 31
              else Offset h = Offset l + 8"
  shows "\<exists>st' new. convertToRangesOffset DIE off P RangesBase st = Some st'
     \<and> Patches (DebugInfoPatchers st' P) = Patches (DebugInfoPatchers st P) @ new
     \<and> PatchedOffsets new = {Offset l ..< Offset h + HighPCFieldWidth (getForm (V h))}
     \<and> sum_list (map (\<lambda>p. length (PatchBytes p)) new)
         = Offset h - Offset l + HighPCFieldWidth (getForm (V h))
     \<and> (getForm (V l) \<noteq> DW_FORM_GNU_addr_index \<longrightarrow>
          card (PatchedOffsets new) = (if isHighPcFormEightBytes (getForm (V h)) then 16 else 12))
     \<and> (\<forall>Data DWPOffset.
          length (applyPatch (DebugInfoPatchers st' P) Data DWPOffset) = length Data
          \<and> (\<forall>i < length Data.
                DWPOffset + i \<notin> PatchedOffsets (Patches (DebugInfoPatchers st' P)) \<longrightarrow>
                applyPatch (DebugInfoPatchers st' P) Data DWPOffset ! i = Data ! i))"
proof -
  obtain st' new where c: "convertToRangesOffset DIE off P RangesBase st = Some st'"
    and p: "Patches (DebugInfoPatchers st' P) = Patches (DebugInfoPatchers st P) @ new"
    and o: "PatchedOffsets new = {Offset l ..< Offset h + HighPCFieldWidth (getForm (V h))}"
    and s: "sum_list (map (\<lambda>p. length (PatchBytes p)) new)
         = Offset h - Offset l + HighPCFieldWidth (getForm (V h))"
    using convertToRangesOffset_fills [OF lo hi hf adj, of off P RangesBase st] by blast
  have k: "getForm (V l) \<noteq> DW_FORM_GNU_addr_index \<longrightarrow>
          card (PatchedOffsets new) = (if isHighPcFormEightBytes (getForm (V h)) then 16 else 12)"
    using adj unfolding o by (auto simp add: HighPCFieldWidth_def)
  have a: "\<forall>Data DWPOffset.
          length (applyPatch (DebugInfoPatchers st' P) Data DWPOffset) = length Data
          \<and> (\<forall>i < length Data.
                DWPOffset + i \<notin> PatchedOffsets (Patches (DebugInfoPatchers st' P)) \<longrightarrow>
                applyPatch (DebugInfoPatchers st' P) Data DWPOffset ! i = Data ! i)"
    by (simp add: applyPatch_def length_patchBinary patchBinary_nth)
  show ?thesis using c p o s k a by blast
qed

section \<open>The properties on the example inputs\<close>

lemma exSubprogram_attrs:
  "getAbbreviationDeclarationPtr (exSubprogram off a) = Some exSubprogramAbbrev"
  "findAttributeInfo (exSubprogram off a) DW_AT_low_pc = Some (exAttr DW_FORM_addr a (Some a) (off + 1))"
  "findAttributeInfo (exSubprogram off a) DW_AT_high_pc = Some (exAttr DW_FORM_data4 16 None (off + 9))"
  "getLowAndHighPC (exSubprogram off a) = Some a"
  "map_of (AttributeSpecs exSubprogramAbbrev) DW_AT_low_pc = Some DW_FORM_addr"
  "map_of (AttributeSpecs exSubprogramAbbrev) DW_AT_high_pc = Some DW_FORM_data4"
  "AbbrevId exSubprogramAbbrev = 1"
  by (simp_all add: exSubprogram_def exSubprogramAbbrev_def findAttributeInfo_def
      findAttributeIndex_def getLowAndHighPC_def exAttr_def isFormClassConstant_def)

lemma exIndexedSubprogram_attrs:
  "getAbbreviationDeclarationPtr (exIndexedSubprogram off i a) = Some exIndexedAbbrev"
  "findAttributeInfo (exIndexedSubprogram off i a) DW_AT_low_pc
     = Some (exAttr DW_FORM_GNU_addr_index i (Some a) (off + 1))"
  "findAttributeInfo (exIndexedSubprogram off i a) DW_AT_high_pc
     = Some (exAttr DW_FORM_data4 16 None (off + 2))"
  "getLowAndHighPC (exIndexedSubprogram off i a) = Some a"
  "UnitDWOId (exIndexedSubprogram off i a) = Some 7" "UnitIsDWO (exIndexedSubprogram off i a)"
  "map_of (AttributeSpecs exIndexedAbbrev) DW_AT_low_pc = Some DW_FORM_GNU_addr_index"
  "map_of (AttributeSpecs exIndexedAbbrev) DW_AT_high_pc = Some DW_FORM_data4"
  "AbbrevId exIndexedAbbrev = 2"
  by (simp_all add: exIndexedSubprogram_def exIndexedAbbrev_def findAttributeInfo_def
      findAttributeIndex_def getLowAndHighPC_def exAttr_def isFormClassConstant_def)

lemma exAttr_simps:
  "getForm (V (exAttr f raw addr off)) = f" "Offset (exAttr f raw addr off) = off"
  "getRawUValue (V (exAttr f raw addr off)) = raw"
  by (simp_all add: exAttr_def)

lemma freshRewriter_simps:
  "ConvertedRangesAbbrevs freshRewriter = {}" "PendingRanges freshRewriter = []"
  "Patches (DebugInfoPatchers freshRewriter P) = []"
  "RangeBase (DebugInfoPatchers freshRewriter P) = 0"
  "AbbrevWriters freshRewriter A = []"
  "RangesSectionWriter freshRewriter = \<lparr>EmptyRangesOffset = 0, SectionOffset = 16, RangeLists = []\<rparr>"
  "AddrWriter freshRewriter d = []" "Diags freshRewriter = []"
  by (simp_all add: freshRewriter_def SimpleBinaryPatcher_new_def)

text \<open>
  Claim C10 on a subprogram at \<open>0x3000\<close>, where the binary has no function: the entry
  recorded holds the zero range and the flush writes \<open>0\<close> into both fields.
\<close>

theorem pending_entry_has_one_range_witness:
  "\<exists>st' st''. updateSubprogram exBC exOpts (exUnit None [exSubprogram 50 0x3000]) MainBinary MainBinary
                 (exSubprogram 50 0x3000) (Map.empty, freshRewriter) = Some (Map.empty, st')
     \<and> PendingRanges st' = [(1, [(exSubprogram 50 0x3000, \<lparr>LowPC = 0, HighPC = 0\<rparr>)])]
     \<and> flushPendingRanges MainBinary st' = Some st''
     \<and> PendingRanges st'' = []
     \<and> Patches (DebugInfoPatchers st'' MainBinary) = [LE64Patch 51 0, LE32Patch 59 0]"
  using pending_entry_has_one_range [where DIE = "exSubprogram 50 0x3000" and Address = "0x3000"
      and Abbrev = exSubprogramAbbrev and st = freshRewriter
      and l = "exAttr DW_FORM_addr 0x3000 (Some 0x3000) 51"
      and h = "exAttr DW_FORM_data4 16 None 59"
      and Unit = "exUnit None [exSubprogram 50 0x3000]" and FR = "[]" and BC = exBC
      and opts = exOpts and P = MainBinary and A = MainBinary and CachedRanges = Map.empty]
  by (simp add: exSubprogram_attrs exAttr_simps freshRewriter_simps exBC_def exFunctionAt_def
      isHighPcFormEightBytes_def) blast

lemma exFunctionAt_simps:
  "getOutputAddressRanges (exFunction Ranges) = Ranges"
  "translateInputToOutputRanges (exFunction Ranges) In = []"
  "getBinaryFunctionAtAddress exBC = exFunctionAt"
  "getBinaryFunctionContainingAddress exBC = exFunctionAt"
  "exFunctionAt 0x1000 = Some (exFunction [\<lparr>LowPC = 0x5000, HighPC = 0x5010\<rparr>])"
  "exFunctionAt 0x2000 = Some (exFunction [\<lparr>LowPC = 0x6000, HighPC = 0x6008\<rparr>,
                             \<lparr>LowPC = 0x7000, HighPC = 0x7004\<rparr>, \<lparr>LowPC = 0x8000, HighPC = 0x8004\<rparr>])"
  "exFunctionAt 0x3000 = None"
  by (simp_all add: exFunction_def exBC_def exFunctionAt_def)

text \<open>
  Claim C1 on two subprograms at offsets 11 and 30 of a unit: the lists are stored at offsets
  16 and 48 of the ranges section.
\<close>

theorem shared_declaration_converted_once_witness:
  "\<exists>st1 st2 ps1 ps2.
      updateSubprogram exBC exOpts (exUnit None []) MainBinary MainBinary (exSubprogram 11 0x1000)
        (Map.empty, freshRewriter) = Some (Map.empty, st1)
    \<and> map_of (PendingRanges st1) 1
        = Some [(exSubprogram 11 0x1000, \<lparr>LowPC = 0x5000, HighPC = 0x5010\<rparr>)]
    \<and> updateSubprogram exBC exOpts (exUnit None []) MainBinary MainBinary (exSubprogram 30 0x2000)
        (Map.empty, st1) = Some (Map.empty, st2)
    \<and> 1 \<in> ConvertedRangesAbbrevs st2
    \<and> map_of (PendingRanges st2) 1 = None
    \<and> filter (\<lambda>p. PatchAbbrev p = 1 \<and> AttrTag p = DW_AT_high_pc) (AbbrevWriters st2 MainBinary)
       = [\<lparr>PatchAbbrev = 1, AttrTag = DW_AT_high_pc, NewAttrTag = DW_AT_ranges,
            NewAttrForm = DW_FORM_sec_offset\<rparr>]
    \<and> Patches (DebugInfoPatchers st2 MainBinary)
       = ps1 @ [LE32Patch 20 16] @ ps2 @ [LE32Patch 39 48]
    \<and> convertPending MainBinary exSubprogramAbbrev MainBinary st2 = Some st2"
proof -
  note t = shared_declaration_converted_once [where ?DIE1.0 = "exSubprogram 11 0x1000"
      and ?DIE2.0 = "exSubprogram 30 0x2000" and Abbrev = exSubprogramAbbrev
      and ?Address1.0 = "0x1000" and ?Address2.0 = "0x2000"
      and ?l1.0 = "exAttr DW_FORM_addr 0x1000 (Some 0x1000) 12"
      and ?h1.0 = "exAttr DW_FORM_data4 16 None 20"
      and ?l2.0 = "exAttr DW_FORM_addr 0x2000 (Some 0x2000) 31"
      and ?h2.0 = "exAttr DW_FORM_data4 16 None 39"
      and lf = DW_FORM_addr and hf = DW_FORM_data4 and Unit = "exUnit None []"
      and st = freshRewriter and A = MainBinary and P = MainBinary and BC = exBC
      and ?R1.0 = "\<lparr>LowPC = 0x5000, HighPC = 0x5010\<rparr>"
      and ?FR2.0 = "[\<lparr>LowPC = 0x6000, HighPC = 0x6008\<rparr>,
                             \<lparr>LowPC = 0x7000, HighPC = 0x7004\<rparr>, \<lparr>LowPC = 0x8000, HighPC = 0x8004\<rparr>]"
      and opts = exOpts and CachedRanges = Map.empty]
  have "\<exists>st1 st2 ps1 ps2.
      updateSubprogram exBC exOpts (exUnit None []) MainBinary MainBinary (exSubprogram 11 0x1000)
        (Map.empty, freshRewriter) = Some (Map.empty, st1)
    \<and> map_of (PendingRanges st1) 1
        = Some [(exSubprogram 11 0x1000, \<lparr>LowPC = 0x5000, HighPC = 0x5010\<rparr>)]
    \<and> updateSubprogram exBC exOpts (exUnit None []) MainBinary MainBinary (exSubprogram 30 0x2000)
        (Map.empty, st1) = Some (Map.empty, st2)
    \<and> 1 \<in> ConvertedRangesAbbrevs st2
    \<and> map_of (PendingRanges st2) 1 = None
    \<and> filter (\<lambda>p. PatchAbbrev p = 1 \<and> AttrTag p = DW_AT_high_pc) (AbbrevWriters st2 MainBinary)
       = [\<lparr>PatchAbbrev = 1, AttrTag = DW_AT_high_pc, NewAttrTag = DW_AT_ranges,
            NewAttrForm = DW_FORM_sec_offset\<rparr>]
    \<and> RangeLists (RangesSectionWriter st2) = [[\<lparr>LowPC = 0x5000, HighPC = 0x5010\<rparr>],
           [\<lparr>LowPC = 0x6000, HighPC = 0x6008\<rparr>,
                             \<lparr>LowPC = 0x7000, HighPC = 0x7004\<rparr>, \<lparr>LowPC = 0x8000, HighPC = 0x8004\<rparr>]]
    \<and> Patches (DebugInfoPatchers st2 MainBinary)
       = ps1 @ [LE32Patch 20 16] @ ps2 @ [LE32Patch 39 48]
    \<and> convertPending MainBinary exSubprogramAbbrev MainBinary st2 = Some st2
    \<and> (\<forall>DIE3 C3 r. getAbbreviationDeclarationPtr DIE3 = Some exSubprogramAbbrev
          \<longrightarrow> getLowAndHighPC DIE3 \<noteq> None
          \<longrightarrow> updateSubprogram exBC exOpts (exUnit None []) MainBinary MainBinary DIE3 (C3, st2) = Some r
          \<longrightarrow> AbbrevWriters (snd r) = AbbrevWriters st2
              \<and> ConvertedRangesAbbrevs (snd r) = ConvertedRangesAbbrevs st2)"
    using t
    by (simp add: exSubprogram_attrs exAttr_simps freshRewriter_simps exFunctionAt_simps
        isHighPcFormEightBytes_def NumBytesToFill_def)
  then show ?thesis by blast
qed

text \<open>
  Claim C2 on two pending subprograms with the range \<open>[0x5000, 0x5010)\<close>. In the main
  binary low-pc receives \<open>0x5000\<close> in 8 bytes and high-pc receives \<open>0x10\<close> in 4 bytes. In the
  split unit 7, where the address has index 3, low-pc receives 3 in its one byte and high-pc
  receives \<open>0x10\<close> in 4 bytes.
\<close>

theorem flush_patches_pending_entries_witness:
  "\<exists>st'. flushPendingRanges MainBinary exPendingRewriter = Some st' \<and> PendingRanges st' = []
     \<and> LE64Patch 12 0x5000 \<in> set (Patches (DebugInfoPatchers st' MainBinary))
     \<and> LE32Patch 20 0x10 \<in> set (Patches (DebugInfoPatchers st' MainBinary))
     \<and> UDataPatch 11 3 1 \<in> set (Patches (DebugInfoPatchers st' (DWO 7)))
     \<and> LE32Patch 12 0x10 \<in> set (Patches (DebugInfoPatchers st' (DWO 7)))"
proof -
  have e: "ExpectedLowHighPatches MainBinary (AddrWriter exPendingRewriter)
          (exSubprogram 11 0x1000, \<lparr>LowPC = 0x5000, HighPC = 0x5010\<rparr>)
        = Some (MainBinary, [LE64Patch 12 0x5000, LE32Patch 20 0x10])"
    "ExpectedLowHighPatches MainBinary (AddrWriter exPendingRewriter)
          (exIndexedSubprogram 10 0 0x1000, \<lparr>LowPC = 0x5000, HighPC = 0x5010\<rparr>)
        = Some (DWO 7, [UDataPatch 11 3 1, LE32Patch 12 0x10])"
    by (simp_all add: ExpectedLowHighPatches_def exSubprogram_attrs exIndexedSubprogram_attrs
        exAttr_simps isHighPcFormEightBytes_def exPendingRewriter_def getIndexFromAddress_def)
  have ok: "list_all (\<lambda>(k, es). list_all (PendingEntryOK (AddrWriter exPendingRewriter)) es)
              (PendingRanges exPendingRewriter)"
    by (simp add: exPendingRewriter_def PendingEntryOK_def exSubprogram_attrs
        exIndexedSubprogram_attrs exAttr_simps getIndexFromAddress_def)
  from flush_patches_pending_entries [OF ok, of MainBinary]
  show ?thesis using e
    by (auto simp add: PendingEntryFlushed_def exPendingRewriter_def)
qed

text \<open>
  Claim C5 on three additions, the third equal to the first.
\<close>

theorem cached_add_ranges_offsets_witness:
  "addRangesScope exEvents Map.empty exRangesWriter ! 0
     = addRangesScope exEvents Map.empty exRangesWriter ! 2
   \<and> addRangesScope exEvents Map.empty exRangesWriter ! 0
     \<noteq> addRangesScope exEvents Map.empty exRangesWriter ! 1
   \<and> addRangesScope exEvents Map.empty exRangesWriter = [16, 48, 16]"
proof -
  have w: "EmptyRangesOffset exRangesWriter < SectionOffset exRangesWriter"
    by (simp add: exRangesWriter_def)
  have e: "exEvents ! 0 = CachedAdd [\<lparr>LowPC = 1, HighPC = 2\<rparr>]"
    "exEvents ! 1 = CachedAdd [\<lparr>LowPC = 3, HighPC = 4\<rparr>]"
    "exEvents ! 2 = CachedAdd [\<lparr>LowPC = 1, HighPC = 2\<rparr>]"
    "length exEvents = 3"
    by (simp_all add: exEvents_def)
  have a: "addRangesScope exEvents Map.empty exRangesWriter ! 0
     = addRangesScope exEvents Map.empty exRangesWriter ! 2"
    using cached_add_ranges_offsets [where W = exRangesWriter and evs = exEvents and i = 0
        and j = 2, OF w _ _ e(1) e(3), THEN conjunct1] e(4)
    by simp
  have b: "addRangesScope exEvents Map.empty exRangesWriter ! 0
     \<noteq> addRangesScope exEvents Map.empty exRangesWriter ! 1"
    using cached_add_ranges_offsets [where W = exRangesWriter and evs = exEvents and i = 0
        and j = 1, OF w _ _ e(1) e(2), THEN conjunct2, THEN conjunct1] e(4)
    by simp
  have c: "addRangesScope exEvents Map.empty exRangesWriter = [16, 48, 16]"
    by (simp add: exEvents_def exRangesWriter_def addRangesCached_def addRanges_def)
  from a b c show ?thesis by simp
qed

lemma exBlock_attrs:
  "getAbbreviationDeclarationPtr (exBlock off a) = Some exBlockAbbrev"
  "findAttributeInfo (exBlock off a) DW_AT_ranges = Some (exAttr DW_FORM_sec_offset 0 None (off + 1))"
  "findAttributeIndex exBlockAbbrev DW_AT_ranges"
  "getAddressRanges (exBlock off a) = Some [\<lparr>LowPC = a, HighPC = a + 8\<rparr>]"
  by (simp_all add: exBlock_def exBlockAbbrev_def findAttributeInfo_def findAttributeIndex_def)

text \<open>
  Claim C9 on a lexical block at offset 70 whose function translates its ranges to the
  empty list: the ranges attribute at offset 71 receives the offset 0 of the empty list and
  the ranges section is unchanged.
\<close>

theorem empty_block_ranges_point_at_empty_offset_witness:
  "\<exists>st'. updateBlock exBC exOpts MainBinary MainBinary (exBlock 70 0x1000) (Map.empty, freshRewriter)
           = Some (Map.empty, st')
     \<and> RangesSectionWriter st' = \<lparr>EmptyRangesOffset = 0, SectionOffset = 16, RangeLists = []\<rparr>
     \<and> PendingRanges st' = []
     \<and> Patches (DebugInfoPatchers st' MainBinary) = [LE32Patch 71 0]"
proof -
  have "\<exists>st' ps. updateBlock exBC exOpts MainBinary MainBinary (exBlock 70 0x1000) (Map.empty, freshRewriter)
           = Some (Map.empty, st')
     \<and> RangesSectionWriter st' = RangesSectionWriter freshRewriter
     \<and> PendingRanges st' = PendingRanges freshRewriter
     \<and> ConvertedRangesAbbrevs st' = ConvertedRangesAbbrevs freshRewriter
     \<and> Patches (DebugInfoPatchers st' MainBinary) =
          Patches (DebugInfoPatchers freshRewriter MainBinary) @ ps @ [LE32Patch 71 0]
     \<and> (\<forall>DIE' C0 st0 C1 st1.
          updateBlock exBC exOpts MainBinary MainBinary DIE' (C0, st0) = Some (C1, st1) \<longrightarrow>
          PendingRanges st1 = PendingRanges st0)"
    using empty_block_ranges_point_at_empty_offset [where DIE = "exBlock 70 0x1000" and BC = exBC
        and Abbrev = exBlockAbbrev and r = "exAttr DW_FORM_sec_offset 0 None 71"
        and opts = exOpts and P = MainBinary and A = MainBinary and C = Map.empty
        and st = freshRewriter]
    by (simp add: exBlock_attrs exFunctionAt_simps exAttr_simps freshRewriter_simps
        getEmptyRangesOffset_def)
  then obtain st' ps where
    u: "updateBlock exBC exOpts MainBinary MainBinary (exBlock 70 0x1000) (Map.empty, freshRewriter)
           = Some (Map.empty, st')"
    and f: "RangesSectionWriter st' = RangesSectionWriter freshRewriter"
      "PendingRanges st' = PendingRanges freshRewriter"
    and p: "Patches (DebugInfoPatchers st' MainBinary) = ps @ [LE32Patch 71 0]"
    by (auto simp add: freshRewriter_simps)
  have "Patches (DebugInfoPatchers st' MainBinary) = [LE32Patch 71 0]"
    using u
    by (simp add: updateBlock_def exBlock_attrs exFunctionAt_simps addRangesCached_def
        getEmptyRangesOffset_def updateDWARFObjectAddressRanges_def exAttr_simps
        freshRewriter_simps getRangeBase_def Let_def split: prod.splits)
       (auto simp add: freshRewriter_simps)
  with u f show ?thesis by (auto simp add: freshRewriter_simps)
qed

text \<open>
  Claim C6, amended, on the subprogram at offset 11: the patches cover the 12 bytes from
  offset 12 to offset 23, and the bytes at offsets 11 and 24 of a section of 30 bytes keep
  their value.
\<close>

theorem conversion_patches_fill_fields_witness:
  "\<exists>st'. convertToRangesOffset (exSubprogram 11 0x1000) 16 MainBinary None freshRewriter = Some st'
     \<and> PatchedOffsets (Patches (DebugInfoPatchers st' MainBinary)) = {12 ..< 24}
     \<and> card (PatchedOffsets (Patches (DebugInfoPatchers st' MainBinary))) = 12
     \<and> length (applyPatch (DebugInfoPatchers st' MainBinary) (replicate 30 0) 0) = 30
     \<and> applyPatch (DebugInfoPatchers st' MainBinary) (replicate 30 7) 0 ! 11 = 7
     \<and> applyPatch (DebugInfoPatchers st' MainBinary) (replicate 30 7) 0 ! 24 = 7"
proof -
  have "\<exists>st' new. convertToRangesOffset (exSubprogram 11 0x1000) 16 MainBinary None freshRewriter = Some st'
     \<and> Patches (DebugInfoPatchers st' MainBinary) = new
     \<and> PatchedOffsets new = {12 ..< 24}
     \<and> sum_list (map (\<lambda>p. length (PatchBytes p)) new) = 12
     \<and> card (PatchedOffsets new) = 12
     \<and> (\<forall>Data DWPOffset.
          length (applyPatch (DebugInfoPatchers st' MainBinary) Data DWPOffset) = length Data
          \<and> (\<forall>i < length Data.
                DWPOffset + i \<notin> PatchedOffsets (Patches (DebugInfoPatchers st' MainBinary)) \<longrightarrow>
                applyPatch (DebugInfoPatchers st' MainBinary) Data DWPOffset ! i = Data ! i))"
    using conversion_patches_fill_fields [where DIE = "exSubprogram 11 0x1000"
        and l = "exAttr DW_FORM_addr 0x1000 (Some 0x1000) 12"
        and h = "exAttr DW_FORM_data4 16 None 20" and off = 16 and P = MainBinary
        and RangesBase = None and st = freshRewriter]
    by (simp add: exSubprogram_attrs exAttr_simps freshRewriter_simps HighPCFieldWidth_def
        isHighPcFormEightBytes_def)
  then obtain st' where
    c: "convertToRangesOffset (exSubprogram 11 0x1000) 16 MainBinary None freshRewriter = Some st'"
    and o: "PatchedOffsets (Patches (DebugInfoPatchers st' MainBinary)) = {12 ..< 24}"
    and a: "\<And>Data DWPOffset. length (applyPatch (DebugInfoPatchers st' MainBinary) Data DWPOffset) = length Data"
    and n: "\<And>Data DWPOffset i. i < length Data \<Longrightarrow>
                DWPOffset + i \<notin> PatchedOffsets (Patches (DebugInfoPatchers st' MainBinary)) \<Longrightarrow>
                applyPatch (DebugInfoPatchers st' MainBinary) Data DWPOffset ! i = Data ! i"
    by blast
  have "applyPatch (DebugInfoPatchers st' MainBinary) (replicate 30 7) 0 ! 11 = 7"
    "applyPatch (DebugInfoPatchers st' MainBinary) (replicate 30 7) 0 ! 24 = 7"
    using n [of 11 "replicate 30 7" 0] n [of 24 "replicate 30 7" 0] o by simp_all
  with c o a show ?thesis by auto
qed

text \<open>
  Claim C6 as stated fails for a split unit: with a low-pc that is a one-byte index into the
  address table and a 4-byte high-pc, the conversion emits a one-byte patch and a 4-byte
  patch, which replace the 5 bytes from offset 11 to offset 15, not 12 bytes.
\<close>

theorem conversion_patches_counterexample:
  "exConvertedPatches (exIndexedSubprogram 10 0 0x1000) (DWO 7)
     = Some [UDataPatch 11 0 1, LE32Patch 12 16]
   \<and> getForm (V (exAttr DW_FORM_data4 16 None 12)) = DW_FORM_data4
   \<and> findAttributeInfo (exIndexedSubprogram 10 0 0x1000) DW_AT_high_pc
       = Some (exAttr DW_FORM_data4 16 None 12)
   \<and> sum_list (map (\<lambda>p. length (PatchBytes p)) [UDataPatch 11 0 1, LE32Patch 12 16]) = 5
   \<and> PatchedOffsets [UDataPatch 11 0 1, LE32Patch 12 16] = {11 ..< 16}"
  by (auto simp add: exConvertedPatches_def convertToRangesOffset_def getRangeAttrData_def
      exIndexedSubprogram_attrs exAttr_simps isHighPcFormEightBytes_def Let_def absIntDiff_def
      getRangeBase_def addPatch_def freshRewriter_def SimpleBinaryPatcher_new_def
      length_PatchBytes PatchedOffsets_def PatchSpan_simps)

section \<open>A unit whose split unit was not loaded\<close>

text \<open>
  Claim C8, amended. For a compile unit that carries a DWO id whose split unit was not
  loaded, the driver does what it does for a unit without a split unit: it rewrites the unit
  itself with the patcher of the main binary, and nothing else. No patcher and no
  abbreviation writer of a split unit changes, nor do the names of the split units or the
  string writer. Both emission loops step over the unit: no file is written for it and the
  package gets no entry for it.
\<close>

theorem missing_split_unit_skips_split_work_only:
  assumes d: "getDWOId Unit = Some DId" and m: "getDWOCU BC DId = None"
  shows "processUnitDIE BC opts encode to_string CUIdx Unit st
           = updateUnitDebugInfo BC opts encode CUIdx Unit MainBinary MainBinary None st
     \<and> (\<forall>st'. processUnitDIE BC opts encode to_string CUIdx Unit st = Some st' \<longrightarrow>
           (\<forall>k. DebugInfoPatchers st' (DWO k) = DebugInfoPatchers st (DWO k))
         \<and> (\<forall>k. AbbrevWriters st' (DWO k) = AbbrevWriters st (DWO k))
         \<and> DWOIdToName st' = DWOIdToName st \<and> StrWriter st' = StrWriter st)
     \<and> writeDWOFilesLoop BC opts to_string finalizeAbbrev (Unit # rest) (Files, st)
           = writeDWOFilesLoop BC opts to_string finalizeAbbrev rest (Files, st)
     \<and> writeDWPLoop BC finalizeAbbrev (Unit # rest) (Out, st)
           = writeDWPLoop BC finalizeAbbrev rest (Out, st)
     \<and> writeDWOFilesLoop BC opts to_string finalizeAbbrev [Unit] (Files, st) = Some (Files, st)
     \<and> writeDWPLoop BC finalizeAbbrev [Unit] (Out, st) = Some (True, Out, st)"
proof -
  have p: "processUnitDIE BC opts encode to_string CUIdx Unit st
           = updateUnitDebugInfo BC opts encode CUIdx Unit MainBinary MainBinary None st"
    using d m by (simp add: processUnitDIE_def)
  have k: "\<forall>st'. processUnitDIE BC opts encode to_string CUIdx Unit st = Some st' \<longrightarrow>
           (\<forall>k. DebugInfoPatchers st' (DWO k) = DebugInfoPatchers st (DWO k))
         \<and> (\<forall>k. AbbrevWriters st' (DWO k) = AbbrevWriters st (DWO k))
         \<and> DWOIdToName st' = DWOIdToName st \<and> StrWriter st' = StrWriter st"
  proof (intro allI impI)
    fix st' assume "processUnitDIE BC opts encode to_string CUIdx Unit st = Some st'"
    then have "updateUnitDebugInfo BC opts encode CUIdx Unit MainBinary MainBinary None st = Some st'"
      unfolding p .
    then have "OthersKept MainBinary MainBinary st st'" by (rule updateUnitDebugInfo_kept)
    then show "(\<forall>k. DebugInfoPatchers st' (DWO k) = DebugInfoPatchers st (DWO k))
         \<and> (\<forall>k. AbbrevWriters st' (DWO k) = AbbrevWriters st (DWO k))
         \<and> DWOIdToName st' = DWOIdToName st \<and> StrWriter st' = StrWriter st"
      by (simp add: OthersKept_def)
  qed
  show ?thesis using p k d m by simp
qed

lemma exSkeleton_simps:
  "getDWOId exSkeleton = Some 7" "getDWOCU exBC 7 = None"
  "Entries exSkeleton = [exSkeletonDie]" "getUnitOffset exSkeleton = 0"
  "getHeaderSize exSkeleton = 11" "getNextUnitOffset exSkeleton = 100"
  "isDWOUnit exSkeleton = False" "getVersion exSkeleton = 4"
  "DWOName exSkeleton = ''a''" "getShortName exSkeleton = Some ''a.c''"
  by (simp_all add: exSkeleton_def exUnit_def exBC_def)

lemma exSkeletonDie_simps:
  "getAbbreviationDeclarationPtr exSkeletonDie = Some exSkeletonAbbrev"
  "getTag exSkeletonDie = DW_TAG_compile_unit" "hasChildren exSkeletonAbbrev = False"
  "getAddressRanges exSkeletonDie = Some [\<lparr>LowPC = 0x1000, HighPC = 0x1010\<rparr>]"
  "findAttributeInfo exSkeletonDie DW_AT_ranges = Some (exAttr DW_FORM_sec_offset 0 None 20)"
  "findAttributeIndex exSkeletonAbbrev DW_AT_ranges"
  "NextOffset exSkeletonDie = 24" "getOffset exSkeletonDie = 11"
  by (simp_all add: exSkeletonDie_def exSkeletonAbbrev_def getTag_def findAttributeInfo_def
      findAttributeIndex_def)

lemma exSkeleton_rewritten:
  "PatchesAndDiags (updateUnitDebugInfo exBC exOpts exEncode 0 exSkeleton MainBinary MainBinary None
      freshRewriter) = Some ([LE32Patch 20 16], [])"
  by (simp add: PatchesAndDiags_def updateUnitDebugInfo_def exSkeleton_simps exSkeletonDie_simps
      updateDIE_def updateCompileUnit_def addRanges_def addCURanges_def exBC_def
      updateDWARFObjectAddressRanges_def getRangeBase_def addPatch_def exAttr_simps
      freshRewriter_def SimpleBinaryPatcher_new_def Let_def)

text \<open>
  Claim C8, amended, on the skeleton unit with the DWO id 7: the driver returns, the split
  unit 7 has no patch, and both emission loops return what they were given.
\<close>

theorem missing_split_unit_skips_split_work_only_witness:
  "\<exists>st'. processUnitDIE exBC exOpts exEncode exToString 0 exSkeleton freshRewriter = Some st'
     \<and> Patches (DebugInfoPatchers st' (DWO 7)) = []
     \<and> AbbrevWriters st' (DWO 7) = []
     \<and> writeDWOFilesLoop exBC exOpts exToString exFinalizeAbbrev [exSkeleton] ([], st')
          = Some ([], st')
     \<and> writeDWPLoop exBC exFinalizeAbbrev [exSkeleton] (exDWPOutput, st')
          = Some (True, exDWPOutput, st')"
proof -
  note t = missing_split_unit_skips_split_work_only [where Unit = exSkeleton and DId = 7
      and BC = exBC and opts = exOpts and encode = exEncode and to_string = exToString
      and CUIdx = 0 and finalizeAbbrev = exFinalizeAbbrev, OF exSkeleton_simps(1,2)]
  obtain st' where u: "updateUnitDebugInfo exBC exOpts exEncode 0 exSkeleton MainBinary MainBinary
      None freshRewriter = Some st'"
    using exSkeleton_rewritten by (auto simp add: PatchesAndDiags_def)
  have p: "processUnitDIE exBC exOpts exEncode exToString 0 exSkeleton freshRewriter = Some st'"
    using t [of freshRewriter, THEN conjunct1] u by simp
  have k: "Patches (DebugInfoPatchers st' (DWO 7)) = []" "AbbrevWriters st' (DWO 7) = []"
    using t [of freshRewriter, THEN conjunct2, THEN conjunct1, rule_format, OF p]
    by (simp_all add: freshRewriter_simps)
  have w: "writeDWOFilesLoop exBC exOpts exToString exFinalizeAbbrev [exSkeleton] ([], st')
          = Some ([], st')"
    "writeDWPLoop exBC exFinalizeAbbrev [exSkeleton] (exDWPOutput, st') = Some (True, exDWPOutput, st')"
    using t [of st' "[]" "[]" exDWPOutput] by simp_all
  show ?thesis using p k w by blast
qed

text \<open>
  Claim C8 as stated fails: the split unit of the skeleton unit is not loaded, yet the driver
  patches the ranges attribute of the unit DIE, at offset 20, with the offset 16 of its
  ranges, and no diagnostic is emitted.
\<close>

theorem missing_split_unit_counterexample:
  "getDWOId exSkeleton = Some 7 \<and> getDWOCU exBC 7 = None
   \<and> PatchesAndDiags (processUnitDIE exBC exOpts exEncode exToString 0 exSkeleton freshRewriter)
       = Some ([LE32Patch 20 16], [])"
  using exSkeleton_rewritten by (simp add: processUnitDIE_def exSkeleton_simps)

section \<open>A duplicate signature in the package\<close>









end
